theory Spec2Isabelle
  imports
    Complex_Main
    "HOL-Library.Word"
    "HOL-Library.AList"
    "HOL-Library.List_Lexorder"
    "HOL-Library.Multiset"
begin

unbundle bit_operations_syntax

section \<open>Python values\<close>

text \<open>
  A Python \<open>bytes\<close> object is a list of 8-bit words; Python compares two of them
  lexicographically on the unsigned byte values, which is the order of
  \<open>HOL-Library.List_Lexorder\<close> on \<open>8 word list\<close>.  Every exception the modelled
  code can raise is a value of \<open>py_error\<close>; a fallible function returns
  \<open>py_error + 'a\<close> with \<open>Inl\<close> for the raised exception.  \<open>NotReturned\<close> is not
  an exception: it marks a loop that would run forever.
\<close>

type_synonym byte = "8 word"
type_synonym bytes = "byte list"

datatype py_error =
    AttributeError
  | IndexError
  | KeyError
  | TypeError
  | ValueError
  | SerializationError
  | OSError
  | ExternalError
  | NotReturned

text \<open>
  A Python \<open>dict\<close> keeps its items in insertion order: it is an association list
  with distinct keys.  \<open>d[k] = v\<close> is \<open>AList.update k v d\<close> (in place for a key that
  is present, appended otherwise), \<open>del d[k]\<close> is \<open>AList.delete k d\<close>, \<open>k in d\<close> is
  \<open>dict_in k d\<close>, \<open>d.values()\<close> is \<open>map snd d\<close>, and \<open>d.copy()\<close> is \<open>d\<close> itself.
\<close>

type_synonym ('k, 'v) dict = "('k \<times> 'v) list"

definition dict_in :: "'k \<Rightarrow> ('k, 'v) dict \<Rightarrow> bool" where
  "dict_in k d = (map_of d k \<noteq> None)"

subsection \<open>Hex helpers of \<open>util\<close>: \<open>bh2u = bytes.hex\<close>, \<open>hfu = binascii.hexlify\<close>, \<open>bfh = bytes.fromhex\<close>\<close>

definition hex_digit :: "nat \<Rightarrow> char" where
  "hex_digit n = ''0123456789abcdef'' ! n"

definition bh2u :: "bytes \<Rightarrow> string" where
  "bh2u x = concat (map (\<lambda>b. [hex_digit (unat b div 16), hex_digit (unat b mod 16)]) x)"

definition hfu :: "bytes \<Rightarrow> string" where
  "hfu x = bh2u x"

definition hex_val :: "char \<Rightarrow> nat option" where
  "hex_val c =
     (let n = (of_char c :: nat) in
      if 48 \<le> n \<and> n \<le> 57 then Some (n - 48)
      else if 97 \<le> n \<and> n \<le> 102 then Some (n - 87)
      else if 65 \<le> n \<and> n \<le> 70 then Some (n - 55)
      else None)"

definition is_space :: "char \<Rightarrow> bool" where
  "is_space c = ((of_char c :: nat) \<in> {9, 10, 11, 12, 13, 32})"

fun bfh :: "string \<Rightarrow> py_error + bytes" where
  "bfh [] = Inr []"
| "bfh [c] = (if is_space c then Inr [] else Inl ValueError)"
| "bfh (c # d # cs) =
     (if is_space c then bfh (d # cs)
      else (case (hex_val c, hex_val d) of
              (Some a, Some b) \<Rightarrow>
                (case bfh cs of
                   Inl e \<Rightarrow> Inl e
                 | Inr bs \<Rightarrow> Inr (of_nat (16 * a + b) # bs))
            | _ \<Rightarrow> Inl ValueError))"

section \<open>SHA-256\<close>

text \<open>
  \<open>crypto.sha256d\<close> is SHA-256 applied twice (FIPS 180-4).  The functions of this
  module are stated for an arbitrary function \<open>H\<close> in its place; \<open>sha256d_fips\<close> is the
  function itself, for statements about concrete hashes.
\<close>

type_synonym w32 = "32 word"

definition K256 :: "w32 list" where
  "K256 =
    [1116352408, 1899447441, 3049323471, 3921009573, 961987163, 1508970993, 2453635748, 2870763221,
     3624381080, 310598401, 607225278, 1426881987, 1925078388, 2162078206, 2614888103, 3248222580,
     3835390401, 4022224774, 264347078, 604807628, 770255983, 1249150122, 1555081692, 1996064986,
     2554220882, 2821834349, 2952996808, 3210313671, 3336571891, 3584528711, 113926993, 338241895,
     666307205, 773529912, 1294757372, 1396182291, 1695183700, 1986661051, 2177026350, 2456956037,
     2730485921, 2820302411, 3259730800, 3345764771, 3516065817, 3600352804, 4094571909, 275423344,
     430227734, 506948616, 659060556, 883997877, 958139571, 1322822218, 1537002063, 1747873779,
     1955562222, 2024104815, 2227730452, 2361852424, 2428436474, 2756734187, 3204031479, 3329325298]"

definition H256 :: "w32 list" where
  "H256 =
    [1779033703, 3144134277, 1013904242, 2773480762, 1359893119, 2600822924, 528734635, 1541459225]"

definition rotr :: "nat \<Rightarrow> w32 \<Rightarrow> w32" where
  "rotr n x = drop_bit n x OR push_bit (32 - n) x"

definition Ch :: "w32 \<Rightarrow> w32 \<Rightarrow> w32 \<Rightarrow> w32" where
  "Ch x y z = (x AND y) XOR (NOT x AND z)"

definition Maj :: "w32 \<Rightarrow> w32 \<Rightarrow> w32 \<Rightarrow> w32" where
  "Maj x y z = (x AND y) XOR (x AND z) XOR (y AND z)"

definition bsig0 :: "w32 \<Rightarrow> w32" where
  "bsig0 x = rotr 2 x XOR rotr 13 x XOR rotr 22 x"

definition bsig1 :: "w32 \<Rightarrow> w32" where
  "bsig1 x = rotr 6 x XOR rotr 11 x XOR rotr 25 x"

definition ssig0 :: "w32 \<Rightarrow> w32" where
  "ssig0 x = rotr 7 x XOR rotr 18 x XOR drop_bit 3 x"

definition ssig1 :: "w32 \<Rightarrow> w32" where
  "ssig1 x = rotr 17 x XOR rotr 19 x XOR drop_bit 10 x"

definition be_word :: "bytes \<Rightarrow> w32" where
  "be_word bs = foldl (\<lambda>acc b. push_bit 8 acc OR ucast b) 0 bs"

definition word_bytes :: "w32 \<Rightarrow> bytes" where
  "word_bytes w = [ucast (drop_bit 24 w), ucast (drop_bit 16 w), ucast (drop_bit 8 w), ucast w]"

fun chunks :: "nat \<Rightarrow> nat \<Rightarrow> 'a list \<Rightarrow> 'a list list" where
  "chunks 0 n xs = []"
| "chunks (Suc k) n xs = take n xs # chunks k n (drop n xs)"

definition sha_pad :: "bytes \<Rightarrow> bytes" where
  "sha_pad m =
     (let l = length m; k = (119 - l mod 64) mod 64
      in m @ [0x80] @ replicate k 0 @
         map (\<lambda>i. ucast (drop_bit (8 * (7 - i)) (of_nat (l * 8) :: 64 word))) [0 ..< 8])"

fun schedule :: "nat \<Rightarrow> w32 list \<Rightarrow> w32 list" where
  "schedule 0 w = w"
| "schedule (Suc n) w =
     schedule n (w @ [ssig1 (w ! (length w - 2)) + w ! (length w - 7)
                      + ssig0 (w ! (length w - 15)) + w ! (length w - 16)])"

type_synonym sha_state = "w32 \<times> w32 \<times> w32 \<times> w32 \<times> w32 \<times> w32 \<times> w32 \<times> w32"

fun sha_round :: "sha_state \<Rightarrow> w32 \<times> w32 \<Rightarrow> sha_state" where
  "sha_round (a, b, c, d, e, f, g, h) (k, w) =
     (let t1 = h + bsig1 e + Ch e f g + k + w;
          t2 = bsig0 a + Maj a b c
      in (t1 + t2, a, b, c, d + t1, e, f, g))"

fun state_list :: "sha_state \<Rightarrow> w32 list" where
  "state_list (a, b, c, d, e, f, g, h) = [a, b, c, d, e, f, g, h]"

definition list_state :: "w32 list \<Rightarrow> sha_state" where
  "list_state xs = (xs ! 0, xs ! 1, xs ! 2, xs ! 3, xs ! 4, xs ! 5, xs ! 6, xs ! 7)"

definition sha_compress :: "w32 list \<Rightarrow> bytes \<Rightarrow> w32 list" where
  "sha_compress st blk =
     (let w = schedule 48 (map be_word (chunks 16 4 blk))
      in map2 (+) st (state_list (foldl sha_round (list_state st) (zip K256 w))))"

definition sha256 :: "bytes \<Rightarrow> bytes" where
  "sha256 m =
     (let p = sha_pad m
      in concat (map word_bytes (foldl sha_compress H256 (chunks (length p div 64) 64 p))))"

definition sha256d_fips :: "bytes \<Rightarrow> bytes" where
  "sha256d_fips m = sha256 (sha256 m)"

section \<open>Merkle roots\<close>

text \<open>
  The functions below take the hash function as the parameter \<open>H\<close>.

  \<open>MNList.calc_merkle_root\<close>.  \<open>merkle_loop\<close> is the \<open>while True\<close> loop: it leaves
  with the list when one hash remains; otherwise it appends the last hash to a
  level of odd length, hashes the pairs \<open>hashes[i*2] + hashes[i*2+1]\<close> and goes on
  with the result.  On the empty list the loop of the source would go on forever
  with the empty list: that is the result \<open>None\<close>.
\<close>

function merkle_loop :: "(bytes \<Rightarrow> bytes) \<Rightarrow> bytes list \<Rightarrow> bytes list option" where
  "merkle_loop H hashes =
     (if length hashes = 1 then Some hashes
      else if length hashes = 0 then None
      else
        (let hashes2 = (if length hashes mod 2 = 1 then hashes @ [last hashes] else hashes);
             res = map (\<lambda>i. H (hashes2 ! (i * 2) @ hashes2 ! (i * 2 + 1)))
                       [0 ..< length hashes2 div 2]
         in merkle_loop H res))"
  by pat_completeness auto
termination
  by (relation "measure (\<lambda>(H, hashes). length hashes)") (auto split: if_splits)

definition calc_merkle_root :: "(bytes \<Rightarrow> bytes) \<Rightarrow> bytes list \<Rightarrow> string option" where
  "calc_merkle_root H hashes =
     (let hashes1 = (if length hashes = 0 then [replicate 32 0] else hashes)
      in case merkle_loop H hashes1 of
           None \<Rightarrow> None
         | Some hs \<Rightarrow> Some (hfu (rev (hs ! 0))))"

text \<open>
  The tree as the specification words it: adjacent hashes are paired, and the last
  hash of a level of odd length is paired with itself.
\<close>

fun merkle_level :: "(bytes \<Rightarrow> bytes) \<Rightarrow> bytes list \<Rightarrow> bytes list" where
  "merkle_level H [] = []"
| "merkle_level H [a] = [H (a @ a)]"
| "merkle_level H (a # b # xs) = H (a @ b) # merkle_level H xs"

subsection \<open>The merkle-root checks of the commitment transaction\<close>

text \<open>
  \<open>DashCbTx\<close>, the extra payload of a coinbase (type 5) transaction, and the
  \<open>Transaction\<close> fields the masternode list reads.  \<open>txid\<close> is what \<open>cbtx.txid()\<close>
  returns.  Both classes live outside this module.
\<close>

record dash_cbtx =
  cb_version :: int
  cb_height :: int
  merkleRootMNList :: bytes
  merkleRootQuorums :: bytes

record transaction =
  tx_version :: int
  tx_type :: int
  extra_payload :: dash_cbtx
  txid :: string

text \<open>
  \<open>sorted(xs, key=f)\<close>: Python computes the key of every element first, in order
  (the first exception ends the call), then sorts stably and ascending by key.
\<close>

fun try_map :: "('a \<Rightarrow> py_error + 'b) \<Rightarrow> 'a list \<Rightarrow> py_error + 'b list" where
  "try_map f [] = Inr []"
| "try_map f (x # xs) =
     (case f x of
        Inl e \<Rightarrow> Inl e
      | Inr y \<Rightarrow> (case try_map f xs of Inl e \<Rightarrow> Inl e | Inr ys \<Rightarrow> Inr (y # ys)))"

definition py_sorted :: "('a \<Rightarrow> py_error + 'k::linorder) \<Rightarrow> 'a list \<Rightarrow> py_error + 'a list" where
  "py_sorted f xs =
     (case try_map f xs of
        Inl e \<Rightarrow> Inl e
      | Inr ks \<Rightarrow> Inr (map snd (sort_key fst (zip ks xs))))"

text \<open>The sort key of \<open>check_sml_merkle_root\<close>: \<open>lambda x: bfh(x[0])[::-1]\<close>.\<close>

definition sml_sort_key :: "string \<times> bytes \<Rightarrow> py_error + bytes" where
  "sml_sort_key x = (case bfh (fst x) of Inl e \<Rightarrow> Inl e | Inr b \<Rightarrow> Inr (rev b))"

definition check_sml_merkle_root ::
  "(bytes \<Rightarrow> bytes) \<Rightarrow> (string, bytes) dict \<Rightarrow> dash_cbtx \<Rightarrow> py_error + bool" where
  "check_sml_merkle_root H sml_hashes_dict cbtx_extra =
     (case py_sorted sml_sort_key sml_hashes_dict of
        Inl e \<Rightarrow> Inl e
      | Inr items \<Rightarrow>
          (let sml_hashes = map snd items in
           case calc_merkle_root H sml_hashes of
             None \<Rightarrow> Inl NotReturned
           | Some mr_calculated \<Rightarrow>
               (let mr_cbtx = hfu (rev (merkleRootMNList cbtx_extra)) in
                if mr_calculated \<noteq> mr_cbtx then Inr False else Inr True)))"

definition check_llmq_merkle_root ::
  "(bytes \<Rightarrow> bytes) \<Rightarrow> (string, bytes) dict \<Rightarrow> dash_cbtx \<Rightarrow> py_error + bool" where
  "check_llmq_merkle_root H llmq_hashes_dict cbtx_extra =
     (let llmq_hashes = sort (map snd llmq_hashes_dict) in
      case calc_merkle_root H llmq_hashes of
        None \<Rightarrow> Inl NotReturned
      | Some mr_calculated \<Rightarrow>
          (let mr_cbtx = hfu (rev (merkleRootQuorums cbtx_extra)) in
           if mr_calculated \<noteq> mr_cbtx then Inr False else Inr True))"

section \<open>The masternode list\<close>

subsection \<open>Data\<close>

text \<open>
  \<open>DashSMLEntry\<close> and \<open>DashQFCommitMsg\<close> (module \<open>dash_msg\<close>) with the fields this
  module reads; the other fields are kept as one opaque field.  \<open>llmqType\<close> is one
  byte on the wire.  A deleted quorum of a diff carries the same two identifying
  fields.
\<close>

record dash_sml_entry =
  proRegTxHash :: bytes
  isValid :: bool
  sml_fields :: bytes

record dash_qfcommit =
  llmqType :: byte
  quorumHash :: bytes
  qf_fields :: bytes

record deleted_quorum =
  dq_quorumHash :: bytes
  dq_llmqType :: byte

datatype json =
    JNull
  | JBool bool
  | JNum int
  | JStr string
  | JArr "json list"
  | JObj "(string \<times> json) list"

text \<open>
  The dict \<open>recent_list\<close>: the two heights (any JSON value when loaded from the
  file, absent when the file has no such key), the four maps, and whatever other
  keys the file held.
\<close>

record recent_list_dict =
  rl_protx_height :: "json option"
  rl_llmq_height :: "json option"
  rl_protx_mns :: "(string, dash_sml_entry) dict"
  rl_sml_hashes :: "(string, bytes) dict"
  rl_quorums :: "(string, dash_qfcommit) dict"
  rl_llmq_hashes :: "(string, bytes) dict"
  rl_other :: "(string, json) dict"

text \<open>
  What the dict \<open>DEFAULT_MN_LIST\<close> of the module holds when the module is loaded.
  The dict is one object, and it can be written to: see \<open>module_default_mn_list\<close>
  below.
\<close>

definition DEFAULT_MN_LIST :: recent_list_dict where
  "DEFAULT_MN_LIST =
     \<lparr>rl_protx_height = Some (JNum 0), rl_llmq_height = Some (JNum 0),
      rl_protx_mns = [], rl_sml_hashes = [],
      rl_quorums = [], rl_llmq_hashes = [], rl_other = []\<rparr>"

definition RECENT_LIST_FNAME :: string where
  "RECENT_LIST_FNAME = ''recent_protx_list.gz''"

definition PROTX_INFO_FNAME :: string where
  "PROTX_INFO_FNAME = ''protx_info.gz''"

text \<open>
  The network object: the two heights it reports and
  \<open>blockchain().read_header\<close>, a header being a dict of its fields.
\<close>

record network =
  get_local_height :: int
  get_server_height :: int
  read_header :: "int \<Rightarrow> (string, string) dict option"

text \<open>
  What the module calls outside itself: callbacks triggered, diff requests sent to
  the network, and files written.  They are recorded in the order they happen.
\<close>

datatype cb_value =
    Diff_updated int "string list" "string list"
  | Info_updated string
  | No_value

datatype effect =
    Trigger_callback string cb_value
  | Getmnlistd bool
  | Request_protx_diff
  | Write_gz string json

text \<open>
  The functions of other modules and of the Python library that the code calls.
  \<open>gzip_write_ok path content\<close> tells whether dumping \<open>content\<close> as JSON into the
  gzip file \<open>path\<close> succeeds.
\<close>

record env =
  sha256d :: "bytes \<Rightarrow> bytes"
  DIP3_ACTIVATION_HEIGHT :: int
  sml_serialize :: "dash_sml_entry \<Rightarrow> bytes"
  sml_serialize_hex :: "dash_sml_entry \<Rightarrow> string"
  sml_from_hex :: "string \<Rightarrow> py_error + dash_sml_entry"
  sml_from_dict :: "json \<Rightarrow> py_error + dash_sml_entry"
  qf_serialize :: "dash_qfcommit \<Rightarrow> bytes"
  qf_serialize_hex :: "dash_qfcommit \<Rightarrow> string"
  qf_from_hex :: "string \<Rightarrow> py_error + dash_qfcommit"
  tx_deserialize :: "string \<Rightarrow> py_error + transaction"
  hash_merkle_root :: "string list \<Rightarrow> string \<Rightarrow> int \<Rightarrow> py_error + string"
  gzip_read :: "string \<Rightarrow> py_error + bytes"
  utf8_decode :: "bytes \<Rightarrow> py_error + string"
  json_loads :: "string \<Rightarrow> py_error + json"
  gzip_write_ok :: "string \<Rightarrow> json \<Rightarrow> bool"

definition DIP3_DISABLED :: int where "DIP3_DISABLED = 0"
definition DIP3_ENABLED :: int where "DIP3_ENABLED = 1"
definition DIP3_UNKNOWN :: int where "DIP3_UNKNOWN = 2"
definition LLMQ_OFFSET :: int where "LLMQ_OFFSET = 8"

text \<open>
  The fields of an \<open>MNList\<close> object.  The two queues of capacity one hold the
  parameters of the request that is outstanding, if any.

  \<open>_read_recent_list\<close> returns the dict \<open>DEFAULT_MN_LIST\<close> of the module itself, not a
  copy, when it falls back, and line 113 stores what it returns in
  \<open>self.recent_list\<close>.  So \<open>self.recent_list\<close> can be that very object, and every
  \<open>self.recent_list[k] = v\<close> then writes to the dict of the module.  The state
  therefore holds the two dicts that matter and which of them \<open>self.recent_list\<close>
  is: \<open>recent_list\<close> is what the dict that \<open>self.recent_list\<close> refers to holds;
  \<open>recent_list_is_default\<close> says that this dict is the \<open>DEFAULT_MN_LIST\<close> object of the
  module; \<open>default_mn_list\<close> is what the \<open>DEFAULT_MN_LIST\<close> object holds when
  \<open>self.recent_list\<close> is another dict.  The maps inside the dicts are replaced, never
  written to in place, so only the dicts themselves are shared.
\<close>

record mnlist =
  config_path :: "string option"
  network :: "network option"
  dash_net_enabled :: bool
  load_mns :: bool
  recent_list :: recent_list_dict
  protx_info :: "(string, json) dict"
  last_protx_info_save_time :: real
  mns_outpoints :: "(string, string) dict"
  protx_height :: int
  llmq_height :: int
  protx_mns :: "(string, dash_sml_entry) dict"
  sml_hashes :: "(string, bytes) dict"
  quorums :: "(string, dash_qfcommit) dict"
  llmq_hashes :: "(string, bytes) dict"
  protx_state :: int
  diff_deleted_mns :: "string list"
  diff_hashes :: "string list"
  info_hash :: string
  sent_getmnlistd :: "(int \<times> int) option"
  sent_protx_diff :: "(int \<times> int) option"
  effects :: "effect list"
  recent_list_is_default :: bool
  default_mn_list :: recent_list_dict

text \<open>What the dict \<open>DEFAULT_MN_LIST\<close> of the module holds in a state.\<close>

definition module_default_mn_list :: "mnlist \<Rightarrow> recent_list_dict" where
  "module_default_mn_list s =
     (if recent_list_is_default s then recent_list s else default_mn_list s)"

text \<open>\<open>not self.config.path\<close> holds for \<open>None\<close> and for the empty string.\<close>

definition config_path_set :: "string option \<Rightarrow> bool" where
  "config_path_set p = (case p of None \<Rightarrow> False | Some d \<Rightarrow> d \<noteq> [])"

text \<open>\<open>os.path.join\<close> of a non-empty directory and a relative file name (POSIX).\<close>

definition os_path_join :: "string \<Rightarrow> string \<Rightarrow> string" where
  "os_path_join d f = (if d \<noteq> [] \<and> last d = CHR ''/'' then d @ f else d @ ''/'' @ f)"

subsection \<open>Readiness\<close>

definition llmq_tip :: "mnlist \<Rightarrow> py_error + int" where
  "llmq_tip s =
     (case network s of
        None \<Rightarrow> Inl AttributeError
      | Some n \<Rightarrow> Inr (get_local_height n - LLMQ_OFFSET))"

definition protx_loading :: "mnlist \<Rightarrow> py_error + bool" where
  "protx_loading s =
     (if \<not> load_mns s then Inr False
      else (case network s of
              None \<Rightarrow> Inl AttributeError
            | Some n \<Rightarrow> Inr (get_local_height n > protx_height s)))"

definition protx_ready :: "env \<Rightarrow> mnlist \<Rightarrow> bool" where
  "protx_ready E s =
     (case network s of
        None \<Rightarrow> False
      | Some n \<Rightarrow>
          if \<not> load_mns s then False
          else
            (let server_height = get_server_height n in
             if server_height \<le> DIP3_ACTIVATION_HEIGHT E then False
             else if server_height - protx_height s > 24 then False
             else if length (protx_mns s) = 0 then False
             else True))"

definition llmq_loading :: "mnlist \<Rightarrow> py_error + bool" where
  "llmq_loading s =
     (if \<not> dash_net_enabled s then Inr False
      else (case llmq_tip s of
              Inl e \<Rightarrow> Inl e
            | Inr tip \<Rightarrow> Inr (tip > llmq_height s)))"

definition llmq_ready :: "env \<Rightarrow> mnlist \<Rightarrow> bool" where
  "llmq_ready E s =
     (case network s of
        None \<Rightarrow> False
      | Some n \<Rightarrow>
          if \<not> dash_net_enabled s then False
          else
            (let server_height = get_server_height n in
             if server_height \<le> DIP3_ACTIVATION_HEIGHT E then False
             else if server_height - llmq_height s > 24 + LLMQ_OFFSET then False
             else if length (quorums s) = 0 then False
             else True))"

text \<open>
  \<open>protx_info_completeness\<close> is a float in the source; the quotient of the two
  counts is taken in the reals here.
\<close>

definition protx_info_completeness :: "mnlist \<Rightarrow> real" where
  "protx_info_completeness s =
     (let protx_mns_cnt = length (protx_mns s);
          protx_info_cnt = length (protx_info s)
      in min 1 (if protx_mns_cnt \<noteq> 0 then real protx_info_cnt / real protx_mns_cnt else 0))"

subsection \<open>The responsible quorum\<close>

text \<open>\<open>pack('B', q.llmqType)\<close> is the one byte \<open>llmqType q\<close>.\<close>

definition calc_responsible_quorum ::
  "(bytes \<Rightarrow> bytes) \<Rightarrow> mnlist \<Rightarrow> int \<Rightarrow> bytes \<Rightarrow> dash_qfcommit option" where
  "calc_responsible_quorum H s llmq_type request_id =
     (let res = map (\<lambda>q. (H ([llmqType q] @ quorumHash q @ request_id), q))
                    (filter (\<lambda>q. \<not> uint (llmqType q) \<noteq> llmq_type) (map snd (quorums s)));
          res = sort_key fst res
      in case res of [] \<Rightarrow> None | r # _ \<Rightarrow> Some (snd r))"

subsection \<open>The snapshot files\<close>

text \<open>\<open>rl[key]\<close> and \<open>v.items()\<close> on a value that \<open>json.loads\<close> returned.\<close>

definition json_getitem :: "json \<Rightarrow> string \<Rightarrow> py_error + json" where
  "json_getitem j k =
     (case j of
        JObj d \<Rightarrow> (case map_of d k of None \<Rightarrow> Inl KeyError | Some v \<Rightarrow> Inr v)
      | _ \<Rightarrow> Inl TypeError)"

definition json_items :: "json \<Rightarrow> py_error + (string \<times> json) list" where
  "json_items j = (case j of JObj d \<Rightarrow> Inr d | _ \<Rightarrow> Inl AttributeError)"

definition json_str :: "json \<Rightarrow> py_error + string" where
  "json_str j = (case j of JStr x \<Rightarrow> Inr x | _ \<Rightarrow> Inl TypeError)"

text \<open>
  One of the four loops of \<open>_read_recent_list\<close>:
  \<open>for k, v in rl[key].items(): rl[key][k] = conv(v)\<close>.
\<close>

definition read_map ::
  "json \<Rightarrow> string \<Rightarrow> (string \<Rightarrow> py_error + 'v) \<Rightarrow> py_error + (string, 'v) dict" where
  "read_map rl key conv =
     (case json_getitem rl key of
        Inl e \<Rightarrow> Inl e
      | Inr m \<Rightarrow>
          (case json_items m of
             Inl e \<Rightarrow> Inl e
           | Inr kvs \<Rightarrow>
               try_map (\<lambda>(k, v). case json_str v of
                                    Inl e \<Rightarrow> Inl e
                                  | Inr x \<Rightarrow> (case conv x of Inl e \<Rightarrow> Inl e | Inr y \<Rightarrow> Inr (k, y)))
                       kvs))"

definition bfh_reversed :: "string \<Rightarrow> py_error + bytes" where
  "bfh_reversed v = (case bfh v of Inl e \<Rightarrow> Inl e | Inr b \<Rightarrow> Inr (rev b))"

text \<open>The body of the \<open>try\<close> block of \<open>_read_recent_list\<close>.\<close>

definition read_recent_list_try :: "env \<Rightarrow> string \<Rightarrow> py_error + recent_list_dict" where
  "read_recent_list_try E path =
     (case gzip_read E path of
        Inl e \<Rightarrow> Inl e
      | Inr data \<Rightarrow>
     (case utf8_decode E data of
        Inl e \<Rightarrow> Inl e
      | Inr decoded \<Rightarrow>
     (case json_loads E decoded of
        Inl e \<Rightarrow> Inl e
      | Inr rl \<Rightarrow>
     (case read_map rl ''protx_mns'' (sml_from_hex E) of
        Inl e \<Rightarrow> Inl e
      | Inr mns \<Rightarrow>
     (case read_map rl ''sml_hashes'' bfh_reversed of
        Inl e \<Rightarrow> Inl e
      | Inr smlh \<Rightarrow>
     (case read_map rl ''quorums'' (qf_from_hex E) of
        Inl e \<Rightarrow> Inl e
      | Inr qs \<Rightarrow>
     (case read_map rl ''llmq_hashes'' bfh_reversed of
        Inl e \<Rightarrow> Inl e
      | Inr llmqh \<Rightarrow>
     (case rl of
        JObj d \<Rightarrow>
          Inr \<lparr>rl_protx_height = map_of d ''protx_height'',
               rl_llmq_height = map_of d ''llmq_height'',
               rl_protx_mns = mns, rl_sml_hashes = smlh,
               rl_quorums = qs, rl_llmq_hashes = llmqh,
               rl_other = filter (\<lambda>(k, v). k \<notin> set [''protx_height'', ''llmq_height'',
                                    ''protx_mns'', ''sml_hashes'', ''quorums'', ''llmq_hashes'']) d\<rparr>
      | _ \<Rightarrow> Inl TypeError))))))))"

text \<open>
  \<open>_read_recent_list\<close> returns a dict object: either the \<open>DEFAULT_MN_LIST\<close> object of
  the module (the first component is \<open>True\<close>), with what it holds at that moment, or
  a new dict with what the file held.
\<close>

definition read_recent_list :: "env \<Rightarrow> mnlist \<Rightarrow> bool \<times> recent_list_dict" where
  "read_recent_list E s =
     (case config_path s of
        None \<Rightarrow> (True, module_default_mn_list s)
      | Some d \<Rightarrow>
          if \<not> config_path_set (config_path s) then (True, module_default_mn_list s)
          else
            (let path = os_path_join d RECENT_LIST_FNAME in
             case read_recent_list_try E path of
               Inr rl \<Rightarrow> (False, rl)
             | Inl e \<Rightarrow> (True, module_default_mn_list s)))"

text \<open>
  Line 113 of \<open>__init__\<close>: \<open>self.recent_list = recent_list = self._read_recent_list()\<close>.
  The \<open>DEFAULT_MN_LIST\<close> object keeps what it holds.
\<close>

definition init_recent_list :: "env \<Rightarrow> mnlist \<Rightarrow> mnlist" where
  "init_recent_list E s =
     (let (is_default, rl) = read_recent_list E s
      in s\<lparr>default_mn_list := module_default_mn_list s,
           recent_list := rl,
           recent_list_is_default := is_default\<rparr>)"

definition read_protx_info_try :: "env \<Rightarrow> string \<Rightarrow> py_error + json" where
  "read_protx_info_try E path =
     (case gzip_read E path of
        Inl e \<Rightarrow> Inl e
      | Inr data \<Rightarrow>
          (case utf8_decode E data of
             Inl e \<Rightarrow> Inl e
           | Inr decoded \<Rightarrow> json_loads E decoded))"

definition read_protx_info :: "env \<Rightarrow> string option \<Rightarrow> json" where
  "read_protx_info E cfg_path =
     (case cfg_path of
        None \<Rightarrow> JObj []
      | Some d \<Rightarrow>
          if \<not> config_path_set cfg_path then JObj []
          else
            (let path = os_path_join d PROTX_INFO_FNAME in
             case read_protx_info_try E path of
               Inr info \<Rightarrow> info
             | Inl e \<Rightarrow> JObj []))"

text \<open>
  \<open>_save_recent_list\<close>: the dict that is dumped holds the values as hex strings.
  A failure of the write is logged and otherwise ignored.
\<close>

definition from_json_option :: "string \<Rightarrow> json option \<Rightarrow> (string \<times> json) list" where
  "from_json_option k v = (case v of None \<Rightarrow> [] | Some j \<Rightarrow> [(k, j)])"

definition recent_list_json :: "env \<Rightarrow> recent_list_dict \<Rightarrow> json" where
  "recent_list_json E rl =
     JObj (from_json_option ''protx_height'' (rl_protx_height rl)
           @ from_json_option ''llmq_height'' (rl_llmq_height rl)
           @ [(''protx_mns'', JObj (map (\<lambda>(k, v). (k, JStr (sml_serialize_hex E v))) (rl_protx_mns rl))),
              (''sml_hashes'', JObj (map (\<lambda>(k, v). (k, JStr (bh2u (rev v)))) (rl_sml_hashes rl))),
              (''quorums'', JObj (map (\<lambda>(k, v). (k, JStr (qf_serialize_hex E v))) (rl_quorums rl))),
              (''llmq_hashes'', JObj (map (\<lambda>(k, v). (k, JStr (bh2u (rev v)))) (rl_llmq_hashes rl)))]
           @ rl_other rl)"

definition save_recent_list :: "env \<Rightarrow> mnlist \<Rightarrow> mnlist" where
  "save_recent_list E s =
     (case config_path s of
        None \<Rightarrow> s
      | Some d \<Rightarrow>
          if \<not> config_path_set (config_path s) then s
          else
            (let path = os_path_join d RECENT_LIST_FNAME;
                 rlc = recent_list_json E (recent_list s)
             in if gzip_write_ok E path rlc
                then s\<lparr>effects := effects s @ [Write_gz path rlc]\<rparr>
                else s))"

definition save_protx_info :: "env \<Rightarrow> real \<Rightarrow> bool \<Rightarrow> mnlist \<Rightarrow> mnlist" where
  "save_protx_info E now force s =
     (case config_path s of
        None \<Rightarrow> s
      | Some d \<Rightarrow>
          if \<not> config_path_set (config_path s) then s
          else
            (let path = os_path_join d PROTX_INFO_FNAME;
                 recently_saved = (now - last_protx_info_save_time s < 10);
                 completed = (protx_info_completeness s \<ge> 1)
             in if recently_saved \<and> \<not> (force \<or> completed) then s
                else if gzip_write_ok E path (JObj (protx_info s))
                then s\<lparr>effects := effects s @ [Write_gz path (JObj (protx_info s))],
                       last_protx_info_save_time := now\<rparr>
                else s))"

subsection \<open>Notification and reset\<close>

definition notify :: "string \<Rightarrow> mnlist \<Rightarrow> mnlist" where
  "notify key s =
     (if key = ''mn-list-diff-updated'' then
        s\<lparr>diff_deleted_mns := [], diff_hashes := [],
          effects := effects s @
            [Trigger_callback key
               (Diff_updated (protx_state s) (diff_deleted_mns s) (diff_hashes s))]\<rparr>
      else if key = ''mn-list-info-updated'' then
        s\<lparr>info_hash := [],
          effects := effects s @ [Trigger_callback key (Info_updated (info_hash s))]\<rparr>
      else s\<lparr>effects := effects s @ [Trigger_callback key No_value]\<rparr>)"

text \<open>
  \<open>reset\<close>.  \<open>now\<close> is what \<open>time.time()\<close> returns.  The last two statements read
  \<open>self.network\<close>: they raise \<open>AttributeError\<close> when there is none, after the
  state was cleared.
\<close>

definition reset :: "env \<Rightarrow> real \<Rightarrow> mnlist \<Rightarrow> (py_error + unit) \<times> mnlist" where
  "reset E now s =
     (let s1 = s\<lparr>recent_list := (recent_list s)
                    \<lparr>rl_protx_height := Some (JNum 1), rl_llmq_height := Some (JNum 1),
                     rl_protx_mns := [], rl_sml_hashes := [],
                     rl_quorums := [], rl_llmq_hashes := []\<rparr>,
                  protx_height := 1, llmq_height := 1,
                  protx_mns := [], sml_hashes := [], quorums := [], llmq_hashes := [],
                  protx_info := [], mns_outpoints := []\<rparr>;
          s2 = save_recent_list E s1;
          s3 = save_protx_info E now True s2;
          s4 = s3\<lparr>protx_state := DIP3_UNKNOWN, diff_deleted_mns := [], diff_hashes := []\<rparr>;
          s5 = notify ''mn-list-diff-updated'' s4
      in case network s5 of
           None \<Rightarrow> (Inl AttributeError, s5)
         | Some n \<Rightarrow>
             (Inr (), s5\<lparr>effects := effects s5 @
                            [if dash_net_enabled s5 then Getmnlistd False
                             else Request_protx_diff]\<rparr>))"

subsection \<open>The partial merkle tree of a protx diff\<close>

text \<open>
  \<open>BCDataStream\<close> (module \<open>transaction\<close>) is read here as the bytes that are left
  after the cursor; a read past the end raises \<open>SerializationError\<close>.  Numbers are
  little-endian.
\<close>

definition le_nat :: "bytes \<Rightarrow> nat" where
  "le_nat bs = foldr (\<lambda>b acc. unat b + 256 * acc) bs 0"

definition read_num :: "nat \<Rightarrow> bytes \<Rightarrow> py_error + nat \<times> bytes" where
  "read_num n vds =
     (if length vds < n then Inl SerializationError
      else Inr (le_nat (take n vds), drop n vds))"

definition read_bytes :: "nat \<Rightarrow> bytes \<Rightarrow> py_error + bytes \<times> bytes" where
  "read_bytes n vds =
     (if length vds < n then Inl SerializationError
      else Inr (take n vds, drop n vds))"

definition read_compact_size :: "bytes \<Rightarrow> py_error + nat \<times> bytes" where
  "read_compact_size vds =
     (case vds of
        [] \<Rightarrow> Inl SerializationError
      | b # rest \<Rightarrow>
          if b = 253 then read_num 2 rest
          else if b = 254 then read_num 4 rest
          else if b = 255 then read_num 8 rest
          else Inr (unat b, rest))"

record partial_merkle_tree =
  pmt_total :: nat
  pmt_hashes :: "string list"
  pmt_flags :: "nat list"

fun read_pmt_hashes :: "nat \<Rightarrow> bytes \<Rightarrow> py_error + string list \<times> bytes" where
  "read_pmt_hashes 0 vds = Inr ([], vds)"
| "read_pmt_hashes (Suc n) vds =
     (case read_bytes 32 vds of
        Inl e \<Rightarrow> Inl e
      | Inr (h, vds1) \<Rightarrow>
          (case read_pmt_hashes n vds1 of
             Inl e \<Rightarrow> Inl e
           | Inr (hs, vds2) \<Rightarrow> Inr (bh2u (rev h) # hs, vds2)))"

fun read_pmt_flags :: "nat \<Rightarrow> bytes \<Rightarrow> py_error + nat list \<times> bytes" where
  "read_pmt_flags 0 vds = Inr ([], vds)"
| "read_pmt_flags (Suc n) vds =
     (case read_num 1 vds of
        Inl e \<Rightarrow> Inl e
      | Inr (flags_n, vds1) \<Rightarrow>
          (case read_pmt_flags n vds1 of
             Inl e \<Rightarrow> Inl e
           | Inr (fs, vds2) \<Rightarrow>
               Inr (map (\<lambda>i. (flags_n div 2 ^ i) mod 2) [0 ..< 8] @ fs, vds2)))"

definition PartialMerkleTree_read_bytes :: "bytes \<Rightarrow> py_error + partial_merkle_tree" where
  "PartialMerkleTree_read_bytes raw_bytes =
     (case read_num 4 raw_bytes of
        Inl e \<Rightarrow> Inl e
      | Inr (total_n, vds1) \<Rightarrow>
     (case read_compact_size vds1 of
        Inl e \<Rightarrow> Inl e
      | Inr (n_hashes, vds2) \<Rightarrow>
     (case read_pmt_hashes n_hashes vds2 of
        Inl e \<Rightarrow> Inl e
      | Inr (hs, vds3) \<Rightarrow>
     (case read_compact_size vds3 of
        Inl e \<Rightarrow> Inl e
      | Inr (n_flags, vds4) \<Rightarrow>
     (case read_pmt_flags n_flags vds4 of
        Inl e \<Rightarrow> Inl e
      | Inr (fs, vds5) \<Rightarrow>
          if vds5 \<noteq> [] then Inl SerializationError
          else Inr \<lparr>pmt_total = total_n, pmt_hashes = hs, pmt_flags = fs\<rparr>)))))"

subsection \<open>Inclusion of the commitment transaction in its block\<close>

text \<open>
  \<open>check_cbtx_merkle_root(cbtx, merkle_tree='', hashes=None)\<close>.  \<open>merkle_tree\<close> is
  \<open>None\<close> when a protx diff has no such key.  \<open>pmt[0]\<close> on an empty list raises
  \<open>IndexError\<close>.
\<close>

definition cbtx_pmt :: "string option \<Rightarrow> bytes list option \<Rightarrow> py_error + string list option" where
  "cbtx_pmt merkle_tree hashes =
     (case merkle_tree of
        Some (c # cs) \<Rightarrow>
          (case bfh (c # cs) of
             Inl e \<Rightarrow> Inl e
           | Inr raw \<Rightarrow>
               (case PartialMerkleTree_read_bytes raw of
                  Inl e \<Rightarrow> Inl e
                | Inr t \<Rightarrow> Inr (Some (pmt_hashes t))))
      | _ \<Rightarrow>
          (case hashes of
             Some hs \<Rightarrow> Inr (Some (map (\<lambda>h. bh2u (rev h)) hs))
           | None \<Rightarrow> Inr None))"

definition check_cbtx_merkle_root ::
  "env \<Rightarrow> mnlist \<Rightarrow> transaction \<Rightarrow> string option \<Rightarrow> bytes list option \<Rightarrow> py_error + bool" where
  "check_cbtx_merkle_root E s cbtx merkle_tree hashes =
     (case cbtx_pmt merkle_tree hashes of
        Inl e \<Rightarrow> Inl e
      | Inr None \<Rightarrow> Inr False
      | Inr (Some pmt) \<Rightarrow>
          (let cbtx_txid = txid cbtx in
           case pmt of
             [] \<Rightarrow> Inl IndexError
           | pmt0 # pmt1 \<Rightarrow>
               if cbtx_txid \<noteq> pmt0 then Inr False
               else
                 (case (if length pmt1 > 0 then hash_merkle_root E pmt1 cbtx_txid 0
                        else Inr cbtx_txid) of
                    Inl e \<Rightarrow> Inl e
                  | Inr merkle_root_calculated \<Rightarrow>
                      (let cbtx_height = cb_height (extra_payload cbtx) in
                       case network s of
                         None \<Rightarrow> Inl AttributeError
                       | Some n \<Rightarrow>
                           (case read_header n cbtx_height of
                              None \<Rightarrow> Inr False
                            | Some cbtx_header \<Rightarrow>
                                if cbtx_header = [] \<or> \<not> dict_in ''merkle_root'' cbtx_header
                                then Inr False
                                else if map_of cbtx_header ''merkle_root''
                                        \<noteq> Some merkle_root_calculated
                                then Inr False
                                else Inr True)))))"

subsection \<open>Processing a masternode-list diff (\<open>on_mnlistdiff\<close>)\<close>

record mnlistdiff =
  cbTx :: transaction
  merkleHashes :: "bytes list"
  deletedMNs :: "bytes list"
  mnList :: "dash_sml_entry list"
  deletedQuorums :: "deleted_quorum list"
  newQuorums :: "dash_qfcommit list"

text \<open>
  The payload of a callback: \<open>value['params']\<close>, \<open>value['error']\<close> (in a condition
  it counts as set when it is a non-empty string) and \<open>value['result']\<close>.
\<close>

record 'd response =
  params :: "int \<times> int"
  error :: "string option"
  result :: 'd

definition error_set :: "string option \<Rightarrow> bool" where
  "error_set e = (case e of None \<Rightarrow> False | Some m \<Rightarrow> m \<noteq> [])"

text \<open>\<open>str(n)\<close> of a natural number, for the f-string that builds a quorum key.\<close>

function str_nat :: "nat \<Rightarrow> string" where
  "str_nat n =
     (if n < 10 then [''0123456789'' ! n]
      else str_nat (n div 10) @ [''0123456789'' ! (n mod 10)])"
  by pat_completeness auto
termination
  by (relation "measure id") auto

definition quorum_key :: "bytes \<Rightarrow> byte \<Rightarrow> string" where
  "quorum_key quorum_hash llmq_type = bh2u (rev quorum_hash) @ '':'' @ str_nat (unat llmq_type)"

text \<open>Lines 596 to 609: the new masternode map and its content hashes.\<close>

definition mnlistdiff_deleted_mns :: "mnlistdiff \<Rightarrow> string list" where
  "mnlistdiff_deleted_mns diff = map (\<lambda>h. bh2u (rev h)) (deletedMNs diff)"

definition mnlistdiff_sml_new ::
  "env \<Rightarrow> mnlist \<Rightarrow> mnlistdiff \<Rightarrow> (string, dash_sml_entry) dict \<times> (string, bytes) dict" where
  "mnlistdiff_sml_new E s diff =
     (let deleted =
            foldl (\<lambda>(protx_new, sml_hashes_new) del_hash.
                     (if dict_in del_hash protx_new then AList.delete del_hash protx_new
                      else protx_new,
                      if dict_in del_hash sml_hashes_new then AList.delete del_hash sml_hashes_new
                      else sml_hashes_new))
                  (protx_mns s, sml_hashes s) (mnlistdiff_deleted_mns diff)
      in foldl (\<lambda>(protx_new, sml_hashes_new) sml_entry.
                  (let protx_hash = bh2u (rev (proRegTxHash sml_entry));
                       sml_hash = sha256d E (sml_serialize E sml_entry)
                   in (AList.update protx_hash sml_entry protx_new,
                       AList.update protx_hash sml_hash sml_hashes_new)))
               deleted (mnList diff))"

text \<open>Lines 612 to 625: the new quorum map and its content hashes.\<close>

definition mnlistdiff_llmq_new ::
  "env \<Rightarrow> mnlist \<Rightarrow> mnlistdiff \<Rightarrow> (string, dash_qfcommit) dict \<times> (string, bytes) dict" where
  "mnlistdiff_llmq_new E s diff =
     (let deleted =
            foldl (\<lambda>(quorums_new, llmq_hashes_new) dq.
                     (let del_key = quorum_key (dq_quorumHash dq) (dq_llmqType dq)
                      in (if dict_in del_key quorums_new then AList.delete del_key quorums_new
                          else quorums_new,
                          if dict_in del_key llmq_hashes_new
                          then AList.delete del_key llmq_hashes_new
                          else llmq_hashes_new)))
                  (quorums s, llmq_hashes s) (deletedQuorums diff)
      in foldl (\<lambda>(quorums_new, llmq_hashes_new) nq.
                  (let new_key = quorum_key (quorumHash nq) (llmqType nq);
                       qfcommit_hash = sha256d E (qf_serialize E nq)
                   in (AList.update new_key nq quorums_new,
                       AList.update new_key qfcommit_hash llmq_hashes_new)))
               deleted (newQuorums diff))"

text \<open>
  The condition \<open>base_height == self.llmq_height and height <= self.llmq_tip\<close> of
  lines 611, 632 and 661.  It reads the network only when the heights agree.  No
  field it reads is assigned between the three places, so it is evaluated once.
\<close>

definition mnlistdiff_llmq_cond :: "mnlist \<Rightarrow> int \<Rightarrow> int \<Rightarrow> py_error + bool" where
  "mnlistdiff_llmq_cond s base_height height1 =
     (if base_height = llmq_height s
      then (case llmq_tip s of Inl e \<Rightarrow> Inl e | Inr tip \<Rightarrow> Inr (height1 \<le> tip))
      else Inr False)"

text \<open>Lines 643 to 667: the new maps and heights are stored.\<close>

definition mnlistdiff_commit ::
  "env \<Rightarrow> mnlist \<Rightarrow> int \<Rightarrow> mnlistdiff \<Rightarrow> bool \<Rightarrow> mnlist" where
  "mnlistdiff_commit E s base_height diff llmq_cond =
     (let cbtx_height = cb_height (extra_payload (cbTx diff));
          (protx_new, sml_hashes_new) = mnlistdiff_sml_new E s diff;
          (quorums_new, llmq_hashes_new) = mnlistdiff_llmq_new E s diff;
          s1 = (if load_mns s \<and> base_height = protx_height s then
                  s\<lparr>protx_height := cbtx_height,
                    recent_list := (recent_list s)
                      \<lparr>rl_protx_height := Some (JNum cbtx_height),
                       rl_protx_mns := protx_new, rl_sml_hashes := sml_hashes_new\<rparr>,
                    protx_mns := protx_new,
                    sml_hashes := sml_hashes_new,
                    protx_state := DIP3_ENABLED,
                    diff_deleted_mns := mnlistdiff_deleted_mns diff,
                    diff_hashes := map (\<lambda>x. bh2u (rev (proRegTxHash x))) (mnList diff)\<rparr>
                else s\<lparr>diff_deleted_mns := [], diff_hashes := []\<rparr>)
      in if llmq_cond then
           s1\<lparr>llmq_height := cbtx_height,
              recent_list := (recent_list s1)
                \<lparr>rl_llmq_height := Some (JNum cbtx_height),
                 rl_quorums := quorums_new, rl_llmq_hashes := llmq_hashes_new\<rparr>,
              quorums := quorums_new,
              llmq_hashes := llmq_hashes_new\<rparr>
         else s1)"

text \<open>Lines 584 to 593: a classical coinbase transaction (DIP3 disabled).\<close>

definition mnlistdiff_classical :: "mnlist \<Rightarrow> int \<Rightarrow> mnlist" where
  "mnlistdiff_classical s height1 =
     (let s1 = (if load_mns s then
                  s\<lparr>protx_height := height1,
                    recent_list := (recent_list s)\<lparr>rl_protx_height := Some (JNum height1)\<rparr>,
                    protx_state := DIP3_DISABLED\<rparr>
                else s)
      in s1\<lparr>diff_deleted_mns := [], diff_hashes := [],
            llmq_height := height1,
            recent_list := (recent_list s1)\<lparr>rl_llmq_height := Some (JNum height1)\<rparr>\<rparr>)"

text \<open>
  \<open>process_mnlistdiff\<close>, the function that \<open>on_mnlistdiff\<close> runs in the executor.
  It returns what the source returns or raises, and the state it leaves.
\<close>

definition process_mnlistdiff ::
  "env \<Rightarrow> mnlist \<Rightarrow> int \<Rightarrow> int \<Rightarrow> mnlistdiff \<Rightarrow> (py_error + bool) \<times> mnlist" where
  "process_mnlistdiff E s base_height height1 diff =
     (let cbtx = cbTx diff in
      if tx_type cbtx \<noteq> 0 then
        (if tx_type cbtx \<noteq> 5 then (Inr False, s)
         else
           (let cbtx_extra = extra_payload cbtx in
            if cb_version cbtx_extra > 2 then (Inr False, s)
            else
              (case mnlistdiff_llmq_cond s base_height height1 of
                 Inl e \<Rightarrow> (Inl e, s)
               | Inr llmq_cond \<Rightarrow>
              (case (if load_mns s \<and> base_height = protx_height s
                     then check_sml_merkle_root (sha256d E)
                            (snd (mnlistdiff_sml_new E s diff)) cbtx_extra
                     else Inr True) of
                 Inl e \<Rightarrow> (Inl e, s)
               | Inr sml_ok \<Rightarrow>
                   if \<not> sml_ok then (Inr False, s)
                   else
              (case (if llmq_cond \<and> cb_version cbtx_extra > 1
                     then check_llmq_merkle_root (sha256d E)
                            (snd (mnlistdiff_llmq_new E s diff)) cbtx_extra
                     else Inr True) of
                 Inl e \<Rightarrow> (Inl e, s)
               | Inr llmq_ok \<Rightarrow>
                   if \<not> llmq_ok then (Inr False, s)
                   else
              (case check_cbtx_merkle_root E s cbtx (Some []) (Some (merkleHashes diff)) of
                 Inl e \<Rightarrow> (Inl e, s)
               | Inr cbtx_ok \<Rightarrow>
                   if \<not> cbtx_ok then (Inr False, s)
                   else (Inr True, mnlistdiff_commit E s base_height diff llmq_cond)))))))
      else (Inr True, mnlistdiff_classical s height1))"

text \<open>
  After a diff was processed: the cached info of the masternodes that were deleted
  or that changed is dropped (\<open>protx_info.pop(h, None)\<close>).
\<close>

definition drop_protx_info :: "mnlist \<Rightarrow> mnlist" where
  "drop_protx_info s =
     (let info1 = (if diff_deleted_mns s \<noteq> []
                   then foldl (\<lambda>d h. AList.delete h d) (protx_info s) (diff_deleted_mns s)
                   else protx_info s);
          info2 = (if diff_hashes s \<noteq> []
                   then foldl (\<lambda>d h. if h \<in> set (diff_hashes s) then AList.delete h d else d)
                              info1 (map fst info1)
                   else info1)
      in s\<lparr>protx_info := info2\<rparr>)"

definition on_mnlistdiff ::
  "env \<Rightarrow> mnlist \<Rightarrow> mnlistdiff response \<Rightarrow> (py_error + unit) \<times> mnlist" where
  "on_mnlistdiff E s val =
     (let (base_height, height1) = params val in
      case sent_getmnlistd s of
        None \<Rightarrow> (Inr (), s)
      | Some (q_base_height, q_height) \<Rightarrow>
          (let s0 = s\<lparr>sent_getmnlistd := None\<rparr> in
           if q_base_height \<noteq> base_height \<or> q_height \<noteq> height1 then (Inr (), s0)
           else if base_height \<notin> set [llmq_height s0, protx_height s0] then (Inr (), s0)
           else if error_set (error val) then (Inr (), notify ''network-error'' s0)
           else
             (case process_mnlistdiff E s0 base_height height1 (result val) of
                (Inl e, s1) \<Rightarrow> (Inl e, s1)
              | (Inr ok, s1) \<Rightarrow>
                  if \<not> ok then (Inr (), s1)
                  else
                    (let s2 = drop_protx_info s1 in
                     case llmq_loading s2 of
                       Inl e \<Rightarrow> (Inl e, s2)
                     | Inr ll \<Rightarrow>
                         (case (if ll then Inr False else protx_loading s2) of
                            Inl e \<Rightarrow> (Inl e, s2)
                          | Inr pl \<Rightarrow>
                              (let s3 = (if ll then s2\<lparr>effects := effects s2 @ [Getmnlistd False]\<rparr>
                                         else if pl then s2\<lparr>effects := effects s2 @ [Getmnlistd True]\<rparr>
                                         else s2);
                                   s4 = save_recent_list E s3
                               in (Inr (), notify ''mn-list-diff-updated'' s4)))))))"

subsection \<open>Processing a protx diff (\<open>on_protx_diff\<close>)\<close>

text \<open>
  The \<open>protx.diff\<close> result of a server, a JSON object: a field is \<open>None\<close> when the key
  is absent.  An element of \<open>mnList\<close> is a JSON object of which the code reads the
  key \<open>proRegTxHash\<close>.
\<close>

record protx_mn =
  mn_proRegTxHash :: "string option"
  mn_dict :: json

record protx_diff =
  pd_cbTx :: "string option"
  pd_deletedMNs :: "string list option"
  pd_mnList :: "protx_mn list option"
  pd_cbTxMerkleTree :: "string option"

definition get_or :: "'a option \<Rightarrow> 'a \<Rightarrow> 'a" where
  "get_or v dflt = (case v of None \<Rightarrow> dflt | Some x \<Rightarrow> x)"

text \<open>Lines 738 to 752: \<open>DashSMLEntry.from_dict\<close> may raise.\<close>

fun protx_insert ::
  "env \<Rightarrow> protx_mn list \<Rightarrow> (string, dash_sml_entry) dict \<times> (string, bytes) dict
   \<Rightarrow> py_error + (string, dash_sml_entry) dict \<times> (string, bytes) dict" where
  "protx_insert E [] acc = Inr acc"
| "protx_insert E (mn # mns) (protx_new, sml_hashes_new) =
     (let protx_hash = get_or (mn_proRegTxHash mn) [] in
      case sml_from_dict E (mn_dict mn) of
        Inl e \<Rightarrow> Inl e
      | Inr sml_entry \<Rightarrow>
          (let sml_hash = sha256d E (sml_serialize E sml_entry)
           in protx_insert E mns (AList.update protx_hash sml_entry protx_new,
                                  AList.update protx_hash sml_hash sml_hashes_new)))"

definition protx_diff_sml_new ::
  "env \<Rightarrow> mnlist \<Rightarrow> protx_diff
   \<Rightarrow> py_error + (string, dash_sml_entry) dict \<times> (string, bytes) dict" where
  "protx_diff_sml_new E s diff =
     (let deleted =
            foldl (\<lambda>(protx_new, sml_hashes_new) del_hash.
                     (if dict_in del_hash protx_new then AList.delete del_hash protx_new
                      else protx_new,
                      if dict_in del_hash sml_hashes_new then AList.delete del_hash sml_hashes_new
                      else sml_hashes_new))
                  (protx_mns s, sml_hashes s) (get_or (pd_deletedMNs diff) [])
      in protx_insert E (get_or (pd_mnList diff) []) deleted)"

text \<open>Lines 730 to 736: a classical coinbase transaction (DIP3 disabled).\<close>

definition protx_diff_classical :: "mnlist \<Rightarrow> int \<Rightarrow> mnlist" where
  "protx_diff_classical s height1 =
     s\<lparr>protx_height := height1,
       recent_list := (recent_list s)\<lparr>rl_protx_height := Some (JNum height1)\<rparr>,
       protx_state := DIP3_DISABLED,
       diff_deleted_mns := [], diff_hashes := []\<rparr>"

text \<open>
  Lines 763 to 774.  The last statement reads \<open>x['proRegTxHash']\<close> of every element
  of \<open>mnList\<close>, which raises \<open>KeyError\<close> on an element without that key.
\<close>

definition protx_diff_commit ::
  "mnlist \<Rightarrow> protx_diff \<Rightarrow> dash_cbtx
   \<Rightarrow> (string, dash_sml_entry) dict \<times> (string, bytes) dict \<Rightarrow> (py_error + bool) \<times> mnlist" where
  "protx_diff_commit s diff cbtx_extra new =
     (let cbtx_height = cb_height cbtx_extra;
          s1 = s\<lparr>protx_mns := fst new,
                 sml_hashes := snd new,
                 recent_list := (recent_list s)
                   \<lparr>rl_protx_mns := fst new, rl_sml_hashes := snd new,
                    rl_protx_height := Some (JNum cbtx_height)\<rparr>,
                 protx_height := cbtx_height,
                 protx_state := DIP3_ENABLED,
                 diff_deleted_mns := get_or (pd_deletedMNs diff) []\<rparr>
      in case try_map (\<lambda>x. case mn_proRegTxHash x of None \<Rightarrow> Inl KeyError | Some h \<Rightarrow> Inr h)
                      (get_or (pd_mnList diff) []) of
           Inl e \<Rightarrow> (Inl e, s1)
         | Inr hs \<Rightarrow> (Inr True, s1\<lparr>diff_hashes := hs\<rparr>))"

definition process_protx_diff ::
  "env \<Rightarrow> mnlist \<Rightarrow> int \<Rightarrow> int \<Rightarrow> protx_diff \<Rightarrow> (py_error + bool) \<times> mnlist" where
  "process_protx_diff E s base_height height1 diff =
     (case tx_deserialize E (get_or (pd_cbTx diff) []) of
        Inl e \<Rightarrow> (Inl e, s)
      | Inr cbtx \<Rightarrow>
          if tx_type cbtx \<noteq> 0 then
            (if tx_type cbtx \<noteq> 5 then (Inr False, s)
             else
               (let cbtx_extra = extra_payload cbtx in
                if cb_version cbtx_extra > 2 then (Inr False, s)
                else
                  (case protx_diff_sml_new E s diff of
                     Inl e \<Rightarrow> (Inl e, s)
                   | Inr new \<Rightarrow>
                  (case check_sml_merkle_root (sha256d E) (snd new) cbtx_extra of
                     Inl e \<Rightarrow> (Inl e, s)
                   | Inr sml_ok \<Rightarrow>
                       if \<not> sml_ok then (Inr False, s)
                       else
                  (let merkle_tree = pd_cbTxMerkleTree diff in
                   case check_cbtx_merkle_root E s cbtx merkle_tree None of
                     Inl e \<Rightarrow> (Inl e, s)
                   | Inr cbtx_ok \<Rightarrow>
                       if \<not> cbtx_ok then (Inr False, s)
                       else protx_diff_commit s diff cbtx_extra new)))))
          else (Inr True, protx_diff_classical s height1))"

definition on_protx_diff ::
  "env \<Rightarrow> mnlist \<Rightarrow> protx_diff response \<Rightarrow> (py_error + unit) \<times> mnlist" where
  "on_protx_diff E s val =
     (let (base_height, height1) = params val in
      case sent_protx_diff s of
        None \<Rightarrow> (Inr (), s)
      | Some (q_base_height, q_height) \<Rightarrow>
          (let s0 = s\<lparr>sent_protx_diff := None\<rparr> in
           if q_base_height \<noteq> base_height \<or> q_height \<noteq> height1 then (Inr (), s0)
           else if base_height \<noteq> protx_height s0
                   \<and> (protx_height s0 \<noteq> 0 \<or> base_height \<noteq> 1) then (Inr (), s0)
           else if error_set (error val) then (Inr (), notify ''network-error'' s0)
           else
             (case process_protx_diff E s0 base_height height1 (result val) of
                (Inl e, s1) \<Rightarrow> (Inl e, s1)
              | (Inr ok, s1) \<Rightarrow>
                  if \<not> ok then (Inr (), s1)
                  else
                    (let s2 = drop_protx_info s1 in
                     case protx_loading s2 of
                       Inl e \<Rightarrow> (Inl e, s2)
                     | Inr pl \<Rightarrow>
                         (let s3 = (if pl then s2\<lparr>effects := effects s2 @ [Request_protx_diff]\<rparr>
                                    else s2);
                              s4 = save_recent_list E s3
                          in (Inr (), notify ''mn-list-diff-updated'' s4))))))"

section \<open>Concrete inputs\<close>

text \<open>
  An instance of the outside functions, a network and an \<open>MNList\<close> object, on which
  the definitions above are evaluated.
\<close>

definition ex_env :: env where
  "ex_env =
     \<lparr>sha256d = sha256d_fips,
      DIP3_ACTIVATION_HEIGHT = 1028160,
      sml_serialize = (\<lambda>e. proRegTxHash e @ sml_fields e),
      sml_serialize_hex = (\<lambda>e. bh2u (proRegTxHash e @ sml_fields e)),
      sml_from_hex = (\<lambda>x. Inl ValueError),
      sml_from_dict = (\<lambda>j. Inl KeyError),
      qf_serialize = (\<lambda>q. llmqType q # quorumHash q @ qf_fields q),
      qf_serialize_hex = (\<lambda>q. bh2u (llmqType q # quorumHash q @ qf_fields q)),
      qf_from_hex = (\<lambda>x. Inl ValueError),
      tx_deserialize = (\<lambda>raw. Inl SerializationError),
      hash_merkle_root = (\<lambda>branch h pos. Inl ExternalError),
      gzip_read = (\<lambda>p. Inl OSError),
      utf8_decode = (\<lambda>b. Inl ValueError),
      json_loads = (\<lambda>t. Inl ValueError),
      gzip_write_ok = (\<lambda>p c. True)\<rparr>"

definition ex_network :: network where
  "ex_network =
     \<lparr>get_local_height = 1030100,
      get_server_height = 1030100,
      read_header = (\<lambda>h. if h = 1030090 then Some [(''merkle_root'', bh2u (replicate 32 192))]
                          else None)\<rparr>"

definition ex_quorum_a :: dash_qfcommit where
  "ex_quorum_a = \<lparr>llmqType = 1, quorumHash = replicate 32 5, qf_fields = []\<rparr>"

definition ex_quorum_b :: dash_qfcommit where
  "ex_quorum_b = \<lparr>llmqType = 1, quorumHash = replicate 32 3, qf_fields = []\<rparr>"

definition ex_quorum_c :: dash_qfcommit where
  "ex_quorum_c = \<lparr>llmqType = 2, quorumHash = replicate 32 1, qf_fields = []\<rparr>"

definition ex_mn :: dash_sml_entry where
  "ex_mn = \<lparr>proRegTxHash = replicate 32 9, isValid = True, sml_fields = [1, 2, 3]\<rparr>"

definition ex_mnlist :: mnlist where
  "ex_mnlist =
     \<lparr>config_path = Some ''/data'',
      network = Some ex_network,
      dash_net_enabled = True,
      load_mns = True,
      recent_list = DEFAULT_MN_LIST,
      protx_info = [],
      last_protx_info_save_time = 0,
      mns_outpoints = [],
      protx_height = 1030080,
      llmq_height = 1030080,
      protx_mns = [(bh2u (rev (proRegTxHash ex_mn)), ex_mn)],
      sml_hashes = [(bh2u (rev (proRegTxHash ex_mn)), replicate 32 170)],
      quorums = [(''a'', ex_quorum_a), (''b'', ex_quorum_b), (''c'', ex_quorum_c)],
      llmq_hashes = [],
      protx_state = DIP3_ENABLED,
      diff_deleted_mns = [],
      diff_hashes = [],
      info_hash = [],
      sent_getmnlistd = None,
      sent_protx_diff = None,
      effects = [],
      recent_list_is_default = False,
      default_mn_list = DEFAULT_MN_LIST\<rparr>"

definition ex_sml_hashes :: "(string, bytes) dict" where
  "ex_sml_hashes = [(''0001'', replicate 32 1), (''0100'', replicate 32 2)]"

definition ex_env_empty_json :: env where
  "ex_env_empty_json =
     ex_env\<lparr>gzip_read := (\<lambda>p. Inr [123, 125]),
            utf8_decode := (\<lambda>b. Inr ''{}''),
            json_loads := (\<lambda>t. Inr (JObj []))\<rparr>"

definition ex_cbtx_classical :: transaction where
  "ex_cbtx_classical =
     \<lparr>tx_version = 1, tx_type = 0,
      extra_payload = \<lparr>cb_version = 0, cb_height = 0, merkleRootMNList = [],
                       merkleRootQuorums = []\<rparr>,
      txid = bh2u (replicate 32 192)\<rparr>"

definition ex_diff_classical :: mnlistdiff where
  "ex_diff_classical =
     \<lparr>cbTx = ex_cbtx_classical, merkleHashes = [replicate 32 192], deletedMNs = [],
      mnList = [], deletedQuorums = [], newQuorums = []\<rparr>"

definition ex_protx_response :: "protx_diff response" where
  "ex_protx_response =
     \<lparr>params = (1, 100), error = None,
      result = \<lparr>pd_cbTx = Some ''01'', pd_deletedMNs = None, pd_mnList = None,
                pd_cbTxMerkleTree = None\<rparr>\<rparr>"

definition ex_env_classical :: env where
  "ex_env_classical = ex_env\<lparr>tx_deserialize := (\<lambda>raw. Inr ex_cbtx_classical)\<rparr>"

definition ex_mn_new :: dash_sml_entry where
  "ex_mn_new = \<lparr>proRegTxHash = replicate 32 8, isValid = True, sml_fields = [4, 5, 6]\<rparr>"

definition ex_cbtx_v1 :: transaction where
  "ex_cbtx_v1 =
     \<lparr>tx_version = 3, tx_type = 5,
      extra_payload = \<lparr>cb_version = 1, cb_height = 1030090,
                       merkleRootMNList = sha256d_fips (replicate 32 8 @ [4, 5, 6]),
                       merkleRootQuorums = []\<rparr>,
      txid = bh2u (replicate 32 192)\<rparr>"

definition ex_diff_v1 :: mnlistdiff where
  "ex_diff_v1 =
     \<lparr>cbTx = ex_cbtx_v1, merkleHashes = [replicate 32 192], deletedMNs = [replicate 32 9],
      mnList = [ex_mn_new], deletedQuorums = [], newQuorums = [ex_quorum_a]\<rparr>"

definition ex_mnlist_no_quorums :: mnlist where
  "ex_mnlist_no_quorums = ex_mnlist\<lparr>quorums := [], llmq_hashes := []\<rparr>"

definition ex_diff_v2 :: mnlistdiff where
  "ex_diff_v2 = ex_diff_v1\<lparr>cbTx := ex_cbtx_v1\<lparr>extra_payload :=
                   (extra_payload ex_cbtx_v1)\<lparr>cb_version := 2\<rparr>\<rparr>\<rparr>"

definition ex_cbtx_no_root :: transaction where
  "ex_cbtx_no_root =
     \<lparr>tx_version = 3, tx_type = 5,
      extra_payload = \<lparr>cb_version = 2, cb_height = 1030090, merkleRootMNList = [],
                       merkleRootQuorums = []\<rparr>,
      txid = bh2u (replicate 32 192)\<rparr>"

definition ex_env_no_root :: env where
  "ex_env_no_root = ex_env\<lparr>tx_deserialize := (\<lambda>raw. Inr ex_cbtx_no_root)\<rparr>"

section \<open>Facts about the helpers\<close>

subsection \<open>Hex encoding is injective\<close>

lemma hex_digits_checked:
  "\<forall>n \<in> set [0 ..< 16]. hex_val (hex_digit n) = Some n \<and> \<not> is_space (hex_digit n)"
  by code_simp

lemma hex_val_digit: "n < 16 \<Longrightarrow> hex_val (hex_digit n) = Some n"
  using hex_digits_checked by simp

lemma is_space_digit: "n < 16 \<Longrightarrow> \<not> is_space (hex_digit n)"
  using hex_digits_checked by simp

lemma hex_digit_inj: "a < 16 \<Longrightarrow> b < 16 \<Longrightarrow> hex_digit a = hex_digit b \<Longrightarrow> a = b"
  by (metis hex_val_digit option.inject)

lemma byte_hex_inj:
  fixes a b :: byte
  assumes "hex_digit (unat a div 16) = hex_digit (unat b div 16)"
      and "hex_digit (unat a mod 16) = hex_digit (unat b mod 16)"
  shows "a = b"
proof -
  have la: "unat a < 256" and lb: "unat b < 256"
    using unsigned_less[of a, where 'a = nat] unsigned_less[of b, where 'a = nat] by simp_all
  then have "unat a div 16 < 16" "unat b div 16 < 16" by simp_all
  with assms(1) have d: "unat a div 16 = unat b div 16" by (simp add: hex_digit_inj)
  have "unat a mod 16 < 16" "unat b mod 16 < 16" by simp_all
  with assms(2) have m: "unat a mod 16 = unat b mod 16" by (simp add: hex_digit_inj)
  from d m have "unat a = unat b" by (metis div_mult_mod_eq)
  then show ?thesis by (rule word_unat_eq_iff[THEN iffD2])
qed

lemma bh2u_inj: "bh2u x = bh2u y \<Longrightarrow> x = y"
proof (induction x arbitrary: y)
  case Nil
  then show ?case by (cases y) (simp_all add: bh2u_def)
next
  case (Cons a x)
  then show ?case
    by (cases y) (auto simp: bh2u_def dest: byte_hex_inj)
qed

lemma hfu_rev_inj: "hfu (rev x) = hfu (rev y) \<longleftrightarrow> x = y"
  unfolding hfu_def using bh2u_inj[of "rev x" "rev y"] by auto

lemma bfh_bh2u: "bfh (bh2u x) = Inr x"
proof (induction x)
  case Nil
  then show ?case by (simp add: bh2u_def)
next
  case (Cons a x)
  have la: "unat a < 256" using unsigned_less[of a, where 'a = nat] by simp
  then have d: "unat a div 16 < 16" and m: "unat a mod 16 < 16" by simp_all
  have "(of_nat (16 * (unat a div 16) + unat a mod 16) :: byte) = a" by simp
  with Cons show ?case
    by (simp add: bh2u_def hex_val_digit[OF d] hex_val_digit[OF m] is_space_digit[OF d])
qed

subsection \<open>A SHA-256 digest has 32 bytes\<close>

lemma state_list_length: "length (state_list x) = 8"
  by (induction x rule: state_list.induct) simp

lemma sha_compress_length: "length st = 8 \<Longrightarrow> length (sha_compress st blk) = 8"
  by (simp add: sha_compress_def Let_def state_list_length)

lemma sha_fold_length: "length st = 8 \<Longrightarrow> length (foldl sha_compress st blks) = 8"
  by (induction blks arbitrary: st) (simp_all add: sha_compress_length)

lemma word_bytes_concat_length: "length (concat (map word_bytes ws)) = 4 * length ws"
  by (induction ws) (simp_all add: word_bytes_def)

lemma sha256_length: "length (sha256 m) = 32"
  by (simp add: sha256_def Let_def word_bytes_concat_length sha_fold_length H256_def)

lemma sha256d_fips_length: "length (sha256d_fips m) = 32"
  by (simp add: sha256d_fips_def sha256_length)

subsection \<open>Sorting with a key that may raise\<close>

lemma try_map_Inr_iff:
  "(\<forall>x \<in> set xs. \<exists>k. f x = Inr k) \<Longrightarrow> try_map f xs = Inr (map (\<lambda>x. projr (f x)) xs)"
  by (induction xs) auto

lemma insort_key_pair:
  "insort_key fst (g x, x) (map (\<lambda>x. (g x, x)) ys) = map (\<lambda>x. (g x, x)) (insort_key g x ys)"
  by (induction ys) auto

lemma sort_key_pair:
  "sort_key fst (map (\<lambda>x. (g x, x)) xs) = map (\<lambda>x. (g x, x)) (sort_key g xs)"
  by (induction xs) (simp_all add: insort_key_pair)

lemma py_sorted_sort_key:
  assumes "\<forall>x \<in> set xs. \<exists>k. f x = Inr k"
  shows "py_sorted f xs = Inr (sort_key (\<lambda>x. projr (f x)) xs)"
proof -
  have "zip (map (\<lambda>x. projr (f x)) xs) xs = map (\<lambda>x. (projr (f x), x)) xs"
    by (induction xs) auto
  then show ?thesis
    by (simp add: py_sorted_def try_map_Inr_iff[OF assms] sort_key_pair comp_def)
qed

section \<open>Readiness\<close>

text \<open>
  C6.  \<open>protx_ready\<close> holds exactly when masternode loading is enabled, there is a
  network, the server height is above the DIP3 activation height, the server
  height minus \<open>protx_height\<close> is at most 24, and the masternode map is not empty.
  \<open>llmq_ready\<close> is the analogue for quorums: its switch is \<open>dash_net_enabled\<close>, the
  threshold is 24 plus the LLMQ offset 8 and is applied to \<open>llmq_height\<close>, and the
  quorum map must not be empty.  Both are false while the server height is at most
  the activation height.
\<close>

theorem readiness:
  "(protx_ready E s \<longleftrightarrow>
      load_mns s
      \<and> (\<exists>n. network s = Some n
             \<and> get_server_height n > DIP3_ACTIVATION_HEIGHT E
             \<and> get_server_height n - protx_height s \<le> 24)
      \<and> protx_mns s \<noteq> [])
   \<and> (llmq_ready E s \<longleftrightarrow>
      dash_net_enabled s
      \<and> (\<exists>n. network s = Some n
             \<and> get_server_height n > DIP3_ACTIVATION_HEIGHT E
             \<and> get_server_height n - llmq_height s \<le> 24 + 8)
      \<and> quorums s \<noteq> [])
   \<and> (\<forall>n. network s = Some n \<and> get_server_height n \<le> DIP3_ACTIVATION_HEIGHT E
          \<longrightarrow> \<not> protx_ready E s \<and> \<not> llmq_ready E s)"
  by (auto simp: protx_ready_def llmq_ready_def LLMQ_OFFSET_def Let_def split: option.splits)

theorem readiness_witness:
  "network (ex_mnlist\<lparr>network := Some (ex_network\<lparr>get_server_height := 1028160\<rparr>)\<rparr>)
     = Some (ex_network\<lparr>get_server_height := 1028160\<rparr>)
   \<and> get_server_height (ex_network\<lparr>get_server_height := 1028160\<rparr>)
       \<le> DIP3_ACTIVATION_HEIGHT ex_env
   \<and> \<not> protx_ready ex_env (ex_mnlist\<lparr>network := Some (ex_network\<lparr>get_server_height := 1028160\<rparr>)\<rparr>)
   \<and> \<not> llmq_ready ex_env (ex_mnlist\<lparr>network := Some (ex_network\<lparr>get_server_height := 1028160\<rparr>)\<rparr>)
   \<and> protx_ready ex_env ex_mnlist
   \<and> llmq_ready ex_env ex_mnlist"
proof -
  let ?s = "ex_mnlist\<lparr>network := Some (ex_network\<lparr>get_server_height := 1028160\<rparr>)\<rparr>"
  let ?n = "ex_network\<lparr>get_server_height := 1028160\<rparr>"
  have h: "network ?s = Some ?n \<and> get_server_height ?n \<le> DIP3_ACTIVATION_HEIGHT ex_env"
    by (simp add: ex_env_def)
  from readiness[of ex_env ?s] h have c: "\<not> protx_ready ex_env ?s \<and> \<not> llmq_ready ex_env ?s"
    by blast
  have r: "protx_ready ex_env ex_mnlist \<and> llmq_ready ex_env ex_mnlist"
    using readiness[of ex_env ex_mnlist]
    by (simp add: ex_env_def ex_mnlist_def ex_network_def)
  from h c r show ?thesis by simp
qed

section \<open>The responsible quorum\<close>

lemma hd_sort_key_mem:
  assumes "sort_key f xs = r # rs"
  shows "r \<in> set xs"
proof -
  have "set (sort_key f xs) = set xs" by simp
  with assms show ?thesis by auto
qed

lemma hd_sort_key_least:
  assumes "sort_key f xs = r # rs" and "x \<in> set xs"
  shows "f r \<le> f x"
proof -
  have "sorted (map f (sort_key f xs))" by simp
  with assms(1) have le: "\<forall>y \<in> set rs. f r \<le> f y" by simp
  have "set (sort_key f xs) = set xs" by simp
  with assms have "x = r \<or> x \<in> set rs" by auto
  with le show ?thesis by auto
qed

lemma sort_key_Nil_iff: "sort_key f xs = [] \<longleftrightarrow> xs = []"
proof
  assume "sort_key f xs = []"
  then have "length (sort_key f xs) = 0" by simp
  then show "xs = []" by simp
next
  assume "xs = []"
  then show "sort_key f xs = []" by simp
qed

lemma sort_key_perm_eq:
  assumes "mset xs = mset ys" and "inj_on f (set ys)"
  shows "sort_key f xs = sort_key f ys"
proof -
  from assms(1) have "set xs = set ys" by (rule mset_eq_setD)
  with assms(2) have "inj_on f (set xs)" by simp
  with assms(1) show ?thesis by (rule sort_key_eq_sort_key)
qed

text \<open>The first element of the list sorted by hash, for any hash \<open>f\<close> and candidates \<open>vs\<close>.\<close>

lemma first_sorted_None:
  "(case sort_key fst (map (\<lambda>q. (f q, q)) vs) of [] \<Rightarrow> None | r # _ \<Rightarrow> Some (snd r)) = None
   \<longleftrightarrow> vs = []"
proof -
  have "(case sort_key fst (map (\<lambda>q. (f q, q)) vs) of [] \<Rightarrow> None | r # _ \<Rightarrow> Some (snd r)) = None
        \<longleftrightarrow> sort_key fst (map (\<lambda>q. (f q, q)) vs) = []"
    by (simp split: list.splits)
  then show ?thesis by (simp add: sort_key_Nil_iff)
qed

lemma first_sorted_Some:
  assumes "(case sort_key fst (map (\<lambda>q. (f q, q)) vs) of [] \<Rightarrow> None | r # _ \<Rightarrow> Some (snd r))
           = Some q"
  shows "q \<in> set vs \<and> (\<forall>q' \<in> set vs. f q \<le> f q')"
proof -
  from assms obtain r rs
    where srt: "sort_key fst (map (\<lambda>q. (f q, q)) vs) = r # rs" and q: "q = snd r"
    by (auto split: list.splits)
  from hd_sort_key_mem[OF srt] have rin: "r \<in> set (map (\<lambda>q. (f q, q)) vs)" .
  with q have r: "r = (f q, q)" and qin: "q \<in> set vs" by auto
  have "\<forall>q' \<in> set vs. f q \<le> f q'"
  proof
    fix q' assume "q' \<in> set vs"
    then have "(f q', q') \<in> set (map (\<lambda>q. (f q, q)) vs)" by auto
    from hd_sort_key_least[OF srt this] show "f q \<le> f q'" by (simp add: r)
  qed
  with qin show ?thesis by simp
qed

lemma first_sorted_perm:
  assumes "mset vs' = mset vs" and "inj_on f (set vs)"
  shows "sort_key fst (map (\<lambda>q. (f q, q)) vs') = sort_key fst (map (\<lambda>q. (f q, q)) vs)"
proof -
  from assms(1) have m: "mset (map (\<lambda>q. (f q, q)) vs') = mset (map (\<lambda>q. (f q, q)) vs)"
    by simp
  have "inj_on fst (set (map (\<lambda>q. (f q, q)) vs))"
    using assms(2) by (auto simp: inj_on_def)
  with m show ?thesis by (rule sort_key_perm_eq)
qed

lemma calc_responsible_quorum_first:
  "calc_responsible_quorum H s t rid =
   (case sort_key fst
           (map (\<lambda>q. (H ([llmqType q] @ quorumHash q @ rid), q))
                (filter (\<lambda>q. uint (llmqType q) = t) (map snd (quorums s)))) of
      [] \<Rightarrow> None
    | r # _ \<Rightarrow> Some (snd r))"
  by (simp add: calc_responsible_quorum_def Let_def)

text \<open>
  C7.  \<open>calc_responsible_quorum\<close> returns \<open>None\<close> exactly when no stored quorum has
  the given \<open>llmqType\<close>.  Otherwise it returns a stored quorum of that type whose
  hash of type byte, quorum hash and request id is lexicographically least among
  the stored quorums of that type.  The result is a function of the quorum map and
  the inputs; when the hashes of the candidates are pairwise distinct it does not
  even depend on the order in which the quorums are stored.
\<close>

theorem responsible_quorum:
  "(calc_responsible_quorum H s t rid = None
      \<longleftrightarrow> (\<forall>q \<in> set (map snd (quorums s)). uint (llmqType q) \<noteq> t))
   \<and> (\<forall>q. calc_responsible_quorum H s t rid = Some q \<longrightarrow>
          q \<in> set (map snd (quorums s)) \<and> uint (llmqType q) = t
          \<and> (\<forall>q' \<in> set (map snd (quorums s)). uint (llmqType q') = t \<longrightarrow>
                H ([llmqType q] @ quorumHash q @ rid) \<le> H ([llmqType q'] @ quorumHash q' @ rid)))
   \<and> (\<forall>s'::mnlist. mset (map snd (quorums s')) = mset (map snd (quorums s))
            \<and> inj_on (\<lambda>q. H ([llmqType q] @ quorumHash q @ rid))
                      {q \<in> set (map snd (quorums s)). uint (llmqType q) = t}
          \<longrightarrow> calc_responsible_quorum H s' t rid = calc_responsible_quorum H s t rid)"
proof -
  define h where "h = (\<lambda>q::dash_qfcommit. H ([llmqType q] @ quorumHash q @ rid))"
  define P where "P = (\<lambda>q::dash_qfcommit. uint (llmqType q) = t)"
  define vs where "vs = map snd (quorums s)"
  have c: "\<And>s. calc_responsible_quorum H s t rid =
             (case sort_key fst (map (\<lambda>q. (h q, q)) (filter P (map snd (quorums s)))) of
                [] \<Rightarrow> None | r # _ \<Rightarrow> Some (snd r))"
    unfolding h_def P_def by (rule calc_responsible_quorum_first)
  have 1: "calc_responsible_quorum H s t rid = None \<longleftrightarrow> (\<forall>q \<in> set vs. \<not> P q)"
    unfolding c vs_def by (simp only: first_sorted_None filter_empty_conv)
  have 2: "\<forall>q. calc_responsible_quorum H s t rid = Some q \<longrightarrow>
             q \<in> set vs \<and> P q \<and> (\<forall>q' \<in> set vs. P q' \<longrightarrow> h q \<le> h q')"
  proof (intro allI impI)
    fix q assume "calc_responsible_quorum H s t rid = Some q"
    then have "(case sort_key fst (map (\<lambda>q. (h q, q)) (filter P vs)) of
                  [] \<Rightarrow> None | r # _ \<Rightarrow> Some (snd r)) = Some q"
      unfolding c vs_def .
    from first_sorted_Some[OF this]
    show "q \<in> set vs \<and> P q \<and> (\<forall>q' \<in> set vs. P q' \<longrightarrow> h q \<le> h q')"
      by simp
  qed
  have 3: "\<forall>s'::mnlist. mset (map snd (quorums s')) = mset vs \<and> inj_on h {q \<in> set vs. P q}
             \<longrightarrow> calc_responsible_quorum H s' t rid = calc_responsible_quorum H s t rid"
  proof (intro allI impI)
    fix s' :: mnlist
    assume a: "mset (map snd (quorums s')) = mset vs \<and> inj_on h {q \<in> set vs. P q}"
    from a have "mset (map snd (quorums s')) = mset vs" by (rule conjunct1)
    then have "filter_mset P (mset (map snd (quorums s'))) = filter_mset P (mset vs)"
      by (rule arg_cong)
    then have "mset (filter P (map snd (quorums s'))) = mset (filter P vs)"
      by (simp only: mset_filter)
    moreover have "inj_on h (set (filter P vs))" using a by simp
    ultimately have "sort_key fst (map (\<lambda>q. (h q, q)) (filter P (map snd (quorums s'))))
                     = sort_key fst (map (\<lambda>q. (h q, q)) (filter P vs))"
      by (rule first_sorted_perm)
    then show "calc_responsible_quorum H s' t rid = calc_responsible_quorum H s t rid"
      unfolding c vs_def by simp
  qed
  show ?thesis
    apply (intro conjI)
      apply (rule 1[unfolded h_def P_def vs_def])
     apply (rule 2[unfolded h_def P_def vs_def])
    apply (rule 3[unfolded h_def P_def vs_def])
    done
qed

theorem responsible_quorum_witness:
  "calc_responsible_quorum (\<lambda>x. x) ex_mnlist 1 [7] = Some ex_quorum_b
   \<and> ex_quorum_b \<in> set (map snd (quorums ex_mnlist))
   \<and> ex_quorum_a \<in> set (map snd (quorums ex_mnlist))
   \<and> uint (llmqType ex_quorum_a) = 1
   \<and> [llmqType ex_quorum_b] @ quorumHash ex_quorum_b @ [7]
       \<le> [llmqType ex_quorum_a] @ quorumHash ex_quorum_a @ [7]
   \<and> calc_responsible_quorum (\<lambda>x. x) ex_mnlist 3 [7] = None"
proof -
  have e: "calc_responsible_quorum (\<lambda>x. x) ex_mnlist 1 [7] = Some ex_quorum_b"
    by code_simp
  have m: "ex_quorum_a \<in> set (map snd (quorums ex_mnlist))"
          "ex_quorum_b \<in> set (map snd (quorums ex_mnlist))"
    by (simp_all add: ex_mnlist_def)
  have t: "uint (llmqType ex_quorum_a) = 1" by (simp add: ex_quorum_a_def)
  from responsible_quorum[of "\<lambda>x. x" ex_mnlist 1 "[7]"] e m t
  have le: "[llmqType ex_quorum_b] @ quorumHash ex_quorum_b @ [7]
            \<le> [llmqType ex_quorum_a] @ quorumHash ex_quorum_a @ [7]"
    by blast
  have n: "\<forall>q \<in> set (map snd (quorums ex_mnlist)). uint (llmqType q) \<noteq> 3"
    by (simp add: ex_mnlist_def ex_quorum_a_def ex_quorum_b_def ex_quorum_c_def)
  from responsible_quorum[of "\<lambda>x. x" ex_mnlist 3 "[7]"] n
  have none: "calc_responsible_quorum (\<lambda>x. x) ex_mnlist 3 [7] = None"
    by blast
  from e m t le none show ?thesis by simp
qed

section \<open>The merkle root\<close>

declare merkle_loop.simps [simp del]

lemma pairs_even:
  "even (length ys) \<Longrightarrow>
   map (\<lambda>i. H (ys ! (i * 2) @ ys ! (i * 2 + 1))) [0 ..< length ys div 2] = merkle_level H ys"
proof (induction H ys rule: merkle_level.induct)
  case (1 H)
  then show ?case by simp
next
  case (2 H a)
  then show ?case by simp
next
  case (3 H a b xs)
  have "[0 ..< length (a # b # xs) div 2] = 0 # map Suc [0 ..< length xs div 2]"
    by (simp add: upt_conv_Cons map_Suc_upt del: upt_Suc)
  with 3 show ?case by (simp add: comp_def)
qed

lemma merkle_level_dup:
  "odd (length xs) \<Longrightarrow> merkle_level H (xs @ [last xs]) = merkle_level H xs"
  by (induction H xs rule: merkle_level.induct) auto

lemma merkle_level_length: "length (merkle_level H xs) = (length xs + 1) div 2"
  by (induction H xs rule: merkle_level.induct) auto

lemma merkle_loop_unfold:
  assumes "2 \<le> length xs"
  shows "merkle_loop H xs =
         merkle_loop H
           (let ys = (if length xs mod 2 = 1 then xs @ [last xs] else xs)
            in map (\<lambda>i. H (ys ! (i * 2) @ ys ! (i * 2 + 1))) [0 ..< length ys div 2])"
proof -
  from assms have ne: "length xs \<noteq> 1" "length xs \<noteq> 0" by auto
  show ?thesis
    by (subst merkle_loop.simps) (simp only: ne if_False Let_def)
qed

lemma merkle_loop_level:
  assumes l: "2 \<le> length xs"
  shows "merkle_loop H xs = merkle_loop H (merkle_level H xs)"
proof (cases "even (length xs)")
  case True
  then have m: "length xs mod 2 \<noteq> 1" by presburger
  show ?thesis
    by (simp only: merkle_loop_unfold[OF l] Let_def m if_False simp_thms pairs_even[OF True])
next
  case False
  then have e: "even (length (xs @ [last xs]))" by simp
  from False have m: "length xs mod 2 = 1" by presburger
  show ?thesis
    by (simp only: merkle_loop_unfold[OF l] Let_def m if_True simp_thms pairs_even[OF e]
        merkle_level_dup[OF False])
qed

lemma merkle_loop_returns: "xs \<noteq> [] \<Longrightarrow> \<exists>h. merkle_loop H xs = Some [h]"
proof (induction xs rule: length_induct)
  case (1 xs)
  show ?case
  proof (cases "length xs = 1")
    case True
    then obtain h where "xs = [h]" by (cases xs) auto
    then show ?thesis by (simp add: merkle_loop.simps)
  next
    case False
    moreover from 1(2) have "length xs \<noteq> 0" by simp
    ultimately have l: "2 \<le> length xs" by arith
    then have "length (merkle_level H xs) < length xs"
      by (simp add: merkle_level_length)
    moreover have "merkle_level H xs \<noteq> []"
      using l merkle_level_length[of H xs] by (cases "merkle_level H xs") auto
    ultimately have "\<exists>h. merkle_loop H (merkle_level H xs) = Some [h]"
      using 1(1) by blast
    then show ?thesis by (simp only: merkle_loop_level[OF l])
  qed
qed

lemma calc_merkle_root_single: "calc_merkle_root H [h] = Some (hfu (rev h))"
  by (simp add: calc_merkle_root_def merkle_loop.simps)

lemma calc_merkle_root_empty: "calc_merkle_root H [] = Some (hfu (rev (replicate 32 0)))"
  by (simp add: calc_merkle_root_def merkle_loop.simps)

lemma calc_merkle_root_returns: "\<exists>r. calc_merkle_root H xs = Some r"
proof -
  let ?ys = "if length xs = 0 then [replicate 32 0] else xs"
  have "?ys \<noteq> []" by simp
  from merkle_loop_returns[OF this] obtain h where "merkle_loop H ?ys = Some [h]" by blast
  then show ?thesis by (simp add: calc_merkle_root_def Let_def)
qed

lemma calc_merkle_root_level:
  assumes l: "2 \<le> length xs"
  shows "calc_merkle_root H xs = calc_merkle_root H (merkle_level H xs)"
proof -
  have "length (merkle_level H xs) = (length xs + 1) div 2" by (rule merkle_level_length)
  with l have "length (merkle_level H xs) \<noteq> 0" by arith
  moreover from l have "length xs \<noteq> 0" by arith
  ultimately show ?thesis
    by (simp only: calc_merkle_root_def Let_def if_False merkle_loop_level[OF l])
qed

lemma calc_merkle_root_dup:
  assumes "odd (length xs)" and "1 < length xs"
  shows "calc_merkle_root H xs = calc_merkle_root H (xs @ [last xs])"
proof -
  from assms(2) have l: "2 \<le> length xs" and l2: "2 \<le> length (xs @ [last xs])" by simp_all
  show ?thesis
    by (simp only: calc_merkle_root_level[OF l] calc_merkle_root_level[OF l2]
        merkle_level_dup[OF assms(1)])
qed

text \<open>
  C3, as amended.  \<open>calc_merkle_root\<close> always returns.  For the empty list it
  returns the root of the list that holds the 32 zero bytes alone, which is that
  leaf reversed and hex-encoded; for a list \<open>[h]\<close> it returns \<open>h\<close> reversed and
  hex-encoded.  The root of a list of two or more hashes is the root of the next
  level, in which adjacent hashes are hashed in pairs and the last hash of a level
  of odd length is paired with itself.  The root of a list of odd length with more
  than one element is the root of that list with its last element appended once
  more.
\<close>

theorem calc_merkle_root_tree:
  "calc_merkle_root H [] = calc_merkle_root H [replicate 32 0]
   \<and> calc_merkle_root H [] = Some (hfu (rev (replicate 32 0)))
   \<and> calc_merkle_root H [h] = Some (hfu (rev h))
   \<and> (\<exists>r. calc_merkle_root H xs = Some r)
   \<and> (2 \<le> length xs \<longrightarrow> calc_merkle_root H xs = calc_merkle_root H (merkle_level H xs))
   \<and> (odd (length xs) \<and> 1 < length xs
        \<longrightarrow> calc_merkle_root H xs = calc_merkle_root H (xs @ [last xs]))"
  using calc_merkle_root_returns[of H xs] calc_merkle_root_level[of xs H]
    calc_merkle_root_dup[of xs H]
  by (simp add: calc_merkle_root_single calc_merkle_root_empty)

theorem calc_merkle_root_tree_witness:
  "2 \<le> length [replicate 32 1, replicate 32 2, replicate 32 (3::byte)]
   \<and> odd (length [replicate 32 1, replicate 32 2, replicate 32 (3::byte)])
   \<and> 1 < length [replicate 32 1, replicate 32 2, replicate 32 (3::byte)]
   \<and> calc_merkle_root sha256d_fips [replicate 32 1, replicate 32 2, replicate 32 3]
       = calc_merkle_root sha256d_fips
           [sha256d_fips (replicate 32 1 @ replicate 32 2),
            sha256d_fips (replicate 32 3 @ replicate 32 3)]
   \<and> calc_merkle_root sha256d_fips [replicate 32 1, replicate 32 2, replicate 32 3]
       = calc_merkle_root sha256d_fips
           [replicate 32 1, replicate 32 2, replicate 32 3, replicate 32 3]"
proof -
  let ?xs = "[replicate 32 1, replicate 32 2, replicate 32 (3::byte)]"
  note t = calc_merkle_root_tree[of sha256d_fips "replicate 32 0" ?xs]
  have h1: "2 \<le> length ?xs" by simp
  have h2: "odd (length ?xs) \<and> 1 < length ?xs" by simp
  from t h1 have "calc_merkle_root sha256d_fips ?xs
                  = calc_merkle_root sha256d_fips (merkle_level sha256d_fips ?xs)"
    by blast
  then have a: "calc_merkle_root sha256d_fips ?xs
                = calc_merkle_root sha256d_fips
                    [sha256d_fips (replicate 32 1 @ replicate 32 2),
                     sha256d_fips (replicate 32 3 @ replicate 32 3)]"
    by simp
  from t h2 have "calc_merkle_root sha256d_fips ?xs
                  = calc_merkle_root sha256d_fips (?xs @ [last ?xs])"
    by blast
  then have b: "calc_merkle_root sha256d_fips ?xs
                = calc_merkle_root sha256d_fips
                    [replicate 32 1, replicate 32 2, replicate 32 3, replicate 32 3]"
    by simp
  from h1 h2 show ?thesis
    by (intro conjI) (simp, simp, simp, rule a, rule b)
qed

section \<open>The merkle-root checks\<close>

lemma calc_merkle_root_root: "\<exists>root. calc_merkle_root H xs = Some (hfu (rev root))"
proof -
  let ?ys = "if length xs = 0 then [replicate 32 0] else xs"
  have "?ys \<noteq> []" by simp
  from merkle_loop_returns[OF this] obtain h where "merkle_loop H ?ys = Some [h]" by blast
  then have "calc_merkle_root H xs = Some (hfu (rev h))"
    by (simp add: calc_merkle_root_def Let_def)
  then show ?thesis by blast
qed

lemma check_llmq_root:
  "\<exists>root. calc_merkle_root H (sort (map snd q)) = Some (hfu (rev root))
          \<and> check_llmq_merkle_root H q cbx = Inr (root = merkleRootQuorums cbx)"
proof -
  from calc_merkle_root_root obtain root
    where r: "calc_merkle_root H (sort (map snd q)) = Some (hfu (rev root))" by blast
  then have "check_llmq_merkle_root H q cbx = Inr (root = merkleRootQuorums cbx)"
    by (simp add: check_llmq_merkle_root_def Let_def hfu_rev_inj)
  with r show ?thesis by blast
qed

lemma check_llmq_values:
  assumes "mset (map snd q') = mset (map snd q)"
  shows "check_llmq_merkle_root H q' cbx = check_llmq_merkle_root H q cbx"
proof -
  have "sort (map snd q') = sort (map snd q)"
    by (rule properties_for_sort) (simp_all add: assms[symmetric, simplified])
  then show ?thesis by (simp add: check_llmq_merkle_root_def)
qed

lemma sml_sort_key_Inr: "bfh (fst x) = Inr b \<Longrightarrow> sml_sort_key x = Inr (rev b)"
  by (simp add: sml_sort_key_def)

lemma check_sml_root:
  assumes "\<forall>x \<in> set d. \<exists>b. bfh (fst x) = Inr b"
  shows "\<exists>items keys root.
            py_sorted sml_sort_key d = Inr items
          \<and> mset items = mset d
          \<and> try_map sml_sort_key items = Inr keys \<and> sorted keys
          \<and> (\<forall>k. filter (\<lambda>x. sml_sort_key x = Inr k) items
                 = filter (\<lambda>x. sml_sort_key x = Inr k) d)
          \<and> calc_merkle_root H (map snd items) = Some (hfu (rev root))
          \<and> check_sml_merkle_root H d cbx = Inr (root = merkleRootMNList cbx)"
proof -
  define g where "g = (\<lambda>x::string \<times> bytes. projr (sml_sort_key x))"
  define items where "items = sort_key g d"
  from assms have ok: "\<forall>x \<in> set d. \<exists>k. sml_sort_key x = Inr k"
    by (auto simp: sml_sort_key_def)
  then have fg: "\<And>x. x \<in> set d \<Longrightarrow> sml_sort_key x = Inr (g x)"
    unfolding g_def by force
  have 1: "py_sorted sml_sort_key d = Inr items"
    unfolding items_def g_def by (rule py_sorted_sort_key[OF ok])
  have 2: "mset items = mset d" by (simp add: items_def)
  have si: "set items = set d" by (simp add: items_def)
  with ok have "\<forall>x \<in> set items. \<exists>k. sml_sort_key x = Inr k" by simp
  from try_map_Inr_iff[OF this]
  have 3: "try_map sml_sort_key items = Inr (map g items)" by (simp add: g_def)
  have 4: "sorted (map g items)" by (simp add: items_def)
  have 5: "\<forall>k. filter (\<lambda>x. sml_sort_key x = Inr k) items
              = filter (\<lambda>x. sml_sort_key x = Inr k) d"
  proof
    fix k
    have "filter (\<lambda>x. sml_sort_key x = Inr k) items = filter (\<lambda>x. g x = k) items"
      by (rule filter_cong) (auto simp: si fg)
    also have "\<dots> = filter (\<lambda>x. g x = k) d" by (simp add: items_def sort_key_stable)
    also have "\<dots> = filter (\<lambda>x. sml_sort_key x = Inr k) d"
      by (rule filter_cong) (auto simp: fg)
    finally show "filter (\<lambda>x. sml_sort_key x = Inr k) items
                  = filter (\<lambda>x. sml_sort_key x = Inr k) d" .
  qed
  from calc_merkle_root_root obtain root
    where 6: "calc_merkle_root H (map snd items) = Some (hfu (rev root))" by blast
  have 7: "check_sml_merkle_root H d cbx = Inr (root = merkleRootMNList cbx)"
    by (simp add: check_sml_merkle_root_def 1 6 Let_def hfu_rev_inj)
  from 1 2 3 4 5 6 7 show ?thesis by blast
qed

text \<open>
  C4, as amended.  For a map of content hashes whose keys are hex strings,
  \<open>check_sml_merkle_root\<close> orders the items ascending by the bytes of the key
  in reversed order (\<open>bfh(key)[::-1]\<close>), items with the same sort key keeping the
  order they have in the map, and computes the merkle root over the hashes in that
  order.  \<open>check_llmq_merkle_root\<close> computes the root over the quorum content hashes
  sorted ascending by their own value; the keys play no part.  Each check returns
  true exactly when the root it computed is the root in the extra payload of the
  commitment transaction.
\<close>

theorem merkle_root_checks:
  "((\<forall>x \<in> set d. \<exists>b. bfh (fst x) = Inr b) \<longrightarrow>
      (\<exists>items keys root.
          py_sorted sml_sort_key d = Inr items
        \<and> mset items = mset d
        \<and> try_map sml_sort_key items = Inr keys \<and> sorted keys
        \<and> (\<forall>k. filter (\<lambda>x. sml_sort_key x = Inr k) items
               = filter (\<lambda>x. sml_sort_key x = Inr k) d)
        \<and> calc_merkle_root H (map snd items) = Some (hfu (rev root))
        \<and> check_sml_merkle_root H d cbx = Inr (root = merkleRootMNList cbx)))
   \<and> (\<exists>root. calc_merkle_root H (sort (map snd q)) = Some (hfu (rev root))
          \<and> check_llmq_merkle_root H q cbx = Inr (root = merkleRootQuorums cbx))
   \<and> (\<forall>q'. mset (map snd q') = mset (map snd q)
          \<longrightarrow> check_llmq_merkle_root H q' cbx = check_llmq_merkle_root H q cbx)"
  using check_sml_root[of d H cbx] check_llmq_root[of H q cbx] check_llmq_values[of _ q H cbx]
  by blast

text \<open>
  The order is ascending, not descending: of the keys \<open>0001\<close> and \<open>0100\<close> the second
  comes first, its reversed bytes \<open>00 01\<close> being below \<open>01 00\<close>.
\<close>

theorem sml_order_counterexample:
  "py_sorted sml_sort_key ex_sml_hashes = Inr [(''0100'', replicate 32 2), (''0001'', replicate 32 1)]
   \<and> try_map sml_sort_key [(''0100'', replicate 32 2), (''0001'', replicate 32 1)]
       = Inr [[0, 1], [1, 0]]
   \<and> \<not> sorted (rev [[0, 1], [1, 0 :: byte]])"
  by (simp add: ex_sml_hashes_def py_sorted_def sml_sort_key_def hex_val_def is_space_def)

theorem merkle_root_checks_witness:
  "bfh ''0001'' = Inr [0, 1] \<and> bfh ''0100'' = Inr [1, 0]
   \<and> py_sorted sml_sort_key ex_sml_hashes
       = Inr [(''0100'', replicate 32 2), (''0001'', replicate 32 1)]
   \<and> check_sml_merkle_root sha256d_fips ex_sml_hashes
         \<lparr>cb_version = 2, cb_height = 1030090,
          merkleRootMNList = sha256d_fips (replicate 32 2 @ replicate 32 1),
          merkleRootQuorums = replicate 32 7\<rparr> = Inr True
   \<and> check_llmq_merkle_root sha256d_fips [(''x'', replicate 32 7)]
         \<lparr>cb_version = 2, cb_height = 1030090,
          merkleRootMNList = sha256d_fips (replicate 32 2 @ replicate 32 1),
          merkleRootQuorums = replicate 32 7\<rparr> = Inr True
   \<and> check_llmq_merkle_root sha256d_fips [(''y'', replicate 32 7)]
         \<lparr>cb_version = 2, cb_height = 1030090,
          merkleRootMNList = sha256d_fips (replicate 32 2 @ replicate 32 1),
          merkleRootQuorums = replicate 32 7\<rparr> = Inr True"
proof -
  let ?cbx = "\<lparr>cb_version = 2, cb_height = 1030090,
          merkleRootMNList = sha256d_fips (replicate 32 2 @ replicate 32 1),
          merkleRootQuorums = replicate 32 7\<rparr>"
  let ?items = "[(''0100'', replicate 32 (2::byte)), (''0001'', replicate 32 (1::byte))]"
  note t = merkle_root_checks[of ex_sml_hashes sha256d_fips ?cbx "[(''x'', replicate 32 7)]"]
  have b: "bfh ''0001'' = Inr [0, 1] \<and> bfh ''0100'' = Inr [1, 0]"
    by (simp add: hex_val_def is_space_def)
  then have h: "\<forall>x \<in> set ex_sml_hashes. \<exists>b. bfh (fst x) = Inr b"
    by (simp add: ex_sml_hashes_def)
  have s: "py_sorted sml_sort_key ex_sml_hashes = Inr ?items"
    by (simp add: ex_sml_hashes_def py_sorted_def sml_sort_key_def hex_val_def is_space_def)
  from t h have "\<exists>items keys root.
          py_sorted sml_sort_key ex_sml_hashes = Inr items
        \<and> mset items = mset ex_sml_hashes
        \<and> try_map sml_sort_key items = Inr keys \<and> sorted keys
        \<and> (\<forall>k. filter (\<lambda>x. sml_sort_key x = Inr k) items
               = filter (\<lambda>x. sml_sort_key x = Inr k) ex_sml_hashes)
        \<and> calc_merkle_root sha256d_fips (map snd items) = Some (hfu (rev root))
        \<and> check_sml_merkle_root sha256d_fips ex_sml_hashes ?cbx
            = Inr (root = merkleRootMNList ?cbx)"
    by (rule conjunct1[THEN mp])
  then obtain items root
    where i: "py_sorted sml_sort_key ex_sml_hashes = Inr items"
      and r0: "calc_merkle_root sha256d_fips (map snd items) = Some (hfu (rev root))"
      and c: "check_sml_merkle_root sha256d_fips ex_sml_hashes ?cbx
              = Inr (root = merkleRootMNList ?cbx)"
    by blast
  from i s have "items = ?items" by simp
  with r0 have r: "calc_merkle_root sha256d_fips (map snd ?items) = Some (hfu (rev root))"
    by simp
  have "calc_merkle_root sha256d_fips (map snd ?items)
        = Some (hfu (rev (sha256d_fips (replicate 32 2 @ replicate 32 1))))"
    using calc_merkle_root_level[of "map snd ?items" sha256d_fips]
    by (simp add: calc_merkle_root_single)
  with r have "root = sha256d_fips (replicate 32 2 @ replicate 32 1)"
    by (simp only: option.inject hfu_rev_inj)
  with c have c1: "check_sml_merkle_root sha256d_fips ex_sml_hashes ?cbx = Inr True" by simp
  from t have "\<exists>root. calc_merkle_root sha256d_fips (sort (map snd [(''x'', replicate 32 (7::byte))]))
                    = Some (hfu (rev root))
          \<and> check_llmq_merkle_root sha256d_fips [(''x'', replicate 32 7)] ?cbx
              = Inr (root = merkleRootQuorums ?cbx)"
    by (rule conjunct2[THEN conjunct1])
  then obtain root2
    where r2: "calc_merkle_root sha256d_fips (sort (map snd [(''x'', replicate 32 (7::byte))]))
               = Some (hfu (rev root2))"
      and c2: "check_llmq_merkle_root sha256d_fips [(''x'', replicate 32 7)] ?cbx
               = Inr (root2 = merkleRootQuorums ?cbx)"
    by blast
  from r2 have "root2 = replicate 32 7"
    by (simp add: calc_merkle_root_single hfu_rev_inj del: rev_replicate)
  with c2 have c3: "check_llmq_merkle_root sha256d_fips [(''x'', replicate 32 7)] ?cbx = Inr True"
    by simp
  have m: "mset (map snd [(''y'', replicate 32 (7::byte))]) = mset (map snd [(''x'', replicate 32 (7::byte))])"
    by simp
  from t have "\<forall>q'. mset (map snd q') = mset (map snd [(''x'', replicate 32 (7::byte))])
          \<longrightarrow> check_llmq_merkle_root sha256d_fips q' ?cbx
              = check_llmq_merkle_root sha256d_fips [(''x'', replicate 32 7)] ?cbx"
    by (rule conjunct2[THEN conjunct2])
  with m have "check_llmq_merkle_root sha256d_fips [(''y'', replicate 32 7)] ?cbx
                 = check_llmq_merkle_root sha256d_fips [(''x'', replicate 32 7)] ?cbx"
    by blast
  with c3 have c4: "check_llmq_merkle_root sha256d_fips [(''y'', replicate 32 7)] ?cbx = Inr True"
    by simp
  from b s c1 c3 c4 show ?thesis by simp
qed

section \<open>Loading the snapshot files\<close>

text \<open>
  Both load operations return a value and never raise.  Without a configured
  path, and whenever anything in the \<open>try\<close> block raises, \<open>_read_recent_list\<close> returns
  the \<open>DEFAULT_MN_LIST\<close> object of the module, with what that dict holds at that
  moment, and \<open>_read_protx_info\<close> returns a new empty map: when the file cannot be
  opened or read, when its content is not UTF-8 or not JSON, and, for the recent
  list, when one of the four maps is missing, is not an object, or holds a value
  that is not a string or that its decoder rejects.
\<close>

lemma load_returns_default_object:
  "(\<not> config_path_set (config_path s) \<longrightarrow>
      read_recent_list E s = (True, module_default_mn_list s)
      \<and> read_protx_info E (config_path s) = JObj [])
   \<and> (\<forall>d e. config_path s = Some d
            \<and> read_recent_list_try E (os_path_join d RECENT_LIST_FNAME) = Inl e
          \<longrightarrow> read_recent_list E s = (True, module_default_mn_list s))
   \<and> (\<forall>d e. p = Some d \<and> read_protx_info_try E (os_path_join d PROTX_INFO_FNAME) = Inl e
          \<longrightarrow> read_protx_info E p = JObj [])
   \<and> (\<forall>e. gzip_read E path = Inl e
          \<longrightarrow> read_recent_list_try E path = Inl e \<and> read_protx_info_try E path = Inl e)
   \<and> (\<forall>data e. gzip_read E path = Inr data \<and> utf8_decode E data = Inl e
          \<longrightarrow> read_recent_list_try E path = Inl e \<and> read_protx_info_try E path = Inl e)
   \<and> (\<forall>data decoded e. gzip_read E path = Inr data \<and> utf8_decode E data = Inr decoded
            \<and> json_loads E decoded = Inl e
          \<longrightarrow> read_recent_list_try E path = Inl e \<and> read_protx_info_try E path = Inl e)
   \<and> (\<forall>data decoded rl. gzip_read E path = Inr data \<and> utf8_decode E data = Inr decoded
            \<and> json_loads E decoded = Inr rl
            \<and> (  (\<exists>e. read_map rl ''protx_mns'' (sml_from_hex E) = Inl e)
               \<or> (\<exists>e. read_map rl ''sml_hashes'' bfh_reversed = Inl e)
               \<or> (\<exists>e. read_map rl ''quorums'' (qf_from_hex E) = Inl e)
               \<or> (\<exists>e. read_map rl ''llmq_hashes'' bfh_reversed = Inl e))
          \<longrightarrow> (\<exists>e. read_recent_list_try E path = Inl e))
   \<and> (\<forall>rl key conv.
          (\<forall>d. rl \<noteq> JObj d) \<or> (\<exists>d. rl = JObj d \<and> map_of d key = None)
          \<or> (\<exists>d v. rl = JObj d \<and> map_of d key = Some v \<and> (\<forall>m. v \<noteq> JObj m))
          \<longrightarrow> (\<exists>e. (read_map rl key conv :: py_error + (string, 'v) dict) = Inl e))"
proof (intro conjI allI impI)
  show "read_recent_list E s = (True, module_default_mn_list s)"
    if "\<not> config_path_set (config_path s)"
    using that by (auto simp: read_recent_list_def split: option.splits)
  show "read_protx_info E (config_path s) = JObj []" if "\<not> config_path_set (config_path s)"
    using that by (auto simp: read_protx_info_def split: option.splits)
  show "read_recent_list E s = (True, module_default_mn_list s)"
    if "config_path s = Some d
        \<and> read_recent_list_try E (os_path_join d RECENT_LIST_FNAME) = Inl e" for d e
    using that by (simp add: read_recent_list_def Let_def)
  show "read_protx_info E p = JObj []"
    if "p = Some d \<and> read_protx_info_try E (os_path_join d PROTX_INFO_FNAME) = Inl e" for d e
    using that by (simp add: read_protx_info_def Let_def)
  show "read_recent_list_try E path = Inl e" if "gzip_read E path = Inl e" for e
    using that by (simp add: read_recent_list_try_def)
  show "read_protx_info_try E path = Inl e" if "gzip_read E path = Inl e" for e
    using that by (simp add: read_protx_info_try_def)
  show "read_recent_list_try E path = Inl e"
    if "gzip_read E path = Inr data \<and> utf8_decode E data = Inl e" for data e
    using that by (simp add: read_recent_list_try_def)
  show "read_protx_info_try E path = Inl e"
    if "gzip_read E path = Inr data \<and> utf8_decode E data = Inl e" for data e
    using that by (simp add: read_protx_info_try_def)
  show "read_recent_list_try E path = Inl e"
    if "gzip_read E path = Inr data \<and> utf8_decode E data = Inr decoded
        \<and> json_loads E decoded = Inl e" for data decoded e
    using that by (simp add: read_recent_list_try_def)
  show "read_protx_info_try E path = Inl e"
    if "gzip_read E path = Inr data \<and> utf8_decode E data = Inr decoded
        \<and> json_loads E decoded = Inl e" for data decoded e
    using that by (simp add: read_protx_info_try_def)
  show "\<exists>e. read_recent_list_try E path = Inl e"
    if "gzip_read E path = Inr data \<and> utf8_decode E data = Inr decoded
            \<and> json_loads E decoded = Inr rl
            \<and> (  (\<exists>e. read_map rl ''protx_mns'' (sml_from_hex E) = Inl e)
               \<or> (\<exists>e. read_map rl ''sml_hashes'' bfh_reversed = Inl e)
               \<or> (\<exists>e. read_map rl ''quorums'' (qf_from_hex E) = Inl e)
               \<or> (\<exists>e. read_map rl ''llmq_hashes'' bfh_reversed = Inl e))" for data decoded rl
    using that by (auto simp: read_recent_list_try_def split: sum.splits)
  show "\<exists>e. (read_map rl key conv :: py_error + (string, 'v) dict) = Inl e"
    if "(\<forall>d. rl \<noteq> JObj d) \<or> (\<exists>d. rl = JObj d \<and> map_of d key = None)
          \<or> (\<exists>d v. rl = JObj d \<and> map_of d key = Some v \<and> (\<forall>m. v \<noteq> JObj m))"
    for rl key and conv :: "string \<Rightarrow> py_error + 'v"
    using that
    by (auto simp: read_map_def json_getitem_def json_items_def split: json.splits option.splits)
qed

text \<open>
  The first load of an object finds the \<open>DEFAULT_MN_LIST\<close> object as the module
  defines it, and line 113 makes it the recent list of the object.
\<close>

lemma init_recent_list_default:
  assumes "\<not> config_path_set (config_path s)"
  shows "recent_list_is_default (init_recent_list E s)"
    and "recent_list (init_recent_list E s) = module_default_mn_list s"
    and "module_default_mn_list (init_recent_list E s) = module_default_mn_list s"
  using assms
  by (auto simp: init_recent_list_def read_recent_list_def module_default_mn_list_def
      split: option.splits)

text \<open>
  C8.  The claim fails on the code.  Take an object without a data path whose
  first load fell back (line 113), so that its recent list is the \<open>DEFAULT_MN_LIST\<close>
  object of the module.  \<open>reset\<close> writes the height 1 to that dict.  The next load
  falls back again, raises nothing, and returns the \<open>DEFAULT_MN_LIST\<close> object, which
  now holds the heights 1 and not the heights 0 of the default masternode list.
  After a diff with a classical coinbase it holds the height of that diff.
  \<open>_read_protx_info\<close> returns a new empty map each time.
\<close>

theorem load_after_reset_not_default:
  "\<not> config_path_set (config_path (ex_mnlist\<lparr>config_path := None\<rparr>))
   \<and> module_default_mn_list (ex_mnlist\<lparr>config_path := None\<rparr>) = DEFAULT_MN_LIST
   \<and> read_recent_list ex_env (ex_mnlist\<lparr>config_path := None\<rparr>) = (True, DEFAULT_MN_LIST)
   \<and> recent_list_is_default (init_recent_list ex_env (ex_mnlist\<lparr>config_path := None\<rparr>))
   \<and> fst (reset ex_env 100 (init_recent_list ex_env (ex_mnlist\<lparr>config_path := None\<rparr>)))
       = Inr ()
   \<and> read_recent_list ex_env
        (snd (reset ex_env 100 (init_recent_list ex_env (ex_mnlist\<lparr>config_path := None\<rparr>))))
       = (True, DEFAULT_MN_LIST\<lparr>rl_protx_height := Some (JNum 1),
                                 rl_llmq_height := Some (JNum 1)\<rparr>)
   \<and> DEFAULT_MN_LIST\<lparr>rl_protx_height := Some (JNum 1), rl_llmq_height := Some (JNum 1)\<rparr>
       \<noteq> DEFAULT_MN_LIST
   \<and> fst (process_mnlistdiff ex_env (init_recent_list ex_env (ex_mnlist\<lparr>config_path := None\<rparr>))
             1030080 1030090 ex_diff_classical) = Inr True
   \<and> read_recent_list ex_env
        (snd (process_mnlistdiff ex_env
                (init_recent_list ex_env (ex_mnlist\<lparr>config_path := None\<rparr>))
                1030080 1030090 ex_diff_classical))
       = (True, DEFAULT_MN_LIST\<lparr>rl_protx_height := Some (JNum 1030090),
                                 rl_llmq_height := Some (JNum 1030090)\<rparr>)
   \<and> read_protx_info ex_env
        (config_path (snd (reset ex_env 100
                             (init_recent_list ex_env (ex_mnlist\<lparr>config_path := None\<rparr>)))))
       = JObj []"
proof -
  define s0 where "s0 = ex_mnlist\<lparr>config_path := None\<rparr>"
  define s1 where "s1 = init_recent_list ex_env s0"
  have p0: "\<not> config_path_set (config_path s0)"
    by (simp add: s0_def config_path_set_def)
  have m0: "module_default_mn_list s0 = DEFAULT_MN_LIST"
    by (simp add: s0_def module_default_mn_list_def ex_mnlist_def)
  have r0: "read_recent_list ex_env s0 = (True, DEFAULT_MN_LIST)"
    using m0 by (simp add: read_recent_list_def s0_def)
  have s1: "s1 = s0\<lparr>default_mn_list := DEFAULT_MN_LIST, recent_list := DEFAULT_MN_LIST,
                    recent_list_is_default := True\<rparr>"
    by (simp add: s1_def init_recent_list_def r0 m0)
  have a1: "recent_list_is_default s1" by (simp add: s1)
  have f1: "config_path s1 = None" "network s1 = Some ex_network" "load_mns s1"
    by (simp_all add: s1 s0_def ex_mnlist_def)
  have rs: "fst (reset ex_env 100 s1) = Inr ()"
    by (simp add: reset_def Let_def save_recent_list_def save_protx_info_def notify_def f1)
  have rr: "recent_list (snd (reset ex_env 100 s1))
            = DEFAULT_MN_LIST\<lparr>rl_protx_height := Some (JNum 1), rl_llmq_height := Some (JNum 1)\<rparr>"
    "recent_list_is_default (snd (reset ex_env 100 s1))"
    "config_path (snd (reset ex_env 100 s1)) = None"
    by (simp_all add: reset_def Let_def save_recent_list_def save_protx_info_def notify_def f1,
        simp_all add: s1 DEFAULT_MN_LIST_def)
  have l2: "read_recent_list ex_env (snd (reset ex_env 100 s1))
            = (True, DEFAULT_MN_LIST\<lparr>rl_protx_height := Some (JNum 1),
                                      rl_llmq_height := Some (JNum 1)\<rparr>)"
    by (simp add: read_recent_list_def module_default_mn_list_def rr)
  have ne: "DEFAULT_MN_LIST\<lparr>rl_protx_height := Some (JNum 1), rl_llmq_height := Some (JNum 1)\<rparr>
            \<noteq> DEFAULT_MN_LIST"
    by (simp add: DEFAULT_MN_LIST_def)
  have t: "tx_type (cbTx ex_diff_classical) = 0"
    by (simp add: ex_diff_classical_def ex_cbtx_classical_def)
  have pc: "process_mnlistdiff ex_env s1 1030080 1030090 ex_diff_classical
            = (Inr True, mnlistdiff_classical s1 1030090)"
    using t by (simp add: process_mnlistdiff_def)
  have pf: "fst (process_mnlistdiff ex_env s1 1030080 1030090 ex_diff_classical) = Inr True"
    by (simp add: pc)
  have l3: "read_recent_list ex_env
              (snd (process_mnlistdiff ex_env s1 1030080 1030090 ex_diff_classical))
            = (True, DEFAULT_MN_LIST\<lparr>rl_protx_height := Some (JNum 1030090),
                                      rl_llmq_height := Some (JNum 1030090)\<rparr>)"
    unfolding pc snd_conv
    by (simp add: read_recent_list_def module_default_mn_list_def mnlistdiff_classical_def
        Let_def f1, simp add: s1)
  have i: "read_protx_info ex_env (config_path (snd (reset ex_env 100 s1))) = JObj []"
    by (simp add: rr read_protx_info_def)
  show ?thesis
    using p0 m0 r0 a1 rs l2 ne pf l3 i unfolding s1_def s0_def
    by (intro conjI)
qed

section \<open>Reset\<close>

lemma save_recent_list_fields:
  "protx_height (save_recent_list E t) = protx_height t
   \<and> llmq_height (save_recent_list E t) = llmq_height t
   \<and> protx_mns (save_recent_list E t) = protx_mns t
   \<and> quorums (save_recent_list E t) = quorums t
   \<and> sml_hashes (save_recent_list E t) = sml_hashes t
   \<and> llmq_hashes (save_recent_list E t) = llmq_hashes t
   \<and> protx_info (save_recent_list E t) = protx_info t
   \<and> mns_outpoints (save_recent_list E t) = mns_outpoints t
   \<and> recent_list (save_recent_list E t) = recent_list t
   \<and> network (save_recent_list E t) = network t
   \<and> config_path (save_recent_list E t) = config_path t
   \<and> dash_net_enabled (save_recent_list E t) = dash_net_enabled t
   \<and> load_mns (save_recent_list E t) = load_mns t
   \<and> protx_state (save_recent_list E t) = protx_state t
   \<and> diff_deleted_mns (save_recent_list E t) = diff_deleted_mns t
   \<and> diff_hashes (save_recent_list E t) = diff_hashes t
   \<and> info_hash (save_recent_list E t) = info_hash t
   \<and> sent_getmnlistd (save_recent_list E t) = sent_getmnlistd t
   \<and> sent_protx_diff (save_recent_list E t) = sent_protx_diff t
   \<and> last_protx_info_save_time (save_recent_list E t) = last_protx_info_save_time t"
  by (cases "config_path t") (simp_all add: save_recent_list_def Let_def)

lemma save_recent_list_written:
  assumes "config_path t = Some d" and "d \<noteq> []"
    and "gzip_write_ok E (os_path_join d RECENT_LIST_FNAME) (recent_list_json E (recent_list t))"
  shows "effects (save_recent_list E t) = effects t @
           [Write_gz (os_path_join d RECENT_LIST_FNAME) (recent_list_json E (recent_list t))]"
  using assms by (simp add: save_recent_list_def Let_def config_path_set_def)

lemma save_recent_list_no_path:
  assumes "\<not> config_path_set (config_path t)"
  shows "effects (save_recent_list E t) = effects t"
  using assms by (cases "config_path t") (simp_all add: save_recent_list_def)

lemma save_protx_info_fields:
  "protx_height (save_protx_info E now force t) = protx_height t
   \<and> llmq_height (save_protx_info E now force t) = llmq_height t
   \<and> protx_mns (save_protx_info E now force t) = protx_mns t
   \<and> quorums (save_protx_info E now force t) = quorums t
   \<and> sml_hashes (save_protx_info E now force t) = sml_hashes t
   \<and> llmq_hashes (save_protx_info E now force t) = llmq_hashes t
   \<and> protx_info (save_protx_info E now force t) = protx_info t
   \<and> mns_outpoints (save_protx_info E now force t) = mns_outpoints t
   \<and> recent_list (save_protx_info E now force t) = recent_list t
   \<and> network (save_protx_info E now force t) = network t
   \<and> config_path (save_protx_info E now force t) = config_path t
   \<and> dash_net_enabled (save_protx_info E now force t) = dash_net_enabled t
   \<and> load_mns (save_protx_info E now force t) = load_mns t
   \<and> protx_state (save_protx_info E now force t) = protx_state t
   \<and> diff_deleted_mns (save_protx_info E now force t) = diff_deleted_mns t
   \<and> diff_hashes (save_protx_info E now force t) = diff_hashes t
   \<and> info_hash (save_protx_info E now force t) = info_hash t
   \<and> sent_getmnlistd (save_protx_info E now force t) = sent_getmnlistd t
   \<and> sent_protx_diff (save_protx_info E now force t) = sent_protx_diff t"
  by (cases "config_path t") (simp_all add: save_protx_info_def Let_def)

lemma save_protx_info_written:
  assumes "config_path t = Some d" and "d \<noteq> []"
    and "gzip_write_ok E (os_path_join d PROTX_INFO_FNAME) (JObj (protx_info t))"
  shows "effects (save_protx_info E now True t) = effects t @
           [Write_gz (os_path_join d PROTX_INFO_FNAME) (JObj (protx_info t))]"
  using assms by (simp add: save_protx_info_def Let_def config_path_set_def)

lemma save_protx_info_no_path:
  assumes "\<not> config_path_set (config_path t)"
  shows "effects (save_protx_info E now force t) = effects t"
  using assms by (cases "config_path t") (simp_all add: save_protx_info_def)

lemma save_recent_list_effects:
  "effects (save_recent_list E t) = effects t @
     (case config_path t of
        None \<Rightarrow> []
      | Some d \<Rightarrow>
          if d \<noteq> [] \<and> gzip_write_ok E (os_path_join d RECENT_LIST_FNAME)
                          (recent_list_json E (recent_list t))
          then [Write_gz (os_path_join d RECENT_LIST_FNAME) (recent_list_json E (recent_list t))]
          else [])"
  by (cases "config_path t") (simp_all add: save_recent_list_def Let_def config_path_set_def)

lemma save_protx_info_effects:
  "effects (save_protx_info E now True t) = effects t @
     (case config_path t of
        None \<Rightarrow> []
      | Some d \<Rightarrow>
          if d \<noteq> [] \<and> gzip_write_ok E (os_path_join d PROTX_INFO_FNAME) (JObj (protx_info t))
          then [Write_gz (os_path_join d PROTX_INFO_FNAME) (JObj (protx_info t))]
          else [])"
  by (cases "config_path t") (simp_all add: save_protx_info_def Let_def config_path_set_def)

lemma notify_diff_updated:
  "notify ''mn-list-diff-updated'' t =
   t\<lparr>diff_deleted_mns := [], diff_hashes := [],
     effects := effects t @
       [Trigger_callback ''mn-list-diff-updated''
          (Diff_updated (protx_state t) (diff_deleted_mns t) (diff_hashes t))]\<rparr>"
  by (simp add: notify_def)

text \<open>
  C9, as amended.  \<open>reset\<close> sets \<open>protx_height\<close> and \<open>llmq_height\<close> to 1, empties the
  masternode map, the quorum map, both content-hash maps, the protx-info map and
  the outpoint back-mapping, in the object and in \<open>recent_list\<close>, and sets the state
  flag to unknown.  When a data path is configured and the two writes succeed, it
  writes the cleared recent list and the empty info map to the two snapshot
  files; without a configured path it writes nothing.  On an object with a network
  it then notifies the listeners and issues a new diff request: \<open>getmnlistd()\<close> when
  the Dash network is enabled, \<open>request_protx_diff()\<close> otherwise.  This holds
  whether or not a path is configured and whether or not a write succeeds: the
  effects of a reset are those writes of the two that succeed, in this order, then
  the notification, then the request.
\<close>

theorem reset_clears:
  "\<forall>r s'. reset E now s = (r, s') \<longrightarrow>
     protx_height s' = 1 \<and> llmq_height s' = 1
     \<and> protx_mns s' = [] \<and> quorums s' = [] \<and> sml_hashes s' = [] \<and> llmq_hashes s' = []
     \<and> protx_info s' = [] \<and> mns_outpoints s' = []
     \<and> recent_list s' = (recent_list s)
           \<lparr>rl_protx_height := Some (JNum 1), rl_llmq_height := Some (JNum 1),
            rl_protx_mns := [], rl_sml_hashes := [], rl_quorums := [], rl_llmq_hashes := []\<rparr>
     \<and> protx_state s' = DIP3_UNKNOWN
     \<and> (\<forall>n. network s = Some n \<longrightarrow>
           r = Inr ()
           \<and> (\<forall>d. config_path s = Some d \<and> d \<noteq> []
                  \<and> gzip_write_ok E (os_path_join d RECENT_LIST_FNAME)
                       (JObj ([(''protx_height'', JNum 1), (''llmq_height'', JNum 1),
                               (''protx_mns'', JObj []), (''sml_hashes'', JObj []),
                               (''quorums'', JObj []), (''llmq_hashes'', JObj [])]
                              @ rl_other (recent_list s)))
                  \<and> gzip_write_ok E (os_path_join d PROTX_INFO_FNAME) (JObj [])
                \<longrightarrow> effects s' = effects s @
                      [Write_gz (os_path_join d RECENT_LIST_FNAME)
                         (JObj ([(''protx_height'', JNum 1), (''llmq_height'', JNum 1),
                                 (''protx_mns'', JObj []), (''sml_hashes'', JObj []),
                                 (''quorums'', JObj []), (''llmq_hashes'', JObj [])]
                                @ rl_other (recent_list s))),
                       Write_gz (os_path_join d PROTX_INFO_FNAME) (JObj []),
                       Trigger_callback ''mn-list-diff-updated'' (Diff_updated DIP3_UNKNOWN [] []),
                       if dash_net_enabled s then Getmnlistd False else Request_protx_diff])
           \<and> (\<not> config_path_set (config_path s)
                \<longrightarrow> effects s' = effects s @
                      [Trigger_callback ''mn-list-diff-updated'' (Diff_updated DIP3_UNKNOWN [] []),
                       if dash_net_enabled s then Getmnlistd False else Request_protx_diff])
           \<and> effects s' = effects s
                @ (case config_path s of
                     None \<Rightarrow> []
                   | Some d \<Rightarrow>
                       if d \<noteq> [] \<and> gzip_write_ok E (os_path_join d RECENT_LIST_FNAME)
                            (JObj ([(''protx_height'', JNum 1), (''llmq_height'', JNum 1),
                                    (''protx_mns'', JObj []), (''sml_hashes'', JObj []),
                                    (''quorums'', JObj []), (''llmq_hashes'', JObj [])]
                                   @ rl_other (recent_list s)))
                       then [Write_gz (os_path_join d RECENT_LIST_FNAME)
                               (JObj ([(''protx_height'', JNum 1), (''llmq_height'', JNum 1),
                                       (''protx_mns'', JObj []), (''sml_hashes'', JObj []),
                                       (''quorums'', JObj []), (''llmq_hashes'', JObj [])]
                                      @ rl_other (recent_list s)))]
                       else [])
                @ (case config_path s of
                     None \<Rightarrow> []
                   | Some d \<Rightarrow>
                       if d \<noteq> [] \<and> gzip_write_ok E (os_path_join d PROTX_INFO_FNAME) (JObj [])
                       then [Write_gz (os_path_join d PROTX_INFO_FNAME) (JObj [])]
                       else [])
                @ [Trigger_callback ''mn-list-diff-updated'' (Diff_updated DIP3_UNKNOWN [] []),
                   if dash_net_enabled s then Getmnlistd False else Request_protx_diff])"
proof (intro allI impI)
  fix r s' assume a: "reset E now s = (r, s')"
  define s1 where "s1 =
     s\<lparr>recent_list := (recent_list s)
          \<lparr>rl_protx_height := Some (JNum 1), rl_llmq_height := Some (JNum 1),
           rl_protx_mns := [], rl_sml_hashes := [],
           rl_quorums := [], rl_llmq_hashes := []\<rparr>,
       protx_height := 1, llmq_height := 1,
       protx_mns := [], sml_hashes := [], quorums := [], llmq_hashes := [],
       protx_info := [], mns_outpoints := []\<rparr>"
  define s2 where "s2 = save_recent_list E s1"
  define s3 where "s3 = save_protx_info E now True s2"
  define s5 where "s5 = notify ''mn-list-diff-updated''
                 (s3\<lparr>protx_state := DIP3_UNKNOWN, diff_deleted_mns := [], diff_hashes := []\<rparr>)"
  note f2 = save_recent_list_fields[of E s1, folded s2_def]
  note f3 = save_protx_info_fields[of E now True s2, folded s3_def]
  have c1: "protx_height s1 = 1 \<and> llmq_height s1 = 1
     \<and> protx_mns s1 = [] \<and> quorums s1 = [] \<and> sml_hashes s1 = [] \<and> llmq_hashes s1 = []
     \<and> protx_info s1 = [] \<and> mns_outpoints s1 = []
     \<and> recent_list s1 = (recent_list s)
           \<lparr>rl_protx_height := Some (JNum 1), rl_llmq_height := Some (JNum 1),
            rl_protx_mns := [], rl_sml_hashes := [], rl_quorums := [], rl_llmq_hashes := []\<rparr>
     \<and> network s1 = network s \<and> config_path s1 = config_path s
     \<and> dash_net_enabled s1 = dash_net_enabled s \<and> effects s1 = effects s"
    by (simp add: s1_def)
  have c5: "protx_height s5 = 1 \<and> llmq_height s5 = 1
     \<and> protx_mns s5 = [] \<and> quorums s5 = [] \<and> sml_hashes s5 = [] \<and> llmq_hashes s5 = []
     \<and> protx_info s5 = [] \<and> mns_outpoints s5 = []
     \<and> recent_list s5 = (recent_list s)
           \<lparr>rl_protx_height := Some (JNum 1), rl_llmq_height := Some (JNum 1),
            rl_protx_mns := [], rl_sml_hashes := [], rl_quorums := [], rl_llmq_hashes := []\<rparr>
     \<and> protx_state s5 = DIP3_UNKNOWN
     \<and> network s5 = network s \<and> dash_net_enabled s5 = dash_net_enabled s
     \<and> effects s5 = effects s3 @
          [Trigger_callback ''mn-list-diff-updated'' (Diff_updated DIP3_UNKNOWN [] [])]"
    by (simp add: s5_def notify_diff_updated f3 f2 c1)
  have r: "reset E now s =
           (case network s5 of
              None \<Rightarrow> (Inl AttributeError, s5)
            | Some n \<Rightarrow>
                (Inr (), s5\<lparr>effects := effects s5 @
                               [if dash_net_enabled s5 then Getmnlistd False
                                else Request_protx_diff]\<rparr>))"
    by (simp only: reset_def Let_def s5_def s3_def s2_def s1_def)
  have rl: "recent_list_json E (recent_list s1) =
            JObj ([(''protx_height'', JNum 1), (''llmq_height'', JNum 1),
                   (''protx_mns'', JObj []), (''sml_hashes'', JObj []),
                   (''quorums'', JObj []), (''llmq_hashes'', JObj [])]
                  @ rl_other (recent_list s))"
    by (simp add: recent_list_json_def from_json_option_def c1)
  let ?req = "[if dash_net_enabled s5 then Getmnlistd False else Request_protx_diff]"
  from a have a': "(case network s5 of
              None \<Rightarrow> (Inl AttributeError, s5)
            | Some n \<Rightarrow> (Inr (), s5\<lparr>effects := effects s5 @ ?req\<rparr>)) = (r, s')"
    by (simp only: r)
  have shape: "s' = s5 \<or> s' = s5\<lparr>effects := effects s5 @ ?req\<rparr>"
    using a' by (cases "network s5") simp_all
  have fields: "protx_height s' = 1 \<and> llmq_height s' = 1
     \<and> protx_mns s' = [] \<and> quorums s' = [] \<and> sml_hashes s' = [] \<and> llmq_hashes s' = []
     \<and> protx_info s' = [] \<and> mns_outpoints s' = []
     \<and> recent_list s' = (recent_list s)
           \<lparr>rl_protx_height := Some (JNum 1), rl_llmq_height := Some (JNum 1),
            rl_protx_mns := [], rl_sml_hashes := [], rl_quorums := [], rl_llmq_hashes := []\<rparr>
     \<and> protx_state s' = DIP3_UNKNOWN"
  proof -
    from shape show ?thesis
    proof
      assume "s' = s5"
      with c5 show ?thesis by simp
    next
      assume "s' = s5\<lparr>effects := effects s5 @ ?req\<rparr>"
      with c5 show ?thesis by simp
    qed
  qed
  have net: "\<forall>n. network s = Some n \<longrightarrow>
           r = Inr ()
           \<and> effects s' = effects s3 @
               [Trigger_callback ''mn-list-diff-updated'' (Diff_updated DIP3_UNKNOWN [] []),
                if dash_net_enabled s then Getmnlistd False else Request_protx_diff]"
  proof (intro allI impI)
    fix n assume "network s = Some n"
    with c5 have "network s5 = Some n" by simp
    with a' have "r = Inr ()" and "s' = s5\<lparr>effects := effects s5 @ ?req\<rparr>" by simp_all
    with c5 show "r = Inr ()
           \<and> effects s' = effects s3 @
               [Trigger_callback ''mn-list-diff-updated'' (Diff_updated DIP3_UNKNOWN [] []),
                if dash_net_enabled s then Getmnlistd False else Request_protx_diff]"
      by simp
  qed
  have written: "effects s3 = effects s @
                      [Write_gz (os_path_join d RECENT_LIST_FNAME)
                         (JObj ([(''protx_height'', JNum 1), (''llmq_height'', JNum 1),
                                 (''protx_mns'', JObj []), (''sml_hashes'', JObj []),
                                 (''quorums'', JObj []), (''llmq_hashes'', JObj [])]
                                @ rl_other (recent_list s))),
                       Write_gz (os_path_join d PROTX_INFO_FNAME) (JObj [])]"
    if w: "config_path s = Some d \<and> d \<noteq> []
                  \<and> gzip_write_ok E (os_path_join d RECENT_LIST_FNAME)
                       (JObj ([(''protx_height'', JNum 1), (''llmq_height'', JNum 1),
                               (''protx_mns'', JObj []), (''sml_hashes'', JObj []),
                               (''quorums'', JObj []), (''llmq_hashes'', JObj [])]
                              @ rl_other (recent_list s)))
                  \<and> gzip_write_ok E (os_path_join d PROTX_INFO_FNAME) (JObj [])" for d
  proof -
    from w c1 have p1: "config_path s1 = Some d" "d \<noteq> []" by simp_all
    from w have "gzip_write_ok E (os_path_join d RECENT_LIST_FNAME)
                   (recent_list_json E (recent_list s1))"
      by (simp only: rl)
    from save_recent_list_written[OF p1 this]
    have e2: "effects s2 = effects s @
                [Write_gz (os_path_join d RECENT_LIST_FNAME) (recent_list_json E (recent_list s1))]"
      by (simp add: s2_def c1)
    from p1 f2 have p2: "config_path s2 = Some d" by simp
    from f2 c1 have i2: "protx_info s2 = []" by simp
    from w i2 have "gzip_write_ok E (os_path_join d PROTX_INFO_FNAME) (JObj (protx_info s2))"
      by simp
    from save_protx_info_written[OF p2 p1(2) this, of now]
    have "effects s3 = effects s2 @ [Write_gz (os_path_join d PROTX_INFO_FNAME) (JObj [])]"
      by (simp add: s3_def i2)
    with e2 show ?thesis by (simp add: rl)
  qed
  have unwritten: "effects s3 = effects s" if w: "\<not> config_path_set (config_path s)"
  proof -
    from w c1 have "\<not> config_path_set (config_path s1)" by simp
    from save_recent_list_no_path[OF this] have e2: "effects s2 = effects s"
      by (simp add: s2_def c1)
    from w c1 f2 have "\<not> config_path_set (config_path s2)" by simp
    from save_protx_info_no_path[OF this] have "effects s3 = effects s2"
      by (simp add: s3_def)
    with e2 show ?thesis by simp
  qed
  have every: "effects s3 = effects s
                @ (case config_path s of
                     None \<Rightarrow> []
                   | Some d \<Rightarrow>
                       if d \<noteq> [] \<and> gzip_write_ok E (os_path_join d RECENT_LIST_FNAME)
                            (JObj ([(''protx_height'', JNum 1), (''llmq_height'', JNum 1),
                                    (''protx_mns'', JObj []), (''sml_hashes'', JObj []),
                                    (''quorums'', JObj []), (''llmq_hashes'', JObj [])]
                                   @ rl_other (recent_list s)))
                       then [Write_gz (os_path_join d RECENT_LIST_FNAME)
                               (JObj ([(''protx_height'', JNum 1), (''llmq_height'', JNum 1),
                                       (''protx_mns'', JObj []), (''sml_hashes'', JObj []),
                                       (''quorums'', JObj []), (''llmq_hashes'', JObj [])]
                                      @ rl_other (recent_list s)))]
                       else [])
                @ (case config_path s of
                     None \<Rightarrow> []
                   | Some d \<Rightarrow>
                       if d \<noteq> [] \<and> gzip_write_ok E (os_path_join d PROTX_INFO_FNAME) (JObj [])
                       then [Write_gz (os_path_join d PROTX_INFO_FNAME) (JObj [])]
                       else [])"
  proof -
    have e2: "effects s2 = effects s @
       (case config_path s of
          None \<Rightarrow> []
        | Some d \<Rightarrow>
            if d \<noteq> [] \<and> gzip_write_ok E (os_path_join d RECENT_LIST_FNAME)
                            (recent_list_json E (recent_list s1))
            then [Write_gz (os_path_join d RECENT_LIST_FNAME)
                    (recent_list_json E (recent_list s1))]
            else [])"
      using save_recent_list_effects[of E s1] c1 by (simp add: s2_def)
    from f2 c1 have i2: "protx_info s2 = []" "config_path s2 = config_path s" by simp_all
    have e3: "effects s3 = effects s2 @
       (case config_path s of
          None \<Rightarrow> []
        | Some d \<Rightarrow>
            if d \<noteq> [] \<and> gzip_write_ok E (os_path_join d PROTX_INFO_FNAME) (JObj [])
            then [Write_gz (os_path_join d PROTX_INFO_FNAME) (JObj [])]
            else [])"
      unfolding s3_def save_protx_info_effects i2 by (rule refl)
    show ?thesis unfolding e3 e2 rl by simp
  qed
  from net every have net_every: "\<forall>n. network s = Some n \<longrightarrow>
       effects s' = effects s
                @ (case config_path s of
                     None \<Rightarrow> []
                   | Some d \<Rightarrow>
                       if d \<noteq> [] \<and> gzip_write_ok E (os_path_join d RECENT_LIST_FNAME)
                            (JObj ([(''protx_height'', JNum 1), (''llmq_height'', JNum 1),
                                    (''protx_mns'', JObj []), (''sml_hashes'', JObj []),
                                    (''quorums'', JObj []), (''llmq_hashes'', JObj [])]
                                   @ rl_other (recent_list s)))
                       then [Write_gz (os_path_join d RECENT_LIST_FNAME)
                               (JObj ([(''protx_height'', JNum 1), (''llmq_height'', JNum 1),
                                       (''protx_mns'', JObj []), (''sml_hashes'', JObj []),
                                       (''quorums'', JObj []), (''llmq_hashes'', JObj [])]
                                      @ rl_other (recent_list s)))]
                       else [])
                @ (case config_path s of
                     None \<Rightarrow> []
                   | Some d \<Rightarrow>
                       if d \<noteq> [] \<and> gzip_write_ok E (os_path_join d PROTX_INFO_FNAME) (JObj [])
                       then [Write_gz (os_path_join d PROTX_INFO_FNAME) (JObj [])]
                       else [])
                @ [Trigger_callback ''mn-list-diff-updated'' (Diff_updated DIP3_UNKNOWN [] []),
                   if dash_net_enabled s then Getmnlistd False else Request_protx_diff]"
    by simp
  from net written unwritten have net_two: "\<forall>n. network s = Some n \<longrightarrow>
           r = Inr ()
           \<and> (\<forall>d. config_path s = Some d \<and> d \<noteq> []
                  \<and> gzip_write_ok E (os_path_join d RECENT_LIST_FNAME)
                       (JObj ([(''protx_height'', JNum 1), (''llmq_height'', JNum 1),
                               (''protx_mns'', JObj []), (''sml_hashes'', JObj []),
                               (''quorums'', JObj []), (''llmq_hashes'', JObj [])]
                              @ rl_other (recent_list s)))
                  \<and> gzip_write_ok E (os_path_join d PROTX_INFO_FNAME) (JObj [])
                \<longrightarrow> effects s' = effects s @
                      [Write_gz (os_path_join d RECENT_LIST_FNAME)
                         (JObj ([(''protx_height'', JNum 1), (''llmq_height'', JNum 1),
                                 (''protx_mns'', JObj []), (''sml_hashes'', JObj []),
                                 (''quorums'', JObj []), (''llmq_hashes'', JObj [])]
                                @ rl_other (recent_list s))),
                       Write_gz (os_path_join d PROTX_INFO_FNAME) (JObj []),
                       Trigger_callback ''mn-list-diff-updated'' (Diff_updated DIP3_UNKNOWN [] []),
                       if dash_net_enabled s then Getmnlistd False else Request_protx_diff])
           \<and> (\<not> config_path_set (config_path s)
                \<longrightarrow> effects s' = effects s @
                      [Trigger_callback ''mn-list-diff-updated'' (Diff_updated DIP3_UNKNOWN [] []),
                       if dash_net_enabled s then Getmnlistd False else Request_protx_diff])"
    by simp
  from fields net_two net_every
  show "protx_height s' = 1 \<and> llmq_height s' = 1
     \<and> protx_mns s' = [] \<and> quorums s' = [] \<and> sml_hashes s' = [] \<and> llmq_hashes s' = []
     \<and> protx_info s' = [] \<and> mns_outpoints s' = []
     \<and> recent_list s' = (recent_list s)
           \<lparr>rl_protx_height := Some (JNum 1), rl_llmq_height := Some (JNum 1),
            rl_protx_mns := [], rl_sml_hashes := [], rl_quorums := [], rl_llmq_hashes := []\<rparr>
     \<and> protx_state s' = DIP3_UNKNOWN
     \<and> (\<forall>n. network s = Some n \<longrightarrow>
           r = Inr ()
           \<and> (\<forall>d. config_path s = Some d \<and> d \<noteq> []
                  \<and> gzip_write_ok E (os_path_join d RECENT_LIST_FNAME)
                       (JObj ([(''protx_height'', JNum 1), (''llmq_height'', JNum 1),
                               (''protx_mns'', JObj []), (''sml_hashes'', JObj []),
                               (''quorums'', JObj []), (''llmq_hashes'', JObj [])]
                              @ rl_other (recent_list s)))
                  \<and> gzip_write_ok E (os_path_join d PROTX_INFO_FNAME) (JObj [])
                \<longrightarrow> effects s' = effects s @
                      [Write_gz (os_path_join d RECENT_LIST_FNAME)
                         (JObj ([(''protx_height'', JNum 1), (''llmq_height'', JNum 1),
                                 (''protx_mns'', JObj []), (''sml_hashes'', JObj []),
                                 (''quorums'', JObj []), (''llmq_hashes'', JObj [])]
                                @ rl_other (recent_list s))),
                       Write_gz (os_path_join d PROTX_INFO_FNAME) (JObj []),
                       Trigger_callback ''mn-list-diff-updated'' (Diff_updated DIP3_UNKNOWN [] []),
                       if dash_net_enabled s then Getmnlistd False else Request_protx_diff])
           \<and> (\<not> config_path_set (config_path s)
                \<longrightarrow> effects s' = effects s @
                      [Trigger_callback ''mn-list-diff-updated'' (Diff_updated DIP3_UNKNOWN [] []),
                       if dash_net_enabled s then Getmnlistd False else Request_protx_diff])
           \<and> effects s' = effects s
                @ (case config_path s of
                     None \<Rightarrow> []
                   | Some d \<Rightarrow>
                       if d \<noteq> [] \<and> gzip_write_ok E (os_path_join d RECENT_LIST_FNAME)
                            (JObj ([(''protx_height'', JNum 1), (''llmq_height'', JNum 1),
                                    (''protx_mns'', JObj []), (''sml_hashes'', JObj []),
                                    (''quorums'', JObj []), (''llmq_hashes'', JObj [])]
                                   @ rl_other (recent_list s)))
                       then [Write_gz (os_path_join d RECENT_LIST_FNAME)
                               (JObj ([(''protx_height'', JNum 1), (''llmq_height'', JNum 1),
                                       (''protx_mns'', JObj []), (''sml_hashes'', JObj []),
                                       (''quorums'', JObj []), (''llmq_hashes'', JObj [])]
                                      @ rl_other (recent_list s)))]
                       else [])
                @ (case config_path s of
                     None \<Rightarrow> []
                   | Some d \<Rightarrow>
                       if d \<noteq> [] \<and> gzip_write_ok E (os_path_join d PROTX_INFO_FNAME) (JObj [])
                       then [Write_gz (os_path_join d PROTX_INFO_FNAME) (JObj [])]
                       else [])
                @ [Trigger_callback ''mn-list-diff-updated'' (Diff_updated DIP3_UNKNOWN [] []),
                   if dash_net_enabled s then Getmnlistd False else Request_protx_diff])"
    by simp
qed

text \<open>
  With no configured path the reset writes no file: the only effects are the
  notification and the new request.
\<close>

theorem reset_no_path_counterexample:
  "effects (snd (reset ex_env 100 (ex_mnlist\<lparr>config_path := None\<rparr>)))
   = [Trigger_callback ''mn-list-diff-updated'' (Diff_updated DIP3_UNKNOWN [] []),
      Getmnlistd False]"
  by (simp add: reset_def Let_def save_recent_list_def save_protx_info_def notify_def
      ex_mnlist_def)

theorem reset_clears_witness:
  "network ex_mnlist = Some ex_network
   \<and> config_path ex_mnlist = Some ''/data''
   \<and> fst (reset ex_env 100 ex_mnlist) = Inr ()
   \<and> protx_height (snd (reset ex_env 100 ex_mnlist)) = 1
   \<and> llmq_height (snd (reset ex_env 100 ex_mnlist)) = 1
   \<and> protx_mns (snd (reset ex_env 100 ex_mnlist)) = []
   \<and> quorums (snd (reset ex_env 100 ex_mnlist)) = []
   \<and> effects (snd (reset ex_env 100 ex_mnlist))
       = [Write_gz ''/data/recent_protx_list.gz''
            (JObj [(''protx_height'', JNum 1), (''llmq_height'', JNum 1),
                   (''protx_mns'', JObj []), (''sml_hashes'', JObj []),
                   (''quorums'', JObj []), (''llmq_hashes'', JObj [])]),
          Write_gz ''/data/protx_info.gz'' (JObj []),
          Trigger_callback ''mn-list-diff-updated'' (Diff_updated DIP3_UNKNOWN [] []),
          Getmnlistd False]
   \<and> fst (reset (ex_env\<lparr>gzip_write_ok := (\<lambda>p c. p = ''/data/protx_info.gz'')\<rparr>) 100 ex_mnlist)
       = Inr ()
   \<and> effects (snd (reset (ex_env\<lparr>gzip_write_ok := (\<lambda>p c. p = ''/data/protx_info.gz'')\<rparr>)
                      100 ex_mnlist))
       = [Write_gz ''/data/protx_info.gz'' (JObj []),
          Trigger_callback ''mn-list-diff-updated'' (Diff_updated DIP3_UNKNOWN [] []),
          Getmnlistd False]"
proof -
  let ?E = "ex_env\<lparr>gzip_write_ok := (\<lambda>p c. p = ''/data/protx_info.gz'')\<rparr>"
  obtain r s' where rs: "reset ex_env 100 ex_mnlist = (r, s')" by (cases "reset ex_env 100 ex_mnlist")
  obtain q u' where qu: "reset ?E 100 ex_mnlist = (q, u')" by (cases "reset ?E 100 ex_mnlist")
  note t = reset_clears[of ex_env 100 ex_mnlist, rule_format, OF rs]
  note u = reset_clears[of ?E 100 ex_mnlist, rule_format, OF qu]
  have n: "network ex_mnlist = Some ex_network" by (simp add: ex_mnlist_def)
  have p: "config_path ex_mnlist = Some ''/data''" by (simp add: ex_mnlist_def)
  have f: "protx_height s' = 1 \<and> llmq_height s' = 1 \<and> protx_mns s' = [] \<and> quorums s' = []"
    using t by simp
  note tn = t[THEN conjunct2, THEN conjunct2, THEN conjunct2, THEN conjunct2, THEN conjunct2,
      THEN conjunct2, THEN conjunct2, THEN conjunct2, THEN conjunct2, THEN conjunct2,
      rule_format, OF n]
  note un = u[THEN conjunct2, THEN conjunct2, THEN conjunct2, THEN conjunct2, THEN conjunct2,
      THEN conjunct2, THEN conjunct2, THEN conjunct2, THEN conjunct2, THEN conjunct2,
      rule_format, OF n]
  from tn have r: "r = Inr ()" by (rule conjunct1)
  from un have q: "q = Inr ()" by (rule conjunct1)
  note tw = tn[THEN conjunct2, THEN conjunct1, rule_format, of "''/data''"]
  note uw = un[THEN conjunct2, THEN conjunct2, THEN conjunct2]
  have o: "rl_other (recent_list ex_mnlist) = []" "dash_net_enabled ex_mnlist"
    "effects ex_mnlist = []"
    by (simp_all add: ex_mnlist_def DEFAULT_MN_LIST_def)
  have e: "effects s'
       = [Write_gz ''/data/recent_protx_list.gz''
            (JObj [(''protx_height'', JNum 1), (''llmq_height'', JNum 1),
                   (''protx_mns'', JObj []), (''sml_hashes'', JObj []),
                   (''quorums'', JObj []), (''llmq_hashes'', JObj [])]),
          Write_gz ''/data/protx_info.gz'' (JObj []),
          Trigger_callback ''mn-list-diff-updated'' (Diff_updated DIP3_UNKNOWN [] []),
          Getmnlistd False]"
    using tw p o
    by (simp add: ex_env_def os_path_join_def RECENT_LIST_FNAME_def PROTX_INFO_FNAME_def)
  have e': "effects u'
       = [Write_gz ''/data/protx_info.gz'' (JObj []),
          Trigger_callback ''mn-list-diff-updated'' (Diff_updated DIP3_UNKNOWN [] []),
          Getmnlistd False]"
    using uw p o
    by (simp add: os_path_join_def RECENT_LIST_FNAME_def PROTX_INFO_FNAME_def)
  from n p r f e q e' show ?thesis by (simp add: rs qu)
qed

section \<open>A classical coinbase transaction\<close>

text \<open>
  C5, as amended.  A diff whose commitment transaction is a classical coinbase
  (\<open>tx_type\<close> 0) is processed with success.  \<open>process_mnlistdiff\<close> sets \<open>llmq_height\<close>
  to the requested height and, when masternode loading is enabled, also sets
  \<open>protx_height\<close> to it and the state flag to \<open>DIP3_DISABLED\<close>; when masternode
  loading is disabled it leaves \<open>protx_height\<close> and the state flag as they are.
  \<open>process_protx_diff\<close> sets \<open>protx_height\<close> to the requested height and the state
  flag to \<open>DIP3_DISABLED\<close> and leaves \<open>llmq_height\<close>.  Neither touches the masternode
  map, the quorum map or the two content-hash maps, in the object or in
  \<open>recent_list\<close>.
\<close>

theorem classical_coinbase:
  "(tx_type (cbTx diff) = 0 \<longrightarrow>
      (\<exists>s'. process_mnlistdiff E s base_height height1 diff = (Inr True, s')
         \<and> llmq_height s' = height1
         \<and> (load_mns s \<longrightarrow> protx_height s' = height1 \<and> protx_state s' = DIP3_DISABLED)
         \<and> (\<not> load_mns s \<longrightarrow> protx_height s' = protx_height s
                               \<and> protx_state s' = protx_state s)
         \<and> protx_mns s' = protx_mns s \<and> quorums s' = quorums s
         \<and> sml_hashes s' = sml_hashes s \<and> llmq_hashes s' = llmq_hashes s
         \<and> rl_protx_mns (recent_list s') = rl_protx_mns (recent_list s)
         \<and> rl_quorums (recent_list s') = rl_quorums (recent_list s)
         \<and> rl_sml_hashes (recent_list s') = rl_sml_hashes (recent_list s)
         \<and> rl_llmq_hashes (recent_list s') = rl_llmq_hashes (recent_list s)))
   \<and> (\<forall>cbtx. tx_deserialize E (get_or (pd_cbTx pdiff) []) = Inr cbtx \<and> tx_type cbtx = 0 \<longrightarrow>
      (\<exists>s'. process_protx_diff E s base_height height1 pdiff = (Inr True, s')
         \<and> protx_height s' = height1 \<and> protx_state s' = DIP3_DISABLED
         \<and> llmq_height s' = llmq_height s
         \<and> protx_mns s' = protx_mns s \<and> quorums s' = quorums s
         \<and> sml_hashes s' = sml_hashes s \<and> llmq_hashes s' = llmq_hashes s
         \<and> rl_protx_mns (recent_list s') = rl_protx_mns (recent_list s)
         \<and> rl_quorums (recent_list s') = rl_quorums (recent_list s)
         \<and> rl_sml_hashes (recent_list s') = rl_sml_hashes (recent_list s)
         \<and> rl_llmq_hashes (recent_list s') = rl_llmq_hashes (recent_list s)))"
proof (intro conjI allI impI)
  assume "tx_type (cbTx diff) = 0"
  then have "process_mnlistdiff E s base_height height1 diff
             = (Inr True, mnlistdiff_classical s height1)"
    by (simp add: process_mnlistdiff_def)
  then show "\<exists>s'. process_mnlistdiff E s base_height height1 diff = (Inr True, s')
         \<and> llmq_height s' = height1
         \<and> (load_mns s \<longrightarrow> protx_height s' = height1 \<and> protx_state s' = DIP3_DISABLED)
         \<and> (\<not> load_mns s \<longrightarrow> protx_height s' = protx_height s
                               \<and> protx_state s' = protx_state s)
         \<and> protx_mns s' = protx_mns s \<and> quorums s' = quorums s
         \<and> sml_hashes s' = sml_hashes s \<and> llmq_hashes s' = llmq_hashes s
         \<and> rl_protx_mns (recent_list s') = rl_protx_mns (recent_list s)
         \<and> rl_quorums (recent_list s') = rl_quorums (recent_list s)
         \<and> rl_sml_hashes (recent_list s') = rl_sml_hashes (recent_list s)
         \<and> rl_llmq_hashes (recent_list s') = rl_llmq_hashes (recent_list s)"
    by (simp add: mnlistdiff_classical_def Let_def)
next
  fix cbtx
  assume "tx_deserialize E (get_or (pd_cbTx pdiff) []) = Inr cbtx \<and> tx_type cbtx = 0"
  then have "process_protx_diff E s base_height height1 pdiff
             = (Inr True, protx_diff_classical s height1)"
    by (simp add: process_protx_diff_def)
  then show "\<exists>s'. process_protx_diff E s base_height height1 pdiff = (Inr True, s')
         \<and> protx_height s' = height1 \<and> protx_state s' = DIP3_DISABLED
         \<and> llmq_height s' = llmq_height s
         \<and> protx_mns s' = protx_mns s \<and> quorums s' = quorums s
         \<and> sml_hashes s' = sml_hashes s \<and> llmq_hashes s' = llmq_hashes s
         \<and> rl_protx_mns (recent_list s') = rl_protx_mns (recent_list s)
         \<and> rl_quorums (recent_list s') = rl_quorums (recent_list s)
         \<and> rl_sml_hashes (recent_list s') = rl_sml_hashes (recent_list s)
         \<and> rl_llmq_hashes (recent_list s') = rl_llmq_hashes (recent_list s)"
    by (simp add: protx_diff_classical_def)
qed

text \<open>
  With masternode loading disabled, \<open>process_mnlistdiff\<close> succeeds on a classical
  coinbase and leaves the state flag as it was, here \<open>DIP3_UNKNOWN\<close>.
\<close>

theorem classical_coinbase_flag_counterexample:
  "tx_type (cbTx ex_diff_classical) = 0
   \<and> fst (process_mnlistdiff ex_env (ex_mnlist\<lparr>load_mns := False, protx_state := DIP3_UNKNOWN\<rparr>)
             1030080 1030090 ex_diff_classical) = Inr True
   \<and> protx_state (snd (process_mnlistdiff ex_env
                          (ex_mnlist\<lparr>load_mns := False, protx_state := DIP3_UNKNOWN\<rparr>)
                          1030080 1030090 ex_diff_classical)) = DIP3_UNKNOWN
   \<and> DIP3_UNKNOWN \<noteq> DIP3_DISABLED"
  by (simp add: process_mnlistdiff_def mnlistdiff_classical_def ex_diff_classical_def
      ex_cbtx_classical_def DIP3_UNKNOWN_def DIP3_DISABLED_def)

theorem classical_coinbase_witness:
  "tx_type (cbTx ex_diff_classical) = 0
   \<and> load_mns ex_mnlist
   \<and> fst (process_mnlistdiff ex_env ex_mnlist 1030080 1030090 ex_diff_classical) = Inr True
   \<and> llmq_height (snd (process_mnlistdiff ex_env ex_mnlist 1030080 1030090 ex_diff_classical))
       = 1030090
   \<and> protx_height (snd (process_mnlistdiff ex_env ex_mnlist 1030080 1030090 ex_diff_classical))
       = 1030090
   \<and> protx_state (snd (process_mnlistdiff ex_env ex_mnlist 1030080 1030090 ex_diff_classical))
       = DIP3_DISABLED
   \<and> quorums (snd (process_mnlistdiff ex_env ex_mnlist 1030080 1030090 ex_diff_classical))
       = quorums ex_mnlist
   \<and> tx_deserialize (ex_env\<lparr>tx_deserialize := (\<lambda>raw. Inr ex_cbtx_classical)\<rparr>)
        (get_or (pd_cbTx \<lparr>pd_cbTx = Some ''01'', pd_deletedMNs = None, pd_mnList = None,
                          pd_cbTxMerkleTree = None\<rparr>) []) = Inr ex_cbtx_classical
   \<and> fst (process_protx_diff (ex_env\<lparr>tx_deserialize := (\<lambda>raw. Inr ex_cbtx_classical)\<rparr>)
             ex_mnlist 1030080 1030090
             \<lparr>pd_cbTx = Some ''01'', pd_deletedMNs = None, pd_mnList = None,
              pd_cbTxMerkleTree = None\<rparr>) = Inr True
   \<and> protx_state (snd (process_protx_diff
                          (ex_env\<lparr>tx_deserialize := (\<lambda>raw. Inr ex_cbtx_classical)\<rparr>)
                          ex_mnlist 1030080 1030090
                          \<lparr>pd_cbTx = Some ''01'', pd_deletedMNs = None, pd_mnList = None,
                           pd_cbTxMerkleTree = None\<rparr>)) = DIP3_DISABLED"
proof -
  let ?E = "ex_env\<lparr>tx_deserialize := (\<lambda>raw. Inr ex_cbtx_classical)\<rparr>"
  let ?pd = "\<lparr>pd_cbTx = Some ''01'', pd_deletedMNs = None, pd_mnList = None,
              pd_cbTxMerkleTree = None\<rparr>"
  note t = classical_coinbase[of ex_diff_classical ?E ex_mnlist 1030080 1030090 ?pd]
  have h1: "tx_type (cbTx ex_diff_classical) = 0"
    by (simp add: ex_diff_classical_def ex_cbtx_classical_def)
  have l: "load_mns ex_mnlist" by (simp add: ex_mnlist_def)
  have h2: "tx_deserialize ?E (get_or (pd_cbTx ?pd) []) = Inr ex_cbtx_classical
            \<and> tx_type ex_cbtx_classical = 0"
    by (simp add: ex_cbtx_classical_def)
  have same: "process_mnlistdiff ?E ex_mnlist 1030080 1030090 ex_diff_classical
              = process_mnlistdiff ex_env ex_mnlist 1030080 1030090 ex_diff_classical"
    using h1 by (simp add: process_mnlistdiff_def)
  from t[THEN conjunct1, rule_format, OF h1] l obtain s'
    where a: "process_mnlistdiff ?E ex_mnlist 1030080 1030090 ex_diff_classical = (Inr True, s')"
      and b: "llmq_height s' = 1030090" "protx_height s' = 1030090"
             "protx_state s' = DIP3_DISABLED" "quorums s' = quorums ex_mnlist"
    by blast
  from t[THEN conjunct2, rule_format, OF h2] obtain s''
    where c: "process_protx_diff ?E ex_mnlist 1030080 1030090 ?pd = (Inr True, s'')"
      and d: "protx_state s'' = DIP3_DISABLED"
    by blast
  from h1 l h2 a b c d show ?thesis by (simp add: same[symmetric])
qed

section \<open>Stale and unsolicited responses\<close>

text \<open>
  C2, as amended.  A response that arrives when no request is outstanding leaves
  the whole object unchanged.  A response whose parameters are not those of the
  outstanding request, or whose base height is not a stored height, empties the
  slot of the outstanding request and changes nothing else: no map, no content
  hash, no height, no notification, no request, no file.  For \<open>on_mnlistdiff\<close> the
  base height is not a stored height when it differs from both \<open>llmq_height\<close> and
  \<open>protx_height\<close>; for \<open>on_protx_diff\<close> when it differs from \<open>protx_height\<close>, except
  that base height 1 is accepted while \<open>protx_height\<close> is 0.
\<close>

theorem stale_response_ignored:
  "(sent_getmnlistd s = None \<longrightarrow> on_mnlistdiff E s val = (Inr (), s))
   \<and> (sent_getmnlistd s \<noteq> None
        \<and> (sent_getmnlistd s \<noteq> Some (params val)
            \<or> (fst (params val) \<noteq> llmq_height s \<and> fst (params val) \<noteq> protx_height s))
        \<longrightarrow> on_mnlistdiff E s val = (Inr (), s\<lparr>sent_getmnlistd := None\<rparr>))
   \<and> (sent_protx_diff s = None \<longrightarrow> on_protx_diff E s pval = (Inr (), s))
   \<and> (sent_protx_diff s \<noteq> None
        \<and> (sent_protx_diff s \<noteq> Some (params pval)
            \<or> (fst (params pval) \<noteq> protx_height s
                \<and> \<not> (protx_height s = 0 \<and> fst (params pval) = 1)))
        \<longrightarrow> on_protx_diff E s pval = (Inr (), s\<lparr>sent_protx_diff := None\<rparr>))"
proof (intro conjI impI)
  show "on_mnlistdiff E s val = (Inr (), s)" if "sent_getmnlistd s = None"
    using that by (simp add: on_mnlistdiff_def split: prod.splits)
  show "on_protx_diff E s pval = (Inr (), s)" if "sent_protx_diff s = None"
    using that by (simp add: on_protx_diff_def split: prod.splits)
  show "on_mnlistdiff E s val = (Inr (), s\<lparr>sent_getmnlistd := None\<rparr>)"
    if a: "sent_getmnlistd s \<noteq> None
        \<and> (sent_getmnlistd s \<noteq> Some (params val)
            \<or> (fst (params val) \<noteq> llmq_height s \<and> fst (params val) \<noteq> protx_height s))"
  proof -
    obtain b h where p: "params val = (b, h)" by (cases "params val")
    from a obtain qb qh where q: "sent_getmnlistd s = Some (qb, qh)" by auto
    from a p q have "(qb \<noteq> b \<or> qh \<noteq> h) \<or> (b \<noteq> llmq_height s \<and> b \<noteq> protx_height s)"
      by auto
    then show ?thesis
      by (auto simp: on_mnlistdiff_def p q Let_def)
  qed
  show "on_protx_diff E s pval = (Inr (), s\<lparr>sent_protx_diff := None\<rparr>)"
    if a: "sent_protx_diff s \<noteq> None
        \<and> (sent_protx_diff s \<noteq> Some (params pval)
            \<or> (fst (params pval) \<noteq> protx_height s
                \<and> \<not> (protx_height s = 0 \<and> fst (params pval) = 1)))"
  proof -
    obtain b h where p: "params pval = (b, h)" by (cases "params pval")
    from a obtain qb qh where q: "sent_protx_diff s = Some (qb, qh)" by auto
    from a p q have "(qb \<noteq> b \<or> qh \<noteq> h)
                     \<or> (b \<noteq> protx_height s \<and> (protx_height s \<noteq> 0 \<or> b \<noteq> 1))"
      by auto
    then show ?thesis
      by (auto simp: on_protx_diff_def p q Let_def)
  qed
qed

text \<open>
  \<open>on_protx_diff\<close> processes a response with base height 1 while \<open>protx_height\<close> is 0:
  the base height differs from the stored height, and the stored height changes.
\<close>

theorem protx_diff_first_height_counterexample:
  "sent_protx_diff (ex_mnlist\<lparr>protx_height := 0, sent_protx_diff := Some (1, 100)\<rparr>)
     = Some (params ex_protx_response)
   \<and> fst (params ex_protx_response)
       \<noteq> protx_height (ex_mnlist\<lparr>protx_height := 0, sent_protx_diff := Some (1, 100)\<rparr>)
   \<and> protx_height (snd (on_protx_diff ex_env_classical
                          (ex_mnlist\<lparr>protx_height := 0, sent_protx_diff := Some (1, 100)\<rparr>)
                          ex_protx_response)) = 100"
  by (simp add: on_protx_diff_def process_protx_diff_def protx_diff_classical_def
      ex_protx_response_def ex_env_classical_def ex_cbtx_classical_def get_or_def
      drop_protx_info_def protx_loading_def save_recent_list_def notify_def error_set_def
      Let_def ex_mnlist_def ex_env_def config_path_set_def)

theorem stale_response_ignored_witness:
  "sent_getmnlistd ex_mnlist = None
   \<and> on_mnlistdiff ex_env ex_mnlist
        \<lparr>params = (1030080, 1030090), error = None, result = ex_diff_classical\<rparr>
       = (Inr (), ex_mnlist)
   \<and> sent_getmnlistd (ex_mnlist\<lparr>sent_getmnlistd := Some (1030080, 1030085)\<rparr>) \<noteq> None
   \<and> sent_getmnlistd (ex_mnlist\<lparr>sent_getmnlistd := Some (1030080, 1030085)\<rparr>)
       \<noteq> Some (params \<lparr>params = (1030080, 1030090), error = None, result = ex_diff_classical\<rparr>)
   \<and> on_mnlistdiff ex_env (ex_mnlist\<lparr>sent_getmnlistd := Some (1030080, 1030085)\<rparr>)
        \<lparr>params = (1030080, 1030090), error = None, result = ex_diff_classical\<rparr>
       = (Inr (), ex_mnlist)
   \<and> sent_protx_diff (ex_mnlist\<lparr>sent_protx_diff := Some (1, 100)\<rparr>) \<noteq> None
   \<and> fst (params ex_protx_response) \<noteq> protx_height (ex_mnlist\<lparr>sent_protx_diff := Some (1, 100)\<rparr>)
   \<and> \<not> (protx_height (ex_mnlist\<lparr>sent_protx_diff := Some (1, 100)\<rparr>) = 0
          \<and> fst (params ex_protx_response) = 1)
   \<and> on_protx_diff ex_env_classical (ex_mnlist\<lparr>sent_protx_diff := Some (1, 100)\<rparr>)
        ex_protx_response
       = (Inr (), ex_mnlist)"
proof -
  let ?v = "\<lparr>params = (1030080, 1030090), error = None, result = ex_diff_classical\<rparr>"
  let ?s1 = "ex_mnlist\<lparr>sent_getmnlistd := Some (1030080, 1030085)\<rparr>"
  let ?s2 = "ex_mnlist\<lparr>sent_protx_diff := Some (1, 100)\<rparr>"
  have n: "sent_getmnlistd ex_mnlist = None" "sent_protx_diff ex_mnlist = None"
    by (simp_all add: ex_mnlist_def)
  from stale_response_ignored[of ex_mnlist ex_env ?v ex_protx_response, THEN conjunct1] n(1)
  have a: "on_mnlistdiff ex_env ex_mnlist ?v = (Inr (), ex_mnlist)" by simp
  have h1: "sent_getmnlistd ?s1 \<noteq> None
        \<and> (sent_getmnlistd ?s1 \<noteq> Some (params ?v)
            \<or> (fst (params ?v) \<noteq> llmq_height ?s1 \<and> fst (params ?v) \<noteq> protx_height ?s1))"
    by simp
  have r1: "?s1\<lparr>sent_getmnlistd := None\<rparr> = ex_mnlist" using n(1) by simp
  from stale_response_ignored[of ?s1 ex_env ?v ex_protx_response,
      THEN conjunct2, THEN conjunct1, rule_format, OF h1]
  have b: "on_mnlistdiff ex_env ?s1 ?v = (Inr (), ex_mnlist)" by (simp only: r1)
  have ph: "protx_height ex_mnlist = 1030080" by (simp add: ex_mnlist_def)
  have h2: "sent_protx_diff ?s2 \<noteq> None
        \<and> (sent_protx_diff ?s2 \<noteq> Some (params ex_protx_response)
            \<or> (fst (params ex_protx_response) \<noteq> protx_height ?s2
                \<and> \<not> (protx_height ?s2 = 0 \<and> fst (params ex_protx_response) = 1)))"
    by (simp add: ex_protx_response_def ph)
  have r2: "?s2\<lparr>sent_protx_diff := None\<rparr> = ex_mnlist" using n(2) by simp
  from stale_response_ignored[of ?s2 ex_env_classical ?v ex_protx_response,
      THEN conjunct2, THEN conjunct2, THEN conjunct2, rule_format, OF h2]
  have c: "on_protx_diff ex_env_classical ?s2 ex_protx_response = (Inr (), ex_mnlist)"
    by (simp only: r2)
  from n a b c show ?thesis by (simp add: ex_protx_response_def ph)
qed

section \<open>A diff with a version-1 commitment\<close>

text \<open>
  A diff with a version-1 commitment that adds one masternode and one quorum, and
  the same diff with a version-2 commitment.  The commitment carries the right
  masternode root and no quorum root.
\<close>

declare str_nat.simps [simp del]

lemma str_nat_digit: "n < 10 \<Longrightarrow> str_nat n = [''0123456789'' ! n]"
  by (subst str_nat.simps) simp

lemma bh2u_eq_iff: "bh2u x = bh2u y \<longleftrightarrow> x = y"
  using bh2u_inj by auto

lemma ex_sml_new:
  "mnlistdiff_sml_new ex_env ex_mnlist_no_quorums ex_diff_v1
   = ([(bh2u (replicate 32 8), ex_mn_new)],
      [(bh2u (replicate 32 8), sha256d_fips (replicate 32 8 @ [4, 5, 6]))])"
  by (simp add: mnlistdiff_sml_new_def mnlistdiff_deleted_mns_def ex_diff_v1_def
      ex_mnlist_no_quorums_def ex_mnlist_def ex_mn_def ex_mn_new_def ex_env_def dict_in_def Let_def)

lemma ex_llmq_new:
  "mnlistdiff_llmq_new ex_env ex_mnlist_no_quorums ex_diff_v1
   = ([(bh2u (replicate 32 5) @ '':1'', ex_quorum_a)],
      [(bh2u (replicate 32 5) @ '':1'', sha256d_fips (1 # replicate 32 5))])"
  by (simp add: mnlistdiff_llmq_new_def ex_diff_v1_def quorum_key_def str_nat_digit
      ex_mnlist_no_quorums_def ex_mnlist_def ex_quorum_a_def ex_env_def Let_def)

lemma ex_sml_check:
  "check_sml_merkle_root sha256d_fips
     [(bh2u (replicate 32 8), sha256d_fips (replicate 32 8 @ [4, 5, 6]))]
     (extra_payload ex_cbtx_v1) = Inr True"
  by (simp add: check_sml_merkle_root_def py_sorted_def sml_sort_key_def bfh_bh2u
      calc_merkle_root_single ex_cbtx_v1_def)

lemma ex_llmq_check:
  "check_llmq_merkle_root sha256d_fips
     [(bh2u (replicate 32 5) @ '':1'', sha256d_fips (1 # replicate 32 5))]
     (extra_payload ex_cbtx_v1) = Inr False"
proof -
  have "sha256d_fips (1 # replicate 32 5) \<noteq> []"
    using sha256d_fips_length[of "1 # replicate 32 5"] by auto
  then have "hfu (rev (sha256d_fips (1 # replicate 32 5))) \<noteq> hfu (rev [])"
    by (simp only: hfu_rev_inj not_False_eq_True)
  then show ?thesis
    by (simp add: check_llmq_merkle_root_def calc_merkle_root_single ex_cbtx_v1_def)
qed

lemma ex_cbtx_check:
  "check_cbtx_merkle_root ex_env ex_mnlist_no_quorums ex_cbtx_v1 (Some [])
     (Some [replicate 32 192]) = Inr True"
  by (simp add: check_cbtx_merkle_root_def cbtx_pmt_def ex_cbtx_v1_def ex_mnlist_no_quorums_def
      ex_mnlist_def ex_network_def dict_in_def)

lemma ex_llmq_cond:
  "mnlistdiff_llmq_cond ex_mnlist_no_quorums 1030080 1030090 = Inr True"
  by (simp add: mnlistdiff_llmq_cond_def llmq_tip_def LLMQ_OFFSET_def ex_mnlist_no_quorums_def
      ex_mnlist_def ex_network_def)

lemma ex_process_v1:
  "process_mnlistdiff ex_env ex_mnlist_no_quorums 1030080 1030090 ex_diff_v1
   = (Inr True, mnlistdiff_commit ex_env ex_mnlist_no_quorums 1030080 ex_diff_v1 True)"
proof -
  have c: "cbTx ex_diff_v1 = ex_cbtx_v1" "merkleHashes ex_diff_v1 = [replicate 32 192]"
    by (simp_all add: ex_diff_v1_def)
  have t: "tx_type ex_cbtx_v1 = 5" "cb_version (extra_payload ex_cbtx_v1) = 1"
    by (simp_all add: ex_cbtx_v1_def)
  have e: "sha256d ex_env = sha256d_fips" by (simp add: ex_env_def)
  show ?thesis
    by (simp add: process_mnlistdiff_def Let_def c t e ex_llmq_cond ex_sml_new ex_llmq_new
        ex_sml_check ex_cbtx_check)
qed

lemma ex_diff_v1_fields:
  "cbTx ex_diff_v1 = ex_cbtx_v1" "merkleHashes ex_diff_v1 = [replicate 32 192]"
  by (simp_all add: ex_diff_v1_def)

lemma ex_diff_v2_fields:
  "tx_type (cbTx ex_diff_v2) = 5"
  "extra_payload (cbTx ex_diff_v2) = (extra_payload ex_cbtx_v1)\<lparr>cb_version := 2\<rparr>"
  "merkleHashes ex_diff_v2 = [replicate 32 192]"
  by (simp_all add: ex_diff_v2_def ex_diff_v1_def ex_cbtx_v1_def)

lemma ex_diff_v2_new:
  "mnlistdiff_sml_new ex_env ex_mnlist_no_quorums ex_diff_v2
     = mnlistdiff_sml_new ex_env ex_mnlist_no_quorums ex_diff_v1"
  "mnlistdiff_llmq_new ex_env ex_mnlist_no_quorums ex_diff_v2
     = mnlistdiff_llmq_new ex_env ex_mnlist_no_quorums ex_diff_v1"
  by (simp_all add: mnlistdiff_sml_new_def mnlistdiff_llmq_new_def ex_diff_v2_def
      mnlistdiff_deleted_mns_def)

lemma ex_sml_check_v2:
  "check_sml_merkle_root sha256d_fips
     [(bh2u (replicate 32 8), sha256d_fips (replicate 32 8 @ [4, 5, 6]))]
     ((extra_payload ex_cbtx_v1)\<lparr>cb_version := 2\<rparr>) = Inr True"
  by (simp add: check_sml_merkle_root_def py_sorted_def sml_sort_key_def bfh_bh2u
      calc_merkle_root_single ex_cbtx_v1_def)

lemma ex_llmq_check_v2:
  "check_llmq_merkle_root sha256d_fips
     [(bh2u (replicate 32 5) @ '':1'', sha256d_fips (1 # replicate 32 5))]
     ((extra_payload ex_cbtx_v1)\<lparr>cb_version := 2\<rparr>) = Inr False"
proof -
  have "sha256d_fips (1 # replicate 32 5) \<noteq> []"
    using sha256d_fips_length[of "1 # replicate 32 5"] by auto
  then have "hfu (rev (sha256d_fips (1 # replicate 32 5))) \<noteq> hfu (rev [])"
    by (simp only: hfu_rev_inj not_False_eq_True)
  then show ?thesis
    by (simp add: check_llmq_merkle_root_def calc_merkle_root_single ex_cbtx_v1_def)
qed

section \<open>The quorum part of a diff\<close>

text \<open>
  The three ways in which \<open>process_mnlistdiff\<close> ends: without success and without
  a change, with a classical coinbase, or with every check that was made passed
  and the new maps stored.
\<close>

lemma process_mnlistdiff_cases:
  assumes p: "process_mnlistdiff E s b h diff = (r, s')"
  shows "(r \<noteq> Inr True \<and> s' = s)
   \<or> (tx_type (cbTx diff) = 0 \<and> r = Inr True \<and> s' = mnlistdiff_classical s h)
   \<or> (tx_type (cbTx diff) = 5 \<and> cb_version (extra_payload (cbTx diff)) \<le> 2 \<and> r = Inr True
        \<and> (\<exists>c. mnlistdiff_llmq_cond s b h = Inr c
             \<and> (load_mns s \<and> b = protx_height s \<longrightarrow>
                  check_sml_merkle_root (sha256d E) (snd (mnlistdiff_sml_new E s diff))
                    (extra_payload (cbTx diff)) = Inr True)
             \<and> (c \<and> cb_version (extra_payload (cbTx diff)) > 1 \<longrightarrow>
                  check_llmq_merkle_root (sha256d E) (snd (mnlistdiff_llmq_new E s diff))
                    (extra_payload (cbTx diff)) = Inr True)
             \<and> check_cbtx_merkle_root E s (cbTx diff) (Some []) (Some (merkleHashes diff))
                 = Inr True
             \<and> s' = mnlistdiff_commit E s b diff c))"
proof -
  define sml where "sml = check_sml_merkle_root (sha256d E) (snd (mnlistdiff_sml_new E s diff))
                    (extra_payload (cbTx diff))"
  define llmq where "llmq = check_llmq_merkle_root (sha256d E)
                    (snd (mnlistdiff_llmq_new E s diff)) (extra_payload (cbTx diff))"
  define cb where "cb = check_cbtx_merkle_root E s (cbTx diff) (Some [])
                    (Some (merkleHashes diff))"
  define cond where "cond = mnlistdiff_llmq_cond s b h"
  define commit where "commit = mnlistdiff_commit E s b diff"
  define ty where "ty = tx_type (cbTx diff)"
  define ver where "ver = cb_version (extra_payload (cbTx diff))"
  define pm where "pm \<longleftrightarrow> load_mns s \<and> b = protx_height s"
  have u: "process_mnlistdiff E s b h diff =
     (if ty \<noteq> 0 then
        (if ty \<noteq> 5 then (Inr False, s)
         else if ver > 2 then (Inr False, s)
         else
           (case cond of
              Inl e \<Rightarrow> (Inl e, s)
            | Inr c \<Rightarrow>
               (case (if pm then sml else Inr True) of
                  Inl e \<Rightarrow> (Inl e, s)
                | Inr sml_ok \<Rightarrow>
                    if \<not> sml_ok then (Inr False, s)
                    else
                      (case (if c \<and> ver > 1 then llmq else Inr True) of
                         Inl e \<Rightarrow> (Inl e, s)
                       | Inr llmq_ok \<Rightarrow>
                           if \<not> llmq_ok then (Inr False, s)
                           else
                             (case cb of
                                Inl e \<Rightarrow> (Inl e, s)
                              | Inr cbtx_ok \<Rightarrow>
                                  if \<not> cbtx_ok then (Inr False, s)
                                  else (Inr True, commit c))))))
      else (Inr True, mnlistdiff_classical s h))"
    unfolding process_mnlistdiff_def Let_def sml_def llmq_def cb_def cond_def commit_def
      ty_def ver_def pm_def
    by (rule refl)
  have "(r \<noteq> Inr True \<and> s' = s)
   \<or> (ty = 0 \<and> r = Inr True \<and> s' = mnlistdiff_classical s h)
   \<or> (ty = 5 \<and> ver \<le> 2 \<and> r = Inr True
        \<and> (\<exists>c. cond = Inr c \<and> (pm \<longrightarrow> sml = Inr True)
             \<and> (c \<and> ver > 1 \<longrightarrow> llmq = Inr True) \<and> cb = Inr True \<and> s' = commit c))"
    using p unfolding u
    by (auto split: if_splits sum.splits)
  then show ?thesis
    unfolding sml_def llmq_def cb_def cond_def commit_def ty_def ver_def pm_def .
qed

lemma mnlistdiff_commit_llmq:
  "quorums (mnlistdiff_commit E s b diff c)
     = (if c then fst (mnlistdiff_llmq_new E s diff) else quorums s)"
  "llmq_hashes (mnlistdiff_commit E s b diff c)
     = (if c then snd (mnlistdiff_llmq_new E s diff) else llmq_hashes s)"
  "llmq_height (mnlistdiff_commit E s b diff c)
     = (if c then cb_height (extra_payload (cbTx diff)) else llmq_height s)"
  by (simp_all add: mnlistdiff_commit_def Let_def split: prod.splits)

lemma mnlistdiff_classical_llmq:
  "quorums (mnlistdiff_classical s h) = quorums s"
  "llmq_hashes (mnlistdiff_classical s h) = llmq_hashes s"
  by (simp_all add: mnlistdiff_classical_def Let_def)

lemma mnlistdiff_llmq_cond_iff:
  "mnlistdiff_llmq_cond s b h = Inr True
   \<longleftrightarrow> (\<exists>n. network s = Some n \<and> b = llmq_height s \<and> h \<le> get_local_height n - 8)"
  by (auto simp: mnlistdiff_llmq_cond_def llmq_tip_def LLMQ_OFFSET_def split: option.splits)

text \<open>
  C10.  Let \<open>process_mnlistdiff\<close> end with result \<open>r\<close> in state \<open>s'\<close>.  When the quorum
  map or the map of quorum content hashes has changed (or, for a commitment that is
  not a classical coinbase, \<open>llmq_height\<close> has), then \<open>base_height\<close> is the stored
  \<open>llmq_height\<close> and the height of the diff is at most the local chain height minus
  8, and the new quorum maps are the old ones with the deletions and then the
  additions of the diff.  For a commitment of type 5 with extra-payload version at
  most 1, under that condition on the heights, the quorum part is stored as soon
  as the masternode root (when it is checked) and the inclusion of the commitment
  transaction are verified, whatever \<open>check_llmq_merkle_root\<close> would return.  For
  version 2 a quorum root that does not match makes the diff fail and leaves the
  state.
\<close>

theorem llmq_part_gated:
  assumes p: "process_mnlistdiff E s b h diff = (r, s')"
  shows
    "(quorums s' \<noteq> quorums s \<or> llmq_hashes s' \<noteq> llmq_hashes s
        \<or> (tx_type (cbTx diff) \<noteq> 0 \<and> llmq_height s' \<noteq> llmq_height s)
      \<longrightarrow> (\<exists>n. network s = Some n \<and> b = llmq_height s \<and> h \<le> get_local_height n - 8)
          \<and> r = Inr True
          \<and> quorums s' = fst (mnlistdiff_llmq_new E s diff)
          \<and> llmq_hashes s' = snd (mnlistdiff_llmq_new E s diff)
          \<and> llmq_height s' = cb_height (extra_payload (cbTx diff)))
     \<and> (tx_type (cbTx diff) = 5 \<and> cb_version (extra_payload (cbTx diff)) \<le> 1
          \<and> (\<exists>n. network s = Some n \<and> b = llmq_height s \<and> h \<le> get_local_height n - 8)
          \<and> (load_mns s \<and> b = protx_height s \<longrightarrow>
                check_sml_merkle_root (sha256d E) (snd (mnlistdiff_sml_new E s diff))
                  (extra_payload (cbTx diff)) = Inr True)
          \<and> check_cbtx_merkle_root E s (cbTx diff) (Some []) (Some (merkleHashes diff))
              = Inr True
        \<longrightarrow> r = Inr True
            \<and> quorums s' = fst (mnlistdiff_llmq_new E s diff)
            \<and> llmq_hashes s' = snd (mnlistdiff_llmq_new E s diff)
            \<and> llmq_height s' = cb_height (extra_payload (cbTx diff)))
     \<and> (tx_type (cbTx diff) = 5 \<and> cb_version (extra_payload (cbTx diff)) = 2
          \<and> (\<exists>n. network s = Some n \<and> b = llmq_height s \<and> h \<le> get_local_height n - 8)
          \<and> (load_mns s \<and> b = protx_height s \<longrightarrow>
                check_sml_merkle_root (sha256d E) (snd (mnlistdiff_sml_new E s diff))
                  (extra_payload (cbTx diff)) = Inr True)
          \<and> check_llmq_merkle_root (sha256d E) (snd (mnlistdiff_llmq_new E s diff))
                (extra_payload (cbTx diff)) = Inr False
        \<longrightarrow> r = Inr False \<and> s' = s)"
proof (intro conjI impI)
  note cases = process_mnlistdiff_cases[OF p]
  assume ch: "quorums s' \<noteq> quorums s \<or> llmq_hashes s' \<noteq> llmq_hashes s
        \<or> (tx_type (cbTx diff) \<noteq> 0 \<and> llmq_height s' \<noteq> llmq_height s)"
  with cases obtain c where c: "mnlistdiff_llmq_cond s b h = Inr c"
      "s' = mnlistdiff_commit E s b diff c" "r = Inr True"
    by (auto simp: mnlistdiff_classical_llmq)
  with ch have "c" by (auto simp: mnlistdiff_commit_llmq split: if_splits)
  with c show "\<exists>n. network s = Some n \<and> b = llmq_height s \<and> h \<le> get_local_height n - 8"
    "r = Inr True" "quorums s' = fst (mnlistdiff_llmq_new E s diff)"
    "llmq_hashes s' = snd (mnlistdiff_llmq_new E s diff)"
    "llmq_height s' = cb_height (extra_payload (cbTx diff))"
    by (simp_all add: mnlistdiff_commit_llmq mnlistdiff_llmq_cond_iff[symmetric])
next
  assume a: "tx_type (cbTx diff) = 5 \<and> cb_version (extra_payload (cbTx diff)) \<le> 1
          \<and> (\<exists>n. network s = Some n \<and> b = llmq_height s \<and> h \<le> get_local_height n - 8)
          \<and> (load_mns s \<and> b = protx_height s \<longrightarrow>
                check_sml_merkle_root (sha256d E) (snd (mnlistdiff_sml_new E s diff))
                  (extra_payload (cbTx diff)) = Inr True)
          \<and> check_cbtx_merkle_root E s (cbTx diff) (Some []) (Some (merkleHashes diff))
              = Inr True"
  then have c: "mnlistdiff_llmq_cond s b h = Inr True"
    by (simp only: mnlistdiff_llmq_cond_iff)
  from a c have "process_mnlistdiff E s b h diff
                 = (Inr True, mnlistdiff_commit E s b diff True)"
    by (simp add: process_mnlistdiff_def Let_def)
  with p have "r = Inr True" "s' = mnlistdiff_commit E s b diff True" by simp_all
  then show "r = Inr True" "quorums s' = fst (mnlistdiff_llmq_new E s diff)"
    "llmq_hashes s' = snd (mnlistdiff_llmq_new E s diff)"
    "llmq_height s' = cb_height (extra_payload (cbTx diff))"
    by (simp_all add: mnlistdiff_commit_llmq)
next
  assume a: "tx_type (cbTx diff) = 5 \<and> cb_version (extra_payload (cbTx diff)) = 2
          \<and> (\<exists>n. network s = Some n \<and> b = llmq_height s \<and> h \<le> get_local_height n - 8)
          \<and> (load_mns s \<and> b = protx_height s \<longrightarrow>
                check_sml_merkle_root (sha256d E) (snd (mnlistdiff_sml_new E s diff))
                  (extra_payload (cbTx diff)) = Inr True)
          \<and> check_llmq_merkle_root (sha256d E) (snd (mnlistdiff_llmq_new E s diff))
                (extra_payload (cbTx diff)) = Inr False"
  then have c: "mnlistdiff_llmq_cond s b h = Inr True"
    by (simp only: mnlistdiff_llmq_cond_iff)
  from a c have "process_mnlistdiff E s b h diff = (Inr False, s)"
    by (simp add: process_mnlistdiff_def Let_def)
  with p show "r = Inr False" "s' = s" by simp_all
qed

theorem llmq_part_gated_witness:
  "tx_type (cbTx ex_diff_v1) = 5
   \<and> cb_version (extra_payload (cbTx ex_diff_v1)) = 1
   \<and> network ex_mnlist_no_quorums = Some ex_network
   \<and> llmq_height ex_mnlist_no_quorums = 1030080
   \<and> (1030090 :: int) \<le> get_local_height ex_network - 8
   \<and> check_llmq_merkle_root (sha256d ex_env)
        (snd (mnlistdiff_llmq_new ex_env ex_mnlist_no_quorums ex_diff_v1))
        (extra_payload (cbTx ex_diff_v1)) = Inr False
   \<and> fst (process_mnlistdiff ex_env ex_mnlist_no_quorums 1030080 1030090 ex_diff_v1) = Inr True
   \<and> quorums (snd (process_mnlistdiff ex_env ex_mnlist_no_quorums 1030080 1030090 ex_diff_v1))
       = [(bh2u (replicate 32 5) @ '':1'', ex_quorum_a)]
   \<and> llmq_height (snd (process_mnlistdiff ex_env ex_mnlist_no_quorums 1030080 1030090
                          ex_diff_v1)) = 1030090
   \<and> quorums ex_mnlist_no_quorums = []
   \<and> cb_version (extra_payload (cbTx ex_diff_v2)) = 2
   \<and> process_mnlistdiff ex_env ex_mnlist_no_quorums 1030080 1030090 ex_diff_v2
       = (Inr False, ex_mnlist_no_quorums)"
proof -
  let ?s = ex_mnlist_no_quorums
  let ?p1 = "process_mnlistdiff ex_env ?s 1030080 1030090 ex_diff_v1"
  let ?p2 = "process_mnlistdiff ex_env ?s 1030080 1030090 ex_diff_v2"
  have e: "sha256d ex_env = sha256d_fips" by (simp add: ex_env_def)
  have t1: "tx_type (cbTx ex_diff_v1) = 5" "cb_version (extra_payload (cbTx ex_diff_v1)) = 1"
    "cb_height (extra_payload (cbTx ex_diff_v1)) = 1030090"
    by (simp_all add: ex_diff_v1_def ex_cbtx_v1_def)
  have t2: "tx_type (cbTx ex_diff_v2) = 5" "cb_version (extra_payload (cbTx ex_diff_v2)) = 2"
    by (simp_all add: ex_diff_v2_def ex_diff_v1_def ex_cbtx_v1_def)
  have n: "network ?s = Some ex_network" "llmq_height ?s = 1030080"
    "(1030090 :: int) \<le> get_local_height ex_network - 8" "quorums ?s = []"
    by (simp_all add: ex_mnlist_no_quorums_def ex_mnlist_def ex_network_def)
  have g: "\<exists>n. network ?s = Some n \<and> 1030080 = llmq_height ?s
               \<and> 1030090 \<le> get_local_height n - 8"
    using n by simp
  have k1: "check_sml_merkle_root (sha256d ex_env)
              (snd (mnlistdiff_sml_new ex_env ?s ex_diff_v1))
              (extra_payload (cbTx ex_diff_v1)) = Inr True"
    unfolding e ex_sml_new snd_conv ex_diff_v1_fields by (rule ex_sml_check)
  have k2: "check_llmq_merkle_root (sha256d ex_env)
              (snd (mnlistdiff_llmq_new ex_env ?s ex_diff_v1))
              (extra_payload (cbTx ex_diff_v1)) = Inr False"
    unfolding e ex_llmq_new snd_conv ex_diff_v1_fields by (rule ex_llmq_check)
  have k3: "check_cbtx_merkle_root ex_env ?s (cbTx ex_diff_v1) (Some [])
              (Some (merkleHashes ex_diff_v1)) = Inr True"
    unfolding ex_diff_v1_fields by (rule ex_cbtx_check)
  have h1: "tx_type (cbTx ex_diff_v1) = 5 \<and> cb_version (extra_payload (cbTx ex_diff_v1)) \<le> 1
          \<and> (\<exists>n. network ?s = Some n \<and> 1030080 = llmq_height ?s
                  \<and> 1030090 \<le> get_local_height n - 8)
          \<and> (load_mns ?s \<and> 1030080 = protx_height ?s \<longrightarrow>
                check_sml_merkle_root (sha256d ex_env)
                  (snd (mnlistdiff_sml_new ex_env ?s ex_diff_v1))
                  (extra_payload (cbTx ex_diff_v1)) = Inr True)
          \<and> check_cbtx_merkle_root ex_env ?s (cbTx ex_diff_v1) (Some [])
                (Some (merkleHashes ex_diff_v1)) = Inr True"
    using t1 g k1 k3 by simp
  have j1: "check_sml_merkle_root (sha256d ex_env)
              (snd (mnlistdiff_sml_new ex_env ?s ex_diff_v2))
              (extra_payload (cbTx ex_diff_v2)) = Inr True"
    unfolding e ex_diff_v2_new ex_sml_new snd_conv ex_diff_v2_fields by (rule ex_sml_check_v2)
  have j2: "check_llmq_merkle_root (sha256d ex_env)
              (snd (mnlistdiff_llmq_new ex_env ?s ex_diff_v2))
              (extra_payload (cbTx ex_diff_v2)) = Inr False"
    unfolding e ex_diff_v2_new ex_llmq_new snd_conv ex_diff_v2_fields by (rule ex_llmq_check_v2)
  have h2: "tx_type (cbTx ex_diff_v2) = 5 \<and> cb_version (extra_payload (cbTx ex_diff_v2)) = 2
          \<and> (\<exists>n. network ?s = Some n \<and> 1030080 = llmq_height ?s
                  \<and> 1030090 \<le> get_local_height n - 8)
          \<and> (load_mns ?s \<and> 1030080 = protx_height ?s \<longrightarrow>
                check_sml_merkle_root (sha256d ex_env)
                  (snd (mnlistdiff_sml_new ex_env ?s ex_diff_v2))
                  (extra_payload (cbTx ex_diff_v2)) = Inr True)
          \<and> check_llmq_merkle_root (sha256d ex_env)
                (snd (mnlistdiff_llmq_new ex_env ?s ex_diff_v2))
                (extra_payload (cbTx ex_diff_v2)) = Inr False"
    using t2 g j1 j2 by simp
  have p1: "?p1 = (fst ?p1, snd ?p1)" by simp
  have p2: "?p2 = (fst ?p2, snd ?p2)" by simp
  note a = llmq_part_gated[OF p1, THEN conjunct2, THEN conjunct1, rule_format, OF h1]
  note b = llmq_part_gated[OF p2, THEN conjunct2, THEN conjunct2, rule_format, OF h2]
  from b have b': "?p2 = (Inr False, ?s)" using p2 by simp
  from a have a': "fst ?p1 = Inr True"
    "quorums (snd ?p1) = [(bh2u (replicate 32 5) @ '':1'', ex_quorum_a)]"
    "llmq_height (snd ?p1) = 1030090"
    by (simp_all add: ex_llmq_new t1)
  show ?thesis
    by (intro conjI) (rule t1 t2 n k2 a' b')+
qed

section \<open>Verification failures\<close>

text \<open>
  The loops of the two functions that build the new maps, read as lookups:
  \<open>del d[k]\<close> under \<open>if k in d\<close> removes the key, \<open>d[k] = v\<close> sets it.
\<close>

lemma dict_delete_absent: "\<not> dict_in k d \<Longrightarrow> AList.delete k d = d"
  by (simp add: dict_in_def map_of_eq_None_iff)

lemma foldl_delete_pair:
  "foldl (\<lambda>(a, b) k. (if dict_in k a then AList.delete k a else a,
                        if dict_in k b then AList.delete k b else b)) (a0, b0) ks
   = (foldl (\<lambda>a k. AList.delete k a) a0 ks, foldl (\<lambda>b k. AList.delete k b) b0 ks)"
proof (induction ks arbitrary: a0 b0)
  case Nil
  show ?case by simp
next
  case (Cons k ks)
  have "(if dict_in k a0 then AList.delete k a0 else a0) = AList.delete k a0"
    "(if dict_in k b0 then AList.delete k b0 else b0) = AList.delete k b0"
    by (simp_all add: dict_delete_absent)
  then show ?case using Cons.IH by simp
qed

lemma map_of_foldl_delete:
  "map_of (foldl (\<lambda>a k. AList.delete k a) a0 ks) = map_of a0 |` (- set ks)"
proof (induction ks arbitrary: a0)
  case Nil
  show ?case by simp
next
  case (Cons k ks)
  have "map_of (AList.delete k a0) |` (- set ks) = map_of a0 |` (- set (k # ks))"
    by (rule ext) (simp add: restrict_map_def delete_conv')
  then show ?case using Cons.IH by simp
qed

lemma foldl_update_pair:
  "foldl (\<lambda>(a, b) x. (AList.update (kf x) (vf x) a, AList.update (kf x) (hf x) b)) (a0, b0) xs
   = (foldl (\<lambda>a x. AList.update (kf x) (vf x) a) a0 xs,
      foldl (\<lambda>b x. AList.update (kf x) (hf x) b) b0 xs)"
  by (induction xs arbitrary: a0 b0) simp_all

lemma map_of_foldl_update:
  "map_of (foldl (\<lambda>a x. AList.update (kf x) (vf x) a) a0 xs)
   = map_of a0 ++ map_of (rev (map (\<lambda>x. (kf x, vf x)) xs))"
proof (induction xs arbitrary: a0)
  case Nil
  show ?case by simp
next
  case (Cons x xs)
  have "map_of (AList.update (kf x) (vf x) a0) ++ map_of (rev (map (\<lambda>x. (kf x, vf x)) xs))
        = map_of a0 ++ map_of (rev (map (\<lambda>x. (kf x, vf x)) (x # xs)))"
    by (rule ext) (simp add: update_conv' map_add_def split: option.splits)
  then show ?case using Cons.IH by simp
qed

lemma mnlistdiff_sml_new_lookup:
  "map_of (fst (mnlistdiff_sml_new E s diff))
     = (map_of (protx_mns s) |` (- set (mnlistdiff_deleted_mns diff)))
       ++ map_of (rev (map (\<lambda>e. (bh2u (rev (proRegTxHash e)), e)) (mnList diff)))"
  "map_of (snd (mnlistdiff_sml_new E s diff))
     = (map_of (sml_hashes s) |` (- set (mnlistdiff_deleted_mns diff)))
       ++ map_of (rev (map (\<lambda>e. (bh2u (rev (proRegTxHash e)), sha256d E (sml_serialize E e)))
                           (mnList diff)))"
proof -
  have u: "mnlistdiff_sml_new E s diff
    = (foldl (\<lambda>a x. AList.update (bh2u (rev (proRegTxHash x))) x a)
         (foldl (\<lambda>a k. AList.delete k a) (protx_mns s) (mnlistdiff_deleted_mns diff))
         (mnList diff),
       foldl (\<lambda>b x. AList.update (bh2u (rev (proRegTxHash x))) (sha256d E (sml_serialize E x)) b)
         (foldl (\<lambda>b k. AList.delete k b) (sml_hashes s) (mnlistdiff_deleted_mns diff))
         (mnList diff))"
    unfolding mnlistdiff_sml_new_def Let_def foldl_delete_pair
    by (rule foldl_update_pair[where kf = "\<lambda>x. bh2u (rev (proRegTxHash x))" and vf = "\<lambda>x. x"
          and hf = "\<lambda>x. sha256d E (sml_serialize E x)"])
  show "map_of (fst (mnlistdiff_sml_new E s diff))
     = (map_of (protx_mns s) |` (- set (mnlistdiff_deleted_mns diff)))
       ++ map_of (rev (map (\<lambda>e. (bh2u (rev (proRegTxHash e)), e)) (mnList diff)))"
    unfolding u fst_conv
    by (simp only: map_of_foldl_delete
        map_of_foldl_update[where kf = "\<lambda>x. bh2u (rev (proRegTxHash x))" and vf = "\<lambda>x. x"])
  show "map_of (snd (mnlistdiff_sml_new E s diff))
     = (map_of (sml_hashes s) |` (- set (mnlistdiff_deleted_mns diff)))
       ++ map_of (rev (map (\<lambda>e. (bh2u (rev (proRegTxHash e)), sha256d E (sml_serialize E e)))
                           (mnList diff)))"
    unfolding u snd_conv
    by (simp only: map_of_foldl_delete
        map_of_foldl_update[where kf = "\<lambda>x. bh2u (rev (proRegTxHash x))"
          and vf = "\<lambda>x. sha256d E (sml_serialize E x)"])
qed

lemma mnlistdiff_llmq_new_lookup:
  "map_of (fst (mnlistdiff_llmq_new E s diff))
     = (map_of (quorums s)
          |` (- set (map (\<lambda>dq. quorum_key (dq_quorumHash dq) (dq_llmqType dq))
                         (deletedQuorums diff))))
       ++ map_of (rev (map (\<lambda>nq. (quorum_key (quorumHash nq) (llmqType nq), nq))
                           (newQuorums diff)))"
  "map_of (snd (mnlistdiff_llmq_new E s diff))
     = (map_of (llmq_hashes s)
          |` (- set (map (\<lambda>dq. quorum_key (dq_quorumHash dq) (dq_llmqType dq))
                         (deletedQuorums diff))))
       ++ map_of (rev (map (\<lambda>nq. (quorum_key (quorumHash nq) (llmqType nq),
                                    sha256d E (qf_serialize E nq)))
                           (newQuorums diff)))"
proof -
  have d: "foldl (\<lambda>(quorums_new, llmq_hashes_new) dq.
                     (if dict_in (quorum_key (dq_quorumHash dq) (dq_llmqType dq)) quorums_new
                      then AList.delete (quorum_key (dq_quorumHash dq) (dq_llmqType dq))
                             quorums_new
                      else quorums_new,
                      if dict_in (quorum_key (dq_quorumHash dq) (dq_llmqType dq)) llmq_hashes_new
                      then AList.delete (quorum_key (dq_quorumHash dq) (dq_llmqType dq))
                             llmq_hashes_new
                      else llmq_hashes_new))
                  (a0, b0) dqs
           = foldl (\<lambda>(a, b) k. (if dict_in k a then AList.delete k a else a,
                        if dict_in k b then AList.delete k b else b)) (a0, b0)
               (map (\<lambda>dq. quorum_key (dq_quorumHash dq) (dq_llmqType dq)) dqs)"
    for a0 :: "(string, dash_qfcommit) dict" and b0 :: "(string, bytes) dict"
      and dqs :: "deleted_quorum list"
    by (induction dqs arbitrary: a0 b0) (simp_all add: Let_def)
  have u: "mnlistdiff_llmq_new E s diff
    = (foldl (\<lambda>a x. AList.update (quorum_key (quorumHash x) (llmqType x)) x a)
         (foldl (\<lambda>a k. AList.delete k a) (quorums s)
            (map (\<lambda>dq. quorum_key (dq_quorumHash dq) (dq_llmqType dq)) (deletedQuorums diff)))
         (newQuorums diff),
       foldl (\<lambda>b x. AList.update (quorum_key (quorumHash x) (llmqType x))
                       (sha256d E (qf_serialize E x)) b)
         (foldl (\<lambda>b k. AList.delete k b) (llmq_hashes s)
            (map (\<lambda>dq. quorum_key (dq_quorumHash dq) (dq_llmqType dq)) (deletedQuorums diff)))
         (newQuorums diff))"
    unfolding mnlistdiff_llmq_new_def Let_def d foldl_delete_pair
    by (rule foldl_update_pair[where kf = "\<lambda>x. quorum_key (quorumHash x) (llmqType x)"
          and vf = "\<lambda>x. x" and hf = "\<lambda>x. sha256d E (qf_serialize E x)"])
  show "map_of (fst (mnlistdiff_llmq_new E s diff))
     = (map_of (quorums s)
          |` (- set (map (\<lambda>dq. quorum_key (dq_quorumHash dq) (dq_llmqType dq))
                         (deletedQuorums diff))))
       ++ map_of (rev (map (\<lambda>nq. (quorum_key (quorumHash nq) (llmqType nq), nq))
                           (newQuorums diff)))"
    unfolding u fst_conv
    by (simp only: map_of_foldl_delete
        map_of_foldl_update[where kf = "\<lambda>x. quorum_key (quorumHash x) (llmqType x)"
          and vf = "\<lambda>x. x"])
  show "map_of (snd (mnlistdiff_llmq_new E s diff))
     = (map_of (llmq_hashes s)
          |` (- set (map (\<lambda>dq. quorum_key (dq_quorumHash dq) (dq_llmqType dq))
                         (deletedQuorums diff))))
       ++ map_of (rev (map (\<lambda>nq. (quorum_key (quorumHash nq) (llmqType nq),
                                    sha256d E (qf_serialize E nq)))
                           (newQuorums diff)))"
    unfolding u snd_conv
    by (simp only: map_of_foldl_delete
        map_of_foldl_update[where kf = "\<lambda>x. quorum_key (quorumHash x) (llmqType x)"
          and vf = "\<lambda>x. sha256d E (qf_serialize E x)"])
qed

lemma protx_insert_lookup:
  assumes "protx_insert E mns acc = Inr new"
  shows "\<exists>entries. try_map (\<lambda>mn. sml_from_dict E (mn_dict mn)) mns = Inr entries
           \<and> map_of (fst new)
               = map_of (fst acc)
                 ++ map_of (rev (zip (map (\<lambda>mn. get_or (mn_proRegTxHash mn) []) mns) entries))
           \<and> map_of (snd new)
               = map_of (snd acc)
                 ++ map_of (rev (zip (map (\<lambda>mn. get_or (mn_proRegTxHash mn) []) mns)
                                     (map (\<lambda>e. sha256d E (sml_serialize E e)) entries)))"
  using assms
proof (induction mns arbitrary: acc)
  case Nil
  then show ?case by simp
next
  case (Cons mn mns)
  obtain a b where acc: "acc = (a, b)" by (cases acc)
  define k where "k = get_or (mn_proRegTxHash mn) []"
  from Cons.prems obtain e where e: "sml_from_dict E (mn_dict mn) = Inr e"
    and r: "protx_insert E mns (AList.update k e a,
              AList.update k (sha256d E (sml_serialize E e)) b) = Inr new"
    by (auto simp: acc k_def Let_def split: sum.splits)
  from Cons.IH[OF r] obtain es where
    t: "try_map (\<lambda>mn. sml_from_dict E (mn_dict mn)) mns = Inr es"
    and f: "map_of (fst new) = map_of (AList.update k e a)
              ++ map_of (rev (zip (map (\<lambda>mn. get_or (mn_proRegTxHash mn) []) mns) es))"
    and g: "map_of (snd new) = map_of (AList.update k (sha256d E (sml_serialize E e)) b)
              ++ map_of (rev (zip (map (\<lambda>mn. get_or (mn_proRegTxHash mn) []) mns)
                                  (map (\<lambda>e. sha256d E (sml_serialize E e)) es)))"
    by auto
  have "try_map (\<lambda>mn. sml_from_dict E (mn_dict mn)) (mn # mns) = Inr (e # es)"
    by (simp add: e t)
  moreover have "map_of (fst new) = map_of (fst acc)
      ++ map_of (rev (zip (map (\<lambda>mn. get_or (mn_proRegTxHash mn) []) (mn # mns)) (e # es)))"
    by (rule ext) (simp add: f update_conv' acc k_def map_add_def split: option.splits)
  moreover have "map_of (snd new) = map_of (snd acc)
      ++ map_of (rev (zip (map (\<lambda>mn. get_or (mn_proRegTxHash mn) []) (mn # mns))
                          (map (\<lambda>e. sha256d E (sml_serialize E e)) (e # es))))"
    by (rule ext) (simp add: g update_conv' acc k_def map_add_def split: option.splits)
  ultimately show ?case by blast
qed

lemma protx_diff_sml_new_lookup:
  assumes "protx_diff_sml_new E s diff = Inr new"
  shows "\<exists>entries.
           try_map (\<lambda>mn. sml_from_dict E (mn_dict mn)) (get_or (pd_mnList diff) []) = Inr entries
           \<and> map_of (fst new)
               = (map_of (protx_mns s) |` (- set (get_or (pd_deletedMNs diff) [])))
                 ++ map_of (rev (zip (map (\<lambda>mn. get_or (mn_proRegTxHash mn) [])
                                          (get_or (pd_mnList diff) [])) entries))
           \<and> map_of (snd new)
               = (map_of (sml_hashes s) |` (- set (get_or (pd_deletedMNs diff) [])))
                 ++ map_of (rev (zip (map (\<lambda>mn. get_or (mn_proRegTxHash mn) [])
                                          (get_or (pd_mnList diff) []))
                                     (map (\<lambda>e. sha256d E (sml_serialize E e)) entries)))"
  using protx_insert_lookup[OF assms[unfolded protx_diff_sml_new_def Let_def foldl_delete_pair]]
  by (simp add: map_of_foldl_delete)

lemma mnlistdiff_commit_sml:
  "protx_mns (mnlistdiff_commit E s b diff c)
     = (if load_mns s \<and> b = protx_height s then fst (mnlistdiff_sml_new E s diff)
        else protx_mns s)"
  "sml_hashes (mnlistdiff_commit E s b diff c)
     = (if load_mns s \<and> b = protx_height s then snd (mnlistdiff_sml_new E s diff)
        else sml_hashes s)"
  "protx_height (mnlistdiff_commit E s b diff c)
     = (if load_mns s \<and> b = protx_height s then cb_height (extra_payload (cbTx diff))
        else protx_height s)"
  by (auto simp: mnlistdiff_commit_def Let_def split: prod.splits)

lemma protx_diff_commit_fields:
  assumes "protx_diff_commit s diff cbtx_extra new = (r, s')"
  shows "r \<noteq> Inr False" "protx_mns s' = fst new" "sml_hashes s' = snd new"
    "protx_height s' = cb_height cbtx_extra" "quorums s' = quorums s"
    "llmq_hashes s' = llmq_hashes s" "llmq_height s' = llmq_height s"
  using assms by (auto simp: protx_diff_commit_def Let_def split: sum.splits)

lemma process_protx_diff_cases:
  assumes p: "process_protx_diff E s b h diff = (r, s')"
    and d: "tx_deserialize E (get_or (pd_cbTx diff) []) = Inr cbtx"
  shows "(r \<noteq> Inr True \<and> s' = s)
   \<or> (tx_type cbtx = 0 \<and> r = Inr True \<and> s' = protx_diff_classical s h)
   \<or> (tx_type cbtx = 5 \<and> cb_version (extra_payload cbtx) \<le> 2
        \<and> (\<exists>new. protx_diff_sml_new E s diff = Inr new
             \<and> check_sml_merkle_root (sha256d E) (snd new) (extra_payload cbtx) = Inr True
             \<and> check_cbtx_merkle_root E s cbtx (pd_cbTxMerkleTree diff) None = Inr True
             \<and> (r, s') = protx_diff_commit s diff (extra_payload cbtx) new))"
proof -
  define sml where "sml = (\<lambda>new :: (string, dash_sml_entry) dict \<times> (string, bytes) dict.
      check_sml_merkle_root (sha256d E) (snd new) (extra_payload cbtx))"
  define cb where "cb = check_cbtx_merkle_root E s cbtx (pd_cbTxMerkleTree diff) None"
  define nw where "nw = protx_diff_sml_new E s diff"
  define commit where "commit = protx_diff_commit s diff (extra_payload cbtx)"
  define ty where "ty = tx_type cbtx"
  define ver where "ver = cb_version (extra_payload cbtx)"
  have u: "process_protx_diff E s b h diff =
     (if ty \<noteq> 0 then
        (if ty \<noteq> 5 then (Inr False, s)
         else if ver > 2 then (Inr False, s)
         else
           (case nw of
              Inl e \<Rightarrow> (Inl e, s)
            | Inr new \<Rightarrow>
               (case sml new of
                  Inl e \<Rightarrow> (Inl e, s)
                | Inr sml_ok \<Rightarrow>
                    if \<not> sml_ok then (Inr False, s)
                    else
                      (case cb of
                         Inl e \<Rightarrow> (Inl e, s)
                       | Inr cbtx_ok \<Rightarrow>
                           if \<not> cbtx_ok then (Inr False, s)
                           else commit new))))
      else (Inr True, protx_diff_classical s h))"
    unfolding process_protx_diff_def Let_def sml_def cb_def nw_def commit_def ty_def ver_def d
    by simp
  have "(r \<noteq> Inr True \<and> s' = s)
   \<or> (ty = 0 \<and> r = Inr True \<and> s' = protx_diff_classical s h)
   \<or> (ty = 5 \<and> ver \<le> 2
        \<and> (\<exists>new. nw = Inr new \<and> sml new = Inr True \<and> cb = Inr True \<and> (r, s') = commit new))"
    using p unfolding u
    by (auto split: if_splits sum.splits)
  then show ?thesis
    unfolding sml_def cb_def nw_def commit_def ty_def ver_def .
qed

text \<open>
  C1, as amended.  Let \<open>process_mnlistdiff\<close> end with result \<open>r\<close> in state \<open>s'\<close> and
  \<open>process_protx_diff\<close> with \<open>pr\<close> in \<open>ps'\<close>.  The new maps are the stored maps
  without the deleted keys, then with the entries of the diff, the later entry of
  a key winning; the stored maps themselves are not written to.  A commitment
  transaction of a type other than 0 and 5, or of type 5 with an extra-payload
  version above 2, a masternode root that does not match, a quorum root that does
  not match where it is checked (under the condition on the heights of the quorum
  part, and only for a version above 1), and a commitment transaction that is not
  included in its block, each give the result \<open>False\<close> and leave the whole state as
  it was.  \<open>process_mnlistdiff\<close> changes the state only when it returns \<open>True\<close>, and
  for a commitment of type 5 it returns \<open>True\<close> only when every check that it makes
  has passed; it then stores the new maps and the height of the commitment, each
  part under its condition.  \<open>process_protx_diff\<close> changes the state for a
  commitment of type 5 only after both of its checks have passed, and never when
  it returns \<open>False\<close>.
\<close>

theorem verification_failure_discards:
  assumes p: "process_mnlistdiff E s b h diff = (r, s')"
    and q: "process_protx_diff E s b h pdiff = (pr, ps')"
  shows
    "map_of (fst (mnlistdiff_sml_new E s diff))
       = (map_of (protx_mns s) |` (- set (mnlistdiff_deleted_mns diff)))
         ++ map_of (rev (map (\<lambda>e. (bh2u (rev (proRegTxHash e)), e)) (mnList diff)))
     \<and> map_of (snd (mnlistdiff_sml_new E s diff))
       = (map_of (sml_hashes s) |` (- set (mnlistdiff_deleted_mns diff)))
         ++ map_of (rev (map (\<lambda>e. (bh2u (rev (proRegTxHash e)), sha256d E (sml_serialize E e)))
                             (mnList diff)))
     \<and> map_of (fst (mnlistdiff_llmq_new E s diff))
       = (map_of (quorums s)
            |` (- set (map (\<lambda>dq. quorum_key (dq_quorumHash dq) (dq_llmqType dq))
                           (deletedQuorums diff))))
         ++ map_of (rev (map (\<lambda>nq. (quorum_key (quorumHash nq) (llmqType nq), nq))
                             (newQuorums diff)))
     \<and> map_of (snd (mnlistdiff_llmq_new E s diff))
       = (map_of (llmq_hashes s)
            |` (- set (map (\<lambda>dq. quorum_key (dq_quorumHash dq) (dq_llmqType dq))
                           (deletedQuorums diff))))
         ++ map_of (rev (map (\<lambda>nq. (quorum_key (quorumHash nq) (llmqType nq),
                                      sha256d E (qf_serialize E nq)))
                             (newQuorums diff)))
     \<and> (\<forall>new. protx_diff_sml_new E s pdiff = Inr new \<longrightarrow>
          (\<exists>entries.
             try_map (\<lambda>mn. sml_from_dict E (mn_dict mn)) (get_or (pd_mnList pdiff) [])
               = Inr entries
             \<and> map_of (fst new)
                 = (map_of (protx_mns s) |` (- set (get_or (pd_deletedMNs pdiff) [])))
                   ++ map_of (rev (zip (map (\<lambda>mn. get_or (mn_proRegTxHash mn) [])
                                            (get_or (pd_mnList pdiff) [])) entries))
             \<and> map_of (snd new)
                 = (map_of (sml_hashes s) |` (- set (get_or (pd_deletedMNs pdiff) [])))
                   ++ map_of (rev (zip (map (\<lambda>mn. get_or (mn_proRegTxHash mn) [])
                                            (get_or (pd_mnList pdiff) []))
                                       (map (\<lambda>e. sha256d E (sml_serialize E e)) entries)))))
     \<and> (tx_type (cbTx diff) \<noteq> 0
          \<and> (tx_type (cbTx diff) \<noteq> 5 \<or> 2 < cb_version (extra_payload (cbTx diff)))
        \<longrightarrow> (r, s') = (Inr False, s))
     \<and> (\<forall>c. tx_type (cbTx diff) = 5 \<and> cb_version (extra_payload (cbTx diff)) \<le> 2
              \<and> mnlistdiff_llmq_cond s b h = Inr c
              \<and> load_mns s \<and> b = protx_height s
              \<and> check_sml_merkle_root (sha256d E) (snd (mnlistdiff_sml_new E s diff))
                   (extra_payload (cbTx diff)) = Inr False
        \<longrightarrow> (r, s') = (Inr False, s))
     \<and> (tx_type (cbTx diff) = 5 \<and> cb_version (extra_payload (cbTx diff)) = 2
          \<and> mnlistdiff_llmq_cond s b h = Inr True
          \<and> (load_mns s \<and> b = protx_height s \<longrightarrow>
                check_sml_merkle_root (sha256d E) (snd (mnlistdiff_sml_new E s diff))
                  (extra_payload (cbTx diff)) = Inr True)
          \<and> check_llmq_merkle_root (sha256d E) (snd (mnlistdiff_llmq_new E s diff))
               (extra_payload (cbTx diff)) = Inr False
        \<longrightarrow> (r, s') = (Inr False, s))
     \<and> (\<forall>c. tx_type (cbTx diff) = 5 \<and> cb_version (extra_payload (cbTx diff)) \<le> 2
              \<and> mnlistdiff_llmq_cond s b h = Inr c
              \<and> (load_mns s \<and> b = protx_height s \<longrightarrow>
                    check_sml_merkle_root (sha256d E) (snd (mnlistdiff_sml_new E s diff))
                      (extra_payload (cbTx diff)) = Inr True)
              \<and> (c \<and> 1 < cb_version (extra_payload (cbTx diff)) \<longrightarrow>
                    check_llmq_merkle_root (sha256d E) (snd (mnlistdiff_llmq_new E s diff))
                      (extra_payload (cbTx diff)) = Inr True)
              \<and> check_cbtx_merkle_root E s (cbTx diff) (Some []) (Some (merkleHashes diff))
                   = Inr False
        \<longrightarrow> (r, s') = (Inr False, s))
     \<and> (r \<noteq> Inr True \<longrightarrow> s' = s)
     \<and> (r = Inr True \<and> tx_type (cbTx diff) \<noteq> 0 \<longrightarrow>
          (\<exists>c. mnlistdiff_llmq_cond s b h = Inr c
             \<and> (load_mns s \<and> b = protx_height s \<longrightarrow>
                  check_sml_merkle_root (sha256d E) (snd (mnlistdiff_sml_new E s diff))
                    (extra_payload (cbTx diff)) = Inr True)
             \<and> (c \<and> 1 < cb_version (extra_payload (cbTx diff)) \<longrightarrow>
                  check_llmq_merkle_root (sha256d E) (snd (mnlistdiff_llmq_new E s diff))
                    (extra_payload (cbTx diff)) = Inr True)
             \<and> check_cbtx_merkle_root E s (cbTx diff) (Some []) (Some (merkleHashes diff))
                 = Inr True
             \<and> protx_mns s' = (if load_mns s \<and> b = protx_height s
                                then fst (mnlistdiff_sml_new E s diff) else protx_mns s)
             \<and> sml_hashes s' = (if load_mns s \<and> b = protx_height s
                                 then snd (mnlistdiff_sml_new E s diff) else sml_hashes s)
             \<and> protx_height s' = (if load_mns s \<and> b = protx_height s
                                   then cb_height (extra_payload (cbTx diff))
                                   else protx_height s)
             \<and> quorums s' = (if c then fst (mnlistdiff_llmq_new E s diff) else quorums s)
             \<and> llmq_hashes s' = (if c then snd (mnlistdiff_llmq_new E s diff)
                                  else llmq_hashes s)
             \<and> llmq_height s' = (if c then cb_height (extra_payload (cbTx diff))
                                  else llmq_height s)))
     \<and> (\<forall>cbtx. tx_deserialize E (get_or (pd_cbTx pdiff) []) = Inr cbtx
              \<and> tx_type cbtx \<noteq> 0
              \<and> (tx_type cbtx \<noteq> 5 \<or> 2 < cb_version (extra_payload cbtx))
        \<longrightarrow> (pr, ps') = (Inr False, s))
     \<and> (\<forall>cbtx new. tx_deserialize E (get_or (pd_cbTx pdiff) []) = Inr cbtx
              \<and> tx_type cbtx = 5 \<and> cb_version (extra_payload cbtx) \<le> 2
              \<and> protx_diff_sml_new E s pdiff = Inr new
              \<and> check_sml_merkle_root (sha256d E) (snd new) (extra_payload cbtx) = Inr False
        \<longrightarrow> (pr, ps') = (Inr False, s))
     \<and> (\<forall>cbtx new. tx_deserialize E (get_or (pd_cbTx pdiff) []) = Inr cbtx
              \<and> tx_type cbtx = 5 \<and> cb_version (extra_payload cbtx) \<le> 2
              \<and> protx_diff_sml_new E s pdiff = Inr new
              \<and> check_sml_merkle_root (sha256d E) (snd new) (extra_payload cbtx) = Inr True
              \<and> check_cbtx_merkle_root E s cbtx (pd_cbTxMerkleTree pdiff) None = Inr False
        \<longrightarrow> (pr, ps') = (Inr False, s))
     \<and> (\<forall>cbtx. tx_deserialize E (get_or (pd_cbTx pdiff) []) = Inr cbtx
              \<and> tx_type cbtx \<noteq> 0 \<and> ps' \<noteq> s
        \<longrightarrow> (\<exists>new. protx_diff_sml_new E s pdiff = Inr new
               \<and> check_sml_merkle_root (sha256d E) (snd new) (extra_payload cbtx) = Inr True
               \<and> check_cbtx_merkle_root E s cbtx (pd_cbTxMerkleTree pdiff) None = Inr True
               \<and> protx_mns ps' = fst new \<and> sml_hashes ps' = snd new
               \<and> protx_height ps' = cb_height (extra_payload cbtx)
               \<and> quorums ps' = quorums s \<and> llmq_hashes ps' = llmq_hashes s
               \<and> llmq_height ps' = llmq_height s))
     \<and> (pr = Inr False \<longrightarrow> ps' = s)"
proof (intro conjI allI impI)
  show "map_of (fst (mnlistdiff_sml_new E s diff))
       = (map_of (protx_mns s) |` (- set (mnlistdiff_deleted_mns diff)))
         ++ map_of (rev (map (\<lambda>e. (bh2u (rev (proRegTxHash e)), e)) (mnList diff)))"
    by (rule mnlistdiff_sml_new_lookup)
  show "map_of (snd (mnlistdiff_sml_new E s diff))
       = (map_of (sml_hashes s) |` (- set (mnlistdiff_deleted_mns diff)))
         ++ map_of (rev (map (\<lambda>e. (bh2u (rev (proRegTxHash e)), sha256d E (sml_serialize E e)))
                             (mnList diff)))"
    by (rule mnlistdiff_sml_new_lookup)
  show "map_of (fst (mnlistdiff_llmq_new E s diff))
       = (map_of (quorums s)
            |` (- set (map (\<lambda>dq. quorum_key (dq_quorumHash dq) (dq_llmqType dq))
                           (deletedQuorums diff))))
         ++ map_of (rev (map (\<lambda>nq. (quorum_key (quorumHash nq) (llmqType nq), nq))
                             (newQuorums diff)))"
    by (rule mnlistdiff_llmq_new_lookup)
  show "map_of (snd (mnlistdiff_llmq_new E s diff))
       = (map_of (llmq_hashes s)
            |` (- set (map (\<lambda>dq. quorum_key (dq_quorumHash dq) (dq_llmqType dq))
                           (deletedQuorums diff))))
         ++ map_of (rev (map (\<lambda>nq. (quorum_key (quorumHash nq) (llmqType nq),
                                      sha256d E (qf_serialize E nq)))
                             (newQuorums diff)))"
    by (rule mnlistdiff_llmq_new_lookup)
  show "\<exists>entries.
             try_map (\<lambda>mn. sml_from_dict E (mn_dict mn)) (get_or (pd_mnList pdiff) [])
               = Inr entries
             \<and> map_of (fst new)
                 = (map_of (protx_mns s) |` (- set (get_or (pd_deletedMNs pdiff) [])))
                   ++ map_of (rev (zip (map (\<lambda>mn. get_or (mn_proRegTxHash mn) [])
                                            (get_or (pd_mnList pdiff) [])) entries))
             \<and> map_of (snd new)
                 = (map_of (sml_hashes s) |` (- set (get_or (pd_deletedMNs pdiff) [])))
                   ++ map_of (rev (zip (map (\<lambda>mn. get_or (mn_proRegTxHash mn) [])
                                            (get_or (pd_mnList pdiff) []))
                                       (map (\<lambda>e. sha256d E (sml_serialize E e)) entries)))"
    if "protx_diff_sml_new E s pdiff = Inr new" for new
    by (rule protx_diff_sml_new_lookup[OF that])
  show "(r, s') = (Inr False, s)"
    if "tx_type (cbTx diff) \<noteq> 0
          \<and> (tx_type (cbTx diff) \<noteq> 5 \<or> 2 < cb_version (extra_payload (cbTx diff)))"
  proof -
    from that have "process_mnlistdiff E s b h diff = (Inr False, s)"
      by (cases "tx_type (cbTx diff) = 5") (simp_all add: process_mnlistdiff_def Let_def)
    with p show ?thesis by simp
  qed
  show "(r, s') = (Inr False, s)"
    if "tx_type (cbTx diff) = 5 \<and> cb_version (extra_payload (cbTx diff)) \<le> 2
              \<and> mnlistdiff_llmq_cond s b h = Inr c
              \<and> load_mns s \<and> b = protx_height s
              \<and> check_sml_merkle_root (sha256d E) (snd (mnlistdiff_sml_new E s diff))
                   (extra_payload (cbTx diff)) = Inr False" for c
  proof -
    from that have "process_mnlistdiff E s b h diff = (Inr False, s)"
      by (clarsimp simp add: process_mnlistdiff_def Let_def)
    with p show ?thesis by simp
  qed
  show "(r, s') = (Inr False, s)"
    if "tx_type (cbTx diff) = 5 \<and> cb_version (extra_payload (cbTx diff)) = 2
          \<and> mnlistdiff_llmq_cond s b h = Inr True
          \<and> (load_mns s \<and> b = protx_height s \<longrightarrow>
                check_sml_merkle_root (sha256d E) (snd (mnlistdiff_sml_new E s diff))
                  (extra_payload (cbTx diff)) = Inr True)
          \<and> check_llmq_merkle_root (sha256d E) (snd (mnlistdiff_llmq_new E s diff))
               (extra_payload (cbTx diff)) = Inr False"
  proof -
    from that have "process_mnlistdiff E s b h diff = (Inr False, s)"
      by (clarsimp simp add: process_mnlistdiff_def Let_def)
    with p show ?thesis by simp
  qed
  show "(r, s') = (Inr False, s)"
    if "tx_type (cbTx diff) = 5 \<and> cb_version (extra_payload (cbTx diff)) \<le> 2
              \<and> mnlistdiff_llmq_cond s b h = Inr c
              \<and> (load_mns s \<and> b = protx_height s \<longrightarrow>
                    check_sml_merkle_root (sha256d E) (snd (mnlistdiff_sml_new E s diff))
                      (extra_payload (cbTx diff)) = Inr True)
              \<and> (c \<and> 1 < cb_version (extra_payload (cbTx diff)) \<longrightarrow>
                    check_llmq_merkle_root (sha256d E) (snd (mnlistdiff_llmq_new E s diff))
                      (extra_payload (cbTx diff)) = Inr True)
              \<and> check_cbtx_merkle_root E s (cbTx diff) (Some []) (Some (merkleHashes diff))
                   = Inr False" for c
  proof -
    from that have "process_mnlistdiff E s b h diff = (Inr False, s)"
      by (clarsimp simp add: process_mnlistdiff_def Let_def)
    with p show ?thesis by simp
  qed
  show "s' = s" if "r \<noteq> Inr True"
    using that process_mnlistdiff_cases[OF p] by blast
  show "\<exists>c. mnlistdiff_llmq_cond s b h = Inr c
             \<and> (load_mns s \<and> b = protx_height s \<longrightarrow>
                  check_sml_merkle_root (sha256d E) (snd (mnlistdiff_sml_new E s diff))
                    (extra_payload (cbTx diff)) = Inr True)
             \<and> (c \<and> 1 < cb_version (extra_payload (cbTx diff)) \<longrightarrow>
                  check_llmq_merkle_root (sha256d E) (snd (mnlistdiff_llmq_new E s diff))
                    (extra_payload (cbTx diff)) = Inr True)
             \<and> check_cbtx_merkle_root E s (cbTx diff) (Some []) (Some (merkleHashes diff))
                 = Inr True
             \<and> protx_mns s' = (if load_mns s \<and> b = protx_height s
                                then fst (mnlistdiff_sml_new E s diff) else protx_mns s)
             \<and> sml_hashes s' = (if load_mns s \<and> b = protx_height s
                                 then snd (mnlistdiff_sml_new E s diff) else sml_hashes s)
             \<and> protx_height s' = (if load_mns s \<and> b = protx_height s
                                   then cb_height (extra_payload (cbTx diff))
                                   else protx_height s)
             \<and> quorums s' = (if c then fst (mnlistdiff_llmq_new E s diff) else quorums s)
             \<and> llmq_hashes s' = (if c then snd (mnlistdiff_llmq_new E s diff)
                                  else llmq_hashes s)
             \<and> llmq_height s' = (if c then cb_height (extra_payload (cbTx diff))
                                  else llmq_height s)"
    if a: "r = Inr True \<and> tx_type (cbTx diff) \<noteq> 0"
  proof -
    from a process_mnlistdiff_cases[OF p] obtain c where
      c: "mnlistdiff_llmq_cond s b h = Inr c"
      "load_mns s \<and> b = protx_height s \<longrightarrow>
         check_sml_merkle_root (sha256d E) (snd (mnlistdiff_sml_new E s diff))
           (extra_payload (cbTx diff)) = Inr True"
      "c \<and> 1 < cb_version (extra_payload (cbTx diff)) \<longrightarrow>
         check_llmq_merkle_root (sha256d E) (snd (mnlistdiff_llmq_new E s diff))
           (extra_payload (cbTx diff)) = Inr True"
      "check_cbtx_merkle_root E s (cbTx diff) (Some []) (Some (merkleHashes diff)) = Inr True"
      "s' = mnlistdiff_commit E s b diff c"
      by blast
    show ?thesis
      apply (rule exI[of _ c])
      unfolding c(5) mnlistdiff_commit_sml mnlistdiff_commit_llmq
      using c(1-4) by (intro conjI refl)
  qed
  show "(pr, ps') = (Inr False, s)"
    if "tx_deserialize E (get_or (pd_cbTx pdiff) []) = Inr cbtx
              \<and> tx_type cbtx \<noteq> 0
              \<and> (tx_type cbtx \<noteq> 5 \<or> 2 < cb_version (extra_payload cbtx))" for cbtx
  proof -
    from that have "process_protx_diff E s b h pdiff = (Inr False, s)"
      by (cases "tx_type cbtx = 5") (simp_all add: process_protx_diff_def Let_def)
    with q show ?thesis by simp
  qed
  show "(pr, ps') = (Inr False, s)"
    if "tx_deserialize E (get_or (pd_cbTx pdiff) []) = Inr cbtx
              \<and> tx_type cbtx = 5 \<and> cb_version (extra_payload cbtx) \<le> 2
              \<and> protx_diff_sml_new E s pdiff = Inr new
              \<and> check_sml_merkle_root (sha256d E) (snd new) (extra_payload cbtx) = Inr False"
    for cbtx new
  proof -
    from that have "process_protx_diff E s b h pdiff = (Inr False, s)"
      by (clarsimp simp add: process_protx_diff_def Let_def)
    with q show ?thesis by simp
  qed
  show "(pr, ps') = (Inr False, s)"
    if "tx_deserialize E (get_or (pd_cbTx pdiff) []) = Inr cbtx
              \<and> tx_type cbtx = 5 \<and> cb_version (extra_payload cbtx) \<le> 2
              \<and> protx_diff_sml_new E s pdiff = Inr new
              \<and> check_sml_merkle_root (sha256d E) (snd new) (extra_payload cbtx) = Inr True
              \<and> check_cbtx_merkle_root E s cbtx (pd_cbTxMerkleTree pdiff) None = Inr False"
    for cbtx new
  proof -
    from that have "process_protx_diff E s b h pdiff = (Inr False, s)"
      by (clarsimp simp add: process_protx_diff_def Let_def)
    with q show ?thesis by simp
  qed
  show "\<exists>new. protx_diff_sml_new E s pdiff = Inr new
               \<and> check_sml_merkle_root (sha256d E) (snd new) (extra_payload cbtx) = Inr True
               \<and> check_cbtx_merkle_root E s cbtx (pd_cbTxMerkleTree pdiff) None = Inr True
               \<and> protx_mns ps' = fst new \<and> sml_hashes ps' = snd new
               \<and> protx_height ps' = cb_height (extra_payload cbtx)
               \<and> quorums ps' = quorums s \<and> llmq_hashes ps' = llmq_hashes s
               \<and> llmq_height ps' = llmq_height s"
    if a: "tx_deserialize E (get_or (pd_cbTx pdiff) []) = Inr cbtx
              \<and> tx_type cbtx \<noteq> 0 \<and> ps' \<noteq> s" for cbtx
  proof -
    from a have d: "tx_deserialize E (get_or (pd_cbTx pdiff) []) = Inr cbtx" by simp
    from a process_protx_diff_cases[OF q d] obtain new where
      n: "protx_diff_sml_new E s pdiff = Inr new"
      "check_sml_merkle_root (sha256d E) (snd new) (extra_payload cbtx) = Inr True"
      "check_cbtx_merkle_root E s cbtx (pd_cbTxMerkleTree pdiff) None = Inr True"
      "protx_diff_commit s pdiff (extra_payload cbtx) new = (pr, ps')"
      by (metis (no_types, lifting))
    from protx_diff_commit_fields[OF n(4)] n(1-3) show ?thesis by blast
  qed
  show "ps' = s" if a: "pr = Inr False"
  proof (cases "tx_deserialize E (get_or (pd_cbTx pdiff) [])")
    case (Inl e)
    with q a show ?thesis by (simp add: process_protx_diff_def)
  next
    case (Inr cbtx)
    from process_protx_diff_cases[OF q Inr] a show ?thesis
      using protx_diff_commit_fields(1) by (metis sum.inject(2))
  qed
qed

text \<open>
  A diff with a version-1 commitment whose quorum root does not match the new
  quorum hashes is processed with success, and the quorum map and \<open>llmq_height\<close>
  change.
\<close>

theorem llmq_mismatch_committed_counterexample:
  "check_llmq_merkle_root (sha256d ex_env)
     (snd (mnlistdiff_llmq_new ex_env ex_mnlist_no_quorums ex_diff_v1))
     (extra_payload (cbTx ex_diff_v1)) = Inr False
   \<and> fst (process_mnlistdiff ex_env ex_mnlist_no_quorums 1030080 1030090 ex_diff_v1) = Inr True
   \<and> quorums ex_mnlist_no_quorums = []
   \<and> quorums (snd (process_mnlistdiff ex_env ex_mnlist_no_quorums 1030080 1030090 ex_diff_v1))
       = [(bh2u (replicate 32 5) @ '':1'', ex_quorum_a)]
   \<and> llmq_height ex_mnlist_no_quorums = 1030080
   \<and> llmq_height (snd (process_mnlistdiff ex_env ex_mnlist_no_quorums 1030080 1030090
                          ex_diff_v1)) = 1030090"
proof -
  have e: "sha256d ex_env = sha256d_fips" by (simp add: ex_env_def)
  have k: "check_llmq_merkle_root (sha256d ex_env)
     (snd (mnlistdiff_llmq_new ex_env ex_mnlist_no_quorums ex_diff_v1))
     (extra_payload (cbTx ex_diff_v1)) = Inr False"
    unfolding e ex_llmq_new snd_conv ex_diff_v1_fields by (rule ex_llmq_check)
  have n: "quorums ex_mnlist_no_quorums = []" "llmq_height ex_mnlist_no_quorums = 1030080"
    by (simp_all add: ex_mnlist_no_quorums_def ex_mnlist_def)
  have h: "cb_height (extra_payload (cbTx ex_diff_v1)) = 1030090"
    by (simp add: ex_diff_v1_def ex_cbtx_v1_def)
  show ?thesis
    unfolding ex_process_v1 fst_conv snd_conv mnlistdiff_commit_llmq
    using k n h by (simp add: ex_llmq_new)
qed

lemma ex_protx_sml_new:
  "protx_diff_sml_new ex_env_no_root ex_mnlist (result ex_protx_response)
   = Inr (protx_mns ex_mnlist, sml_hashes ex_mnlist)"
  by (simp add: protx_diff_sml_new_def ex_protx_response_def get_or_def)

lemma ex_protx_sml_check:
  "check_sml_merkle_root sha256d_fips (sml_hashes ex_mnlist) (extra_payload ex_cbtx_no_root)
   = Inr False"
proof -
  have "replicate 32 (170 :: byte) \<noteq> []" by simp
  then have "hfu (rev (replicate 32 (170 :: byte))) \<noteq> hfu (rev [])"
    by (simp only: hfu_rev_inj not_False_eq_True)
  then show ?thesis
    by (simp add: check_sml_merkle_root_def py_sorted_def sml_sort_key_def bfh_bh2u
        calc_merkle_root_single ex_cbtx_no_root_def ex_mnlist_def ex_mn_def
        del: rev_replicate replicate_eq_replicate)
qed

theorem verification_failure_discards_witness:
  "tx_type (cbTx ex_diff_v2) = 5
   \<and> cb_version (extra_payload (cbTx ex_diff_v2)) = 2
   \<and> mnlistdiff_llmq_cond ex_mnlist_no_quorums 1030080 1030090 = Inr True
   \<and> check_sml_merkle_root (sha256d ex_env)
        (snd (mnlistdiff_sml_new ex_env ex_mnlist_no_quorums ex_diff_v2))
        (extra_payload (cbTx ex_diff_v2)) = Inr True
   \<and> check_llmq_merkle_root (sha256d ex_env)
        (snd (mnlistdiff_llmq_new ex_env ex_mnlist_no_quorums ex_diff_v2))
        (extra_payload (cbTx ex_diff_v2)) = Inr False
   \<and> process_mnlistdiff ex_env ex_mnlist_no_quorums 1030080 1030090 ex_diff_v2
       = (Inr False, ex_mnlist_no_quorums)
   \<and> fst (process_mnlistdiff ex_env ex_mnlist_no_quorums 1030080 1030090 ex_diff_v1) = Inr True
   \<and> tx_type (cbTx ex_diff_v1) = 5
   \<and> check_cbtx_merkle_root ex_env ex_mnlist_no_quorums (cbTx ex_diff_v1) (Some [])
        (Some (merkleHashes ex_diff_v1)) = Inr True
   \<and> protx_mns (snd (process_mnlistdiff ex_env ex_mnlist_no_quorums 1030080 1030090 ex_diff_v1))
       = [(bh2u (replicate 32 8), ex_mn_new)]
   \<and> protx_height (snd (process_mnlistdiff ex_env ex_mnlist_no_quorums 1030080 1030090
                           ex_diff_v1)) = 1030090
   \<and> tx_deserialize ex_env_no_root (get_or (pd_cbTx (result ex_protx_response)) [])
       = Inr ex_cbtx_no_root
   \<and> tx_type ex_cbtx_no_root = 5
   \<and> cb_version (extra_payload ex_cbtx_no_root) = 2
   \<and> check_sml_merkle_root (sha256d ex_env_no_root) (sml_hashes ex_mnlist)
        (extra_payload ex_cbtx_no_root) = Inr False
   \<and> process_protx_diff ex_env_no_root ex_mnlist 1 100 (result ex_protx_response)
       = (Inr False, ex_mnlist)"
proof -
  let ?s = ex_mnlist_no_quorums
  let ?pd = "result ex_protx_response"
  let ?p1 = "process_mnlistdiff ex_env ?s 1030080 1030090 ex_diff_v1"
  let ?p2 = "process_mnlistdiff ex_env ?s 1030080 1030090 ex_diff_v2"
  let ?q0 = "process_protx_diff ex_env ?s 1030080 1030090 ?pd"
  let ?p3 = "process_mnlistdiff ex_env_no_root ex_mnlist 1 100 ex_diff_v1"
  let ?q3 = "process_protx_diff ex_env_no_root ex_mnlist 1 100 ?pd"
  have e: "sha256d ex_env = sha256d_fips" "sha256d ex_env_no_root = sha256d_fips"
    by (simp_all add: ex_env_def ex_env_no_root_def)
  have t1: "tx_type (cbTx ex_diff_v1) = 5" "tx_type (cbTx ex_diff_v1) \<noteq> 0"
    "cb_height (extra_payload (cbTx ex_diff_v1)) = 1030090"
    by (simp_all add: ex_diff_v1_def ex_cbtx_v1_def)
  have t2: "tx_type (cbTx ex_diff_v2) = 5" "cb_version (extra_payload (cbTx ex_diff_v2)) = 2"
    by (simp_all add: ex_diff_v2_def ex_diff_v1_def ex_cbtx_v1_def)
  have n: "load_mns ?s" "protx_height ?s = 1030080"
    by (simp_all add: ex_mnlist_no_quorums_def ex_mnlist_def)
  have j1: "check_sml_merkle_root (sha256d ex_env)
              (snd (mnlistdiff_sml_new ex_env ?s ex_diff_v2))
              (extra_payload (cbTx ex_diff_v2)) = Inr True"
    unfolding e ex_diff_v2_new ex_sml_new snd_conv ex_diff_v2_fields by (rule ex_sml_check_v2)
  have j2: "check_llmq_merkle_root (sha256d ex_env)
              (snd (mnlistdiff_llmq_new ex_env ?s ex_diff_v2))
              (extra_payload (cbTx ex_diff_v2)) = Inr False"
    unfolding e ex_diff_v2_new ex_llmq_new snd_conv ex_diff_v2_fields by (rule ex_llmq_check_v2)
  have h2: "tx_type (cbTx ex_diff_v2) = 5 \<and> cb_version (extra_payload (cbTx ex_diff_v2)) = 2
          \<and> mnlistdiff_llmq_cond ?s 1030080 1030090 = Inr True
          \<and> (load_mns ?s \<and> 1030080 = protx_height ?s \<longrightarrow>
                check_sml_merkle_root (sha256d ex_env)
                  (snd (mnlistdiff_sml_new ex_env ?s ex_diff_v2))
                  (extra_payload (cbTx ex_diff_v2)) = Inr True)
          \<and> check_llmq_merkle_root (sha256d ex_env)
               (snd (mnlistdiff_llmq_new ex_env ?s ex_diff_v2))
               (extra_payload (cbTx ex_diff_v2)) = Inr False"
    using t2 ex_llmq_cond j1 j2 by simp
  have p1: "?p1 = (fst ?p1, snd ?p1)" by simp
  have p2: "?p2 = (fst ?p2, snd ?p2)" by simp
  have q0: "?q0 = (fst ?q0, snd ?q0)" by simp
  have p3: "?p3 = (fst ?p3, snd ?p3)" by simp
  have q3: "?q3 = (fst ?q3, snd ?q3)" by simp
  note a = verification_failure_discards[OF p2 q0]
  note a_llmq = a[THEN conjunct2, THEN conjunct2, THEN conjunct2, THEN conjunct2,
      THEN conjunct2, THEN conjunct2, THEN conjunct2, THEN conjunct1, rule_format, OF h2]
  from a_llmq have r2: "?p2 = (Inr False, ?s)" by simp
  have f1: "fst ?p1 = Inr True" by (simp add: ex_process_v1)
  note b = verification_failure_discards[OF p1 q0]
  note b_ok = b[THEN conjunct2, THEN conjunct2, THEN conjunct2, THEN conjunct2,
      THEN conjunct2, THEN conjunct2, THEN conjunct2, THEN conjunct2, THEN conjunct2,
      THEN conjunct2, THEN conjunct1, rule_format, OF conjI[OF f1 t1(2)]]
  from b_ok n have r1:
    "check_cbtx_merkle_root ex_env ?s (cbTx ex_diff_v1) (Some [])
        (Some (merkleHashes ex_diff_v1)) = Inr True"
    "protx_mns (snd ?p1) = [(bh2u (replicate 32 8), ex_mn_new)]"
    "protx_height (snd ?p1) = 1030090"
    by (auto simp: ex_sml_new t1)
  have d: "tx_deserialize ex_env_no_root (get_or (pd_cbTx ?pd) []) = Inr ex_cbtx_no_root"
    by (simp add: ex_env_no_root_def)
  have t3: "tx_type ex_cbtx_no_root = 5" "cb_version (extra_payload ex_cbtx_no_root) = 2"
    by (simp_all add: ex_cbtx_no_root_def)
  have k3: "check_sml_merkle_root (sha256d ex_env_no_root) (sml_hashes ex_mnlist)
        (extra_payload ex_cbtx_no_root) = Inr False"
    unfolding e by (rule ex_protx_sml_check)
  have h3: "tx_deserialize ex_env_no_root (get_or (pd_cbTx ?pd) []) = Inr ex_cbtx_no_root
              \<and> tx_type ex_cbtx_no_root = 5 \<and> cb_version (extra_payload ex_cbtx_no_root) \<le> 2
              \<and> protx_diff_sml_new ex_env_no_root ex_mnlist ?pd
                   = Inr (protx_mns ex_mnlist, sml_hashes ex_mnlist)
              \<and> check_sml_merkle_root (sha256d ex_env_no_root)
                   (snd (protx_mns ex_mnlist, sml_hashes ex_mnlist))
                   (extra_payload ex_cbtx_no_root) = Inr False"
    using d t3 ex_protx_sml_new k3 by simp
  note c = verification_failure_discards[OF p3 q3]
  note c_sml = c[THEN conjunct2, THEN conjunct2, THEN conjunct2, THEN conjunct2,
      THEN conjunct2, THEN conjunct2, THEN conjunct2, THEN conjunct2, THEN conjunct2,
      THEN conjunct2, THEN conjunct2, THEN conjunct2, THEN conjunct1, rule_format, OF h3]
  from c_sml have r3: "?q3 = (Inr False, ex_mnlist)" by simp
  show ?thesis
    by (intro conjI) (rule t2 ex_llmq_cond j1 j2 r2 f1 t1 r1 d t3 k3 r3)+
qed

subsection \<open>A diff without merkle hashes\<close>

text \<open>
  A diff whose list \<open>merkleHashes\<close> is empty makes \<open>check_cbtx_merkle_root\<close> read
  \<open>pmt[0]\<close> of an empty list: \<open>process_mnlistdiff\<close> raises \<open>IndexError\<close>, after both
  root checks, and leaves the state as it was.
\<close>

lemma empty_merkle_hashes_raise:
  "process_mnlistdiff ex_env ex_mnlist_no_quorums 1030080 1030090 (ex_diff_v1\<lparr>merkleHashes := []\<rparr>)
   = (Inl IndexError, ex_mnlist_no_quorums)"
proof -
  let ?d = "ex_diff_v1\<lparr>merkleHashes := []\<rparr>"
  have c: "cbTx ?d = ex_cbtx_v1" "merkleHashes ?d = []"
    by (simp_all add: ex_diff_v1_def)
  have n: "mnlistdiff_sml_new ex_env ex_mnlist_no_quorums ?d
           = mnlistdiff_sml_new ex_env ex_mnlist_no_quorums ex_diff_v1"
    "mnlistdiff_llmq_new ex_env ex_mnlist_no_quorums ?d
           = mnlistdiff_llmq_new ex_env ex_mnlist_no_quorums ex_diff_v1"
    by (simp_all add: mnlistdiff_sml_new_def mnlistdiff_llmq_new_def mnlistdiff_deleted_mns_def)
  have t: "tx_type ex_cbtx_v1 = 5" "cb_version (extra_payload ex_cbtx_v1) = 1"
    by (simp_all add: ex_cbtx_v1_def)
  have e: "sha256d ex_env = sha256d_fips" by (simp add: ex_env_def)
  have k: "check_cbtx_merkle_root ex_env ex_mnlist_no_quorums ex_cbtx_v1 (Some []) (Some [])
           = Inl IndexError"
    by (simp add: check_cbtx_merkle_root_def cbtx_pmt_def)
  show ?thesis
    by (simp add: process_mnlistdiff_def Let_def c t e n ex_llmq_cond ex_sml_new ex_llmq_new
        ex_sml_check k)
qed

section \<open>The double hash of 64 zero bytes\<close>

text \<open>
  The double hash of 64 zero bytes, block by block: two blocks for the first hash
  (the message and its padding) and one for the second.
\<close>

lemma sha_c1:
  "sha_compress H256 (replicate 64 0)
   = [3663108286, 398046313, 1647531929, 2006957770, 2363872401, 3235013187, 3137272298,
      406301144]"
  by code_simp

lemma sha_c2:
  "sha_compress [3663108286, 398046313, 1647531929, 2006957770, 2363872401, 3235013187,
                 3137272298, 406301144]
     (128 # replicate 55 0 @ [0, 0, 0, 0, 0, 0, 2, 0])
   = [4121296194, 3513393200, 664334190, 3540621211, 1124089123, 551153896, 3935842729,
      660208459]"
  by code_simp

lemma sha_c3:
  "sha_compress H256
     ([245, 165, 253, 66, 209, 106, 32, 48, 39, 152, 239, 110, 211, 9, 151, 155, 67, 0, 61, 35,
       32, 217, 240, 232, 234, 152, 49, 169, 39, 89, 251, 75]
      @ 128 # replicate 23 0 @ [0, 0, 0, 0, 0, 0, 1, 0])
   = [3807779903, 1909579517, 1068079583, 2741588853, 1550386825, 2040095412, 2347489334,
      2538507513]"
  by code_simp

lemma sha_blocks1:
  "chunks (length (sha_pad (replicate 64 0)) div 64) 64 (sha_pad (replicate 64 0))
   = [replicate 64 0, 128 # replicate 55 0 @ [0, 0, 0, 0, 0, 0, 2, 0]]"
  by code_simp

lemma sha_digest1:
  "concat (map word_bytes [4121296194, 3513393200, 664334190, 3540621211, 1124089123,
                           551153896, 3935842729, 660208459])
   = [245, 165, 253, 66, 209, 106, 32, 48, 39, 152, 239, 110, 211, 9, 151, 155, 67, 0, 61, 35,
      32, 217, 240, 232, 234, 152, 49, 169, 39, 89, 251, 75]"
  by code_simp

lemma sha_blocks2:
  "chunks (length (sha_pad [245, 165, 253, 66, 209, 106, 32, 48, 39, 152, 239, 110, 211, 9,
                            151, 155, 67, 0, 61, 35, 32, 217, 240, 232, 234, 152, 49, 169, 39,
                            89, 251, 75]) div 64) 64
     (sha_pad [245, 165, 253, 66, 209, 106, 32, 48, 39, 152, 239, 110, 211, 9, 151, 155, 67, 0,
               61, 35, 32, 217, 240, 232, 234, 152, 49, 169, 39, 89, 251, 75])
   = [[245, 165, 253, 66, 209, 106, 32, 48, 39, 152, 239, 110, 211, 9, 151, 155, 67, 0, 61, 35,
       32, 217, 240, 232, 234, 152, 49, 169, 39, 89, 251, 75]
      @ 128 # replicate 23 0 @ [0, 0, 0, 0, 0, 0, 1, 0]]"
  by code_simp

lemma sha_digest2:
  "concat (map word_bytes [3807779903, 1909579517, 1068079583, 2741588853, 1550386825,
                           2040095412, 2347489334, 2538507513])
   = [226, 246, 28, 63, 113, 209, 222, 253, 63, 169, 153, 223, 163, 105, 83, 117, 92, 105, 6,
      137, 121, 153, 98, 180, 139, 235, 216, 54, 151, 78, 140, 249]"
  by code_simp

lemma sha256_zero64:
  "sha256 (replicate 64 0)
   = [245, 165, 253, 66, 209, 106, 32, 48, 39, 152, 239, 110, 211, 9, 151, 155, 67, 0, 61, 35,
      32, 217, 240, 232, 234, 152, 49, 169, 39, 89, 251, 75]"
  by (simp only: sha256_def Let_def sha_blocks1 foldl.simps sha_c1 sha_c2 sha_digest1)

lemma sha256d_zero64:
  "sha256d_fips (replicate 64 0)
   = [226, 246, 28, 63, 113, 209, 222, 253, 63, 169, 153, 223, 163, 105, 83, 117, 92, 105, 6,
      137, 121, 153, 98, 180, 139, 235, 216, 54, 151, 78, 140, 249]"
  by (simp only: sha256d_fips_def sha256_zero64)
     (simp only: sha256_def Let_def sha_blocks2 foldl.simps sha_c3 sha_digest2)

text \<open>
  The root of a list of one hash is that hash; the root of the list with the hash
  appended once more is the double hash of the pair.  For the hash of 32 zero bytes
  the two differ.
\<close>

theorem calc_merkle_root_single_counterexample:
  "odd (length [replicate 32 (0::byte)])
   \<and> calc_merkle_root sha256d_fips [replicate 32 0]
       \<noteq> calc_merkle_root sha256d_fips ([replicate 32 0] @ [last [replicate 32 0]])"
proof -
  let ?z = "replicate 32 (0::byte)"
  have zz: "?z @ ?z = replicate 64 0" by (simp add: replicate_add[symmetric])
  have "calc_merkle_root sha256d_fips ([?z] @ [last [?z]])
        = calc_merkle_root sha256d_fips (merkle_level sha256d_fips [?z, ?z])"
    using calc_merkle_root_level[of "[?z, ?z]" sha256d_fips] by simp
  then have r: "calc_merkle_root sha256d_fips ([?z] @ [last [?z]])
                = Some (hfu (rev (sha256d_fips (replicate 64 0))))"
    by (simp add: calc_merkle_root_single zz)
  have ne: "?z \<noteq> sha256d_fips (replicate 64 0)" unfolding sha256d_zero64 by code_simp
  have o: "odd (length [?z])" by simp
  from ne have d: "Some (hfu (rev ?z)) \<noteq> Some (hfu (rev (sha256d_fips (replicate 64 0))))"
    by (simp only: option.inject hfu_rev_inj not_False_eq_True)
  show ?thesis unfolding r calc_merkle_root_single by (rule conjI[OF o d])
qed

end
